theory Spec2Isabelle
  imports Complex_Main "HOL-Library.Log_Nat"
begin

section \<open>Site2QR: form-to-canvas-to-PNG generators\<close>

text \<open>
  The repository has four client-rendered pages: the poster page (\<^verbatim>\<open>src/app/page.tsx\<close>),
  the banner page (\<^verbatim>\<open>src/app/banner/page.tsx\<close>), the business-card page
  (\<^verbatim>\<open>src/unnamed/part_000\<close>) and the logo page (\<^verbatim>\<open>src/unnamed/part_001\<close>).
  Each page has a pure part (string helpers), a canvas routine (\<^verbatim>\<open>createPoster\<close>,
  \<^verbatim>\<open>createBanner\<close>, \<^verbatim>\<open>createBusinessCard\<close>, \<^verbatim>\<open>createLogo\<close>) and a submit handler
  that threads the React state.

  Modelling decisions.
  \<^item> A JavaScript string is a \<^typ>\<open>string\<close>, one \<^typ>\<open>char\<close> per code unit; the strings
    covered are those whose code units are below 256.
  \<^item> A finite JavaScript number is the \<^typ>\<open>real\<close> it denotes. Sums and differences of
    integers below \<^verbatim>\<open>2^53\<close> and halvings are exact in IEEE arithmetic and are
    written with the operations of \<^typ>\<open>real\<close>; where the code computes with a decimal
    literal, with a measured text width or with the loop variable of \<^verbatim>\<open>drawFittedText\<close>, the
    result is rounded to the nearest double (\<open>double\<close>). A number that may be
    \<^verbatim>\<open>NaN\<close> or infinite is a \<open>jsnum\<close>.
  \<^item> The canvas and everything else the browser provides are observed through the
    sequence of calls the code makes on them, in program order (a \<^emph>\<open>script\<close>). What the
    browser answers (text widths, whether an image loads, the PNG encoding of a canvas,
    the QR encoder's output) is a parameter, the record \<open>env\<close>.
  \<^item> A rejected promise or a thrown exception is the \<open>Inl\<close> branch of a sum.
\<close>

subsection \<open>Strings\<close>

definition isSpace :: "char \<Rightarrow> bool" where
  \<comment> \<open>the code units below 256 that \<^verbatim>\<open>\s\<close> and \<^verbatim>\<open>trim()\<close> treat as white space (the others,
      such as U+2003 or U+FEFF, are code units that a \<^typ>\<open>char\<close> cannot hold)\<close>
  "isSpace c = (c \<in> set [CHR 0x09, CHR 0x0A, CHR 0x0B, CHR 0x0C, CHR 0x0D, CHR 0x20, CHR 0xA0])"

definition trim :: "string \<Rightarrow> string" where
  "trim s = rev (dropWhile isSpace (rev (dropWhile isSpace s)))"

definition upperChar :: "char \<Rightarrow> char" where
  \<comment> \<open>the upper case of a code unit below 256 whose upper case is one such code unit:
      \<^verbatim>\<open>a\<close> to \<^verbatim>\<open>z\<close> and U+00E0 to U+00FE without the division sign U+00F7. The upper
      case of U+00B5 and of U+00FF lies above U+00FF and is not covered.\<close>
  "upperChar c = (let n = (of_char c :: nat) in
     if (97 \<le> n \<and> n \<le> 122) \<or> (224 \<le> n \<and> n \<le> 254 \<and> n \<noteq> 247) then char_of (n - 32) else c)"

definition lowerChar :: "char \<Rightarrow> char" where
  \<comment> \<open>\<^verbatim>\<open>A\<close> to \<^verbatim>\<open>Z\<close> and U+00C0 to U+00DE without the multiplication sign U+00D7\<close>
  "lowerChar c = (let n = (of_char c :: nat) in
     if (65 \<le> n \<and> n \<le> 90) \<or> (192 \<le> n \<and> n \<le> 222 \<and> n \<noteq> 215) then char_of (n + 32) else c)"

definition toUpperCase :: "string \<Rightarrow> string" where
  \<comment> \<open>the sharp s U+00DF becomes \<^verbatim>\<open>SS\<close>\<close>
  "toUpperCase s = concat (map (\<lambda>c. if c = CHR 0xDF then ''SS'' else [upperChar c]) s)"

definition toLowerCase :: "string \<Rightarrow> string" where
  "toLowerCase s = map lowerChar s"

definition or_default :: "string \<Rightarrow> string \<Rightarrow> string" where
  \<comment> \<open>\<^verbatim>\<open>a || d\<close> on strings: the empty string is falsy\<close>
  "or_default a d = (if a = [] then d else a)"

definition truthy :: "string option \<Rightarrow> string option" where
  \<comment> \<open>a \<^verbatim>\<open>string | null\<close> used as a condition: \<^verbatim>\<open>null\<close> and the empty string are falsy\<close>
  "truthy u = (case u of None \<Rightarrow> None | Some v \<Rightarrow> if v = [] then None else Some v)"

definition isHexDigit :: "char \<Rightarrow> bool" where
  \<comment> \<open>the character class \<^verbatim>\<open>[0-9a-fA-F]\<close>\<close>
  "isHexDigit c = (let n = (of_char c :: nat) in
     (48 \<le> n \<and> n \<le> 57) \<or> (65 \<le> n \<and> n \<le> 70) \<or> (97 \<le> n \<and> n \<le> 102))"

definition hexPattern_test :: "string \<Rightarrow> bool" where
  \<comment> \<open>\<^verbatim>\<open>/^#[0-9a-fA-F]{6}$/.test(s)\<close>\<close>
  "hexPattern_test s =
     (case s of [] \<Rightarrow> False | c # cs \<Rightarrow> c = CHR ''#'' \<and> length cs = 6 \<and> list_all isHexDigit cs)"

definition normalizeHex :: "string \<Rightarrow> string \<Rightarrow> string" where
  "normalizeHex val fallback =
     (let trimmed = trim val in
      if hexPattern_test trimmed then toUpperCase trimmed else fallback)"

definition isUpperHexDigit :: "char \<Rightarrow> bool" where
  \<comment> \<open>the character class \<^verbatim>\<open>[0-9A-F]\<close>\<close>
  "isUpperHexDigit c = (let n = (of_char c :: nat) in (48 \<le> n \<and> n \<le> 57) \<or> (65 \<le> n \<and> n \<le> 70))"

definition wellFormedHex :: "string \<Rightarrow> bool" where
  \<comment> \<open>the whole string matches \<^verbatim>\<open>#[0-9A-F]{6}\<close>\<close>
  "wellFormedHex s =
     (case s of [] \<Rightarrow> False | c # cs \<Rightarrow> c = CHR ''#'' \<and> length cs = 6 \<and> list_all isUpperHexDigit cs)"

definition slice0 :: "string \<Rightarrow> int \<Rightarrow> string" where
  \<comment> \<open>\<^verbatim>\<open>s.slice(0, e)\<close>: a negative end counts from the end of the string\<close>
  "slice0 s e =
     (let n = int (length s); k = (if e < 0 then max (n + e) 0 else min e n) in take (nat k) s)"

definition truncateText :: "string \<Rightarrow> int \<Rightarrow> string" where
  "truncateText val maxLength =
     (if int (length val) \<le> maxLength then val else slice0 val (maxLength - 3) @ ''...'')"

fun split_ws :: "string \<Rightarrow> string list" where
  \<comment> \<open>\<^verbatim>\<open>s.split(/\s+/)\<close>\<close>
  "split_ws [] = [[]]"
| "split_ws [c] = (if isSpace c then [[], []] else [[c]])"
| "split_ws (c # d # cs) =
     (if isSpace c then (if isSpace d then split_ws (d # cs) else [] # split_ws (d # cs))
      else (case split_ws (d # cs) of [] \<Rightarrow> [[c]] | w # ws \<Rightarrow> (c # w) # ws))"

fun replace_ws :: "string \<Rightarrow> string \<Rightarrow> string" where
  \<comment> \<open>\<^verbatim>\<open>s.replace(/\s+/g, r)\<close>\<close>
  "replace_ws r [] = []"
| "replace_ws r [c] = (if isSpace c then r else [c])"
| "replace_ws r (c # d # cs) =
     (if isSpace c then (if isSpace d then replace_ws r (d # cs) else r @ replace_ws r (d # cs))
      else c # replace_ws r (d # cs))"

definition getInitials :: "string \<Rightarrow> string" where
  "getInitials val =
     (let trimmed = trim val in
      if trimmed = [] then ''QR''
      else concat (map (\<lambda>word. case word of [] \<Rightarrow> [] | c # _ \<Rightarrow> toUpperCase [c])
                       (take 2 (split_ws trimmed))))"

subsection \<open>Numbers\<close>

datatype jsnum = NaN | Num real | PosInfinity | NegInfinity

definition pow2 :: "int \<Rightarrow> real" where
  "pow2 k = (if 0 \<le> k then 2 ^ nat k else 1 / 2 ^ nat (- k))"

definition exponent :: "real \<Rightarrow> int" where
  \<comment> \<open>the \<open>e\<close> with \<^verbatim>\<open>2^e <= |x| < 2^(e+1)\<close>, for \<open>x \<noteq> 0\<close>\<close>
  "exponent x =
     (let a = \<bar>x\<bar> in
      if 1 \<le> a then bitlen \<lfloor>a\<rfloor> - 1
      else (let k = bitlen \<lfloor>1 / a\<rfloor> - 1 in if a = pow2 (- k) then - k else - k - 1))"

definition round_even :: "real \<Rightarrow> int" where
  \<comment> \<open>the nearest integer, the even one of the two when they are equally near\<close>
  "round_even q =
     (let n = \<lfloor>q\<rfloor>; r = q - of_int n in
      if r < 1 / 2 then n else if 1 / 2 < r then n + 1 else if even n then n else n + 1)"

definition double :: "real \<Rightarrow> real" where
  \<comment> \<open>the IEEE 754 binary64 number nearest to \<open>x\<close> (53 significant bits, ties to even),
      for the normal range \<^verbatim>\<open>2^-1022 <= |x| < 2^1024\<close> and for \<open>0\<close>\<close>
  "double x =
     (if x = 0 then 0
      else (let u = pow2 (exponent x - 52) in of_int (round_even (x / u)) * u))"

definition js_times :: "real \<Rightarrow> real \<Rightarrow> real" where
  \<comment> \<open>\<^verbatim>\<open>a * b\<close>\<close>
  "js_times a b = double (a * b)"

definition js_plus :: "real \<Rightarrow> real \<Rightarrow> real" where
  \<comment> \<open>\<^verbatim>\<open>a + b\<close>\<close>
  "js_plus a b = double (a + b)"

definition js_minus :: "real \<Rightarrow> real \<Rightarrow> real" where
  \<comment> \<open>\<^verbatim>\<open>a - b\<close>\<close>
  "js_minus a b = double (a - b)"

fun js_gt :: "jsnum \<Rightarrow> real \<Rightarrow> bool" where
  \<comment> \<open>\<^verbatim>\<open>n > c\<close>: every comparison with \<^verbatim>\<open>NaN\<close> is false\<close>
  "js_gt NaN c = False"
| "js_gt (Num r) c = (c < r)"
| "js_gt PosInfinity c = True"
| "js_gt NegInfinity c = False"

fun js_le :: "real \<Rightarrow> jsnum \<Rightarrow> bool" where
  \<comment> \<open>\<^verbatim>\<open>c <= n\<close>\<close>
  "js_le c NaN = False"
| "js_le c (Num r) = (c \<le> r)"
| "js_le c PosInfinity = True"
| "js_le c NegInfinity = False"

fun js_sub :: "jsnum \<Rightarrow> real \<Rightarrow> jsnum" where
  \<comment> \<open>\<^verbatim>\<open>n - c\<close> for a finite \<open>c\<close>\<close>
  "js_sub NaN c = NaN"
| "js_sub (Num r) c = Num (js_minus r c)"
| "js_sub PosInfinity c = PosInfinity"
| "js_sub NegInfinity c = NegInfinity"

subsection \<open>The browser as the code sees it\<close>

datatype error = Error string

datatype image = Img string
  \<comment> \<open>an \<^verbatim>\<open>HTMLImageElement\<close>, known by the \<^verbatim>\<open>src\<close> it was loaded from\<close>

datatype font = Font int real string | FontText int string string
  \<comment> \<open>\<open>Font w s f\<close> is the font string \<^verbatim>\<open>`${w} ${s}px "${f}"`\<close> for a finite size \<open>s\<close>;
      \<open>FontText w t f\<close> is the one in which the size prints as the text \<open>t\<close>\<close>

fun font_of :: "int \<Rightarrow> jsnum \<Rightarrow> string \<Rightarrow> font" where
  \<comment> \<open>the template literal \<^verbatim>\<open>`${fontWeight} ${size}px "${fontFamily}"`\<close>\<close>
  "font_of w (Num s) f = Font w s f"
| "font_of w NaN f = FontText w ''NaN'' f"
| "font_of w PosInfinity f = FontText w ''Infinity'' f"
| "font_of w NegInfinity f = FontText w ''-Infinity'' f"

datatype style = Color string | LinearGradient real real real real "(real \<times> string) list"
  \<comment> \<open>a CSS colour, or the gradient made by \<^verbatim>\<open>createLinearGradient\<close> and its colour stops\<close>

record QrOptions =
  qr_width :: real
  qr_margin :: real
  qr_dark :: string
  qr_light :: string

datatype call =
    SetWidth real | SetHeight real | GetContext string
  | SetFillStyle style | SetStrokeStyle style | SetGlobalAlpha real | SetLineWidth real
  | SetFont font | SetTextAlign string | SetTextBaseline string
  | FillRect real real real real | StrokeRect real real real real
  | Save | Restore | BeginPath | ClosePath | Fill | Stroke | Clip
  | MoveTo real real | LineTo real real | QuadraticCurveTo real real real real
  | Ellipse real real real real real real real | Arc real real real real real
  | MeasureText string | FillText string real real
  | LoadImage string | DrawImage image real real real real
  | ToDataURL string
  | FontsReady | FontsLoad font
  | QrToDataURL string QrOptions
  | LinkClick string string

type_synonym script = "call list"

record env =
  fonts_available :: bool
    \<comment> \<open>\<^verbatim>\<open>document.fonts?.ready\<close> is truthy\<close>
  fonts_load :: "font \<Rightarrow> error option"
    \<comment> \<open>\<^verbatim>\<open>document.fonts.load(f)\<close>: \<open>Some e\<close> when the promise rejects\<close>
  qr_toDataURL :: "string \<Rightarrow> QrOptions \<Rightarrow> error + string"
    \<comment> \<open>\<^verbatim>\<open>toDataURL\<close> of the \<^verbatim>\<open>qrcode\<close> package\<close>
  getContext2d :: bool
    \<comment> \<open>\<^verbatim>\<open>canvas.getContext("2d")\<close> is not null\<close>
  measureText :: "font \<Rightarrow> string \<Rightarrow> real"
    \<comment> \<open>\<^verbatim>\<open>ctx.measureText(t).width\<close> while \<^verbatim>\<open>ctx.font\<close> is the given font\<close>
  loadImage_ok :: "string \<Rightarrow> bool"
    \<comment> \<open>the image at this \<^verbatim>\<open>src\<close> fires \<^verbatim>\<open>onload\<close> (not \<^verbatim>\<open>onerror\<close>)\<close>
  canvas_toDataURL :: "script \<Rightarrow> error + string"
    \<comment> \<open>\<^verbatim>\<open>canvas.toDataURL("image/png")\<close> of the canvas that received this script\<close>
  js_Number :: "string \<Rightarrow> jsnum"
    \<comment> \<open>the built-in \<^verbatim>\<open>Number(s)\<close>\<close>
  mixHex :: "string \<Rightarrow> string \<Rightarrow> real \<Rightarrow> string"
    \<comment> \<open>\<^verbatim>\<open>mixHex\<close> of the poster page rounds IEEE doubles; it is kept as a parameter, so
        every theorem holds whatever colour it returns\<close>
  resume_order :: "nat list"
    \<comment> \<open>the event loop: the suspended callbacks of \<^verbatim>\<open>templates.map\<close> on the poster page, by
        their index, in the order in which their awaited promises settle\<close>

definition loadImage :: "env \<Rightarrow> string \<Rightarrow> error + image" where
  "loadImage e src = (if loadImage_ok e src then Inr (Img src) else Inl (Error ''Image failed to load''))"

definition Math_PI :: real where
  \<comment> \<open>the double nearest to \<open>\<pi>\<close>\<close>
  "Math_PI = 884279719003555 / 281474976710656"

definition DISPLAY_FONT :: string where "DISPLAY_FONT = ''Cinzel''"
definition BODY_FONT :: string where "BODY_FONT = ''Manrope''"
definition DEFAULT_PRIMARY :: string where "DEFAULT_PRIMARY = ''#D6B36C''"
definition DEFAULT_ACCENT :: string where "DEFAULT_ACCENT = ''#4AA7A0''"
definition POSTER_WIDTH :: real where "POSTER_WIDTH = 1200"
definition POSTER_HEIGHT :: real where "POSTER_HEIGHT = 800"
definition BANNER_WIDTH :: real where "BANNER_WIDTH = 1600"
definition BANNER_HEIGHT :: real where "BANNER_HEIGHT = 600"
definition CARD_WIDTH :: real where "CARD_WIDTH = 1050"
definition CARD_HEIGHT :: real where "CARD_HEIGHT = 600"
definition LOGO_WIDTH :: real where "LOGO_WIDTH = 1000"
definition LOGO_HEIGHT :: real where "LOGO_HEIGHT = 600"

subsection \<open>Drawing helpers\<close>

definition drawRoundedRect :: "real \<Rightarrow> real \<Rightarrow> real \<Rightarrow> real \<Rightarrow> real \<Rightarrow> script" where
  "drawRoundedRect x y w h radius =
     (let safeRadius = min radius (min (w / 2) (h / 2)) in
      [BeginPath,
       MoveTo (js_plus x safeRadius) y,
       LineTo (js_minus (js_plus x w) safeRadius) y,
       QuadraticCurveTo (js_plus x w) y (js_plus x w) (js_plus y safeRadius),
       LineTo (js_plus x w) (js_minus (js_plus y h) safeRadius),
       QuadraticCurveTo (js_plus x w) (js_plus y h) (js_minus (js_plus x w) safeRadius) (js_plus y h),
       LineTo (js_plus x safeRadius) (js_plus y h),
       QuadraticCurveTo x (js_plus y h) x (js_minus (js_plus y h) safeRadius),
       LineTo x (js_plus y safeRadius),
       QuadraticCurveTo x y (js_plus x safeRadius) y,
       ClosePath])"

text \<open>
  The shrink loop of \<^verbatim>\<open>drawFittedText\<close>, the same in the four files:
  \<^verbatim>\<open>while (size > 14) { ctx.font = ...; if (ctx.measureText(text).width <= maxWidth) break; size -= 2; }\<close>
  It returns the calls made and the value of \<^verbatim>\<open>size\<close> (here \<open>sz\<close>) when the loop is left;
  \<open>None\<close> is a loop that is never left.
\<close>

partial_function (option) fitLoop ::
  "(font \<Rightarrow> string \<Rightarrow> real) \<Rightarrow> string \<Rightarrow> jsnum \<Rightarrow> string \<Rightarrow> int \<Rightarrow> jsnum \<Rightarrow> (script \<times> jsnum) option" where
  "fitLoop m txt maxWidth fontFamily fontWeight sz =
     (if js_gt sz 14 then
        (if js_le (m (font_of fontWeight sz fontFamily) txt) maxWidth
         then Some ([SetFont (font_of fontWeight sz fontFamily), MeasureText txt], sz)
         else Option.bind (fitLoop m txt maxWidth fontFamily fontWeight (js_sub sz 2))
                (\<lambda>(cs, s). Some (SetFont (font_of fontWeight sz fontFamily) # MeasureText txt # cs, s)))
      else Some ([], sz))"

declare fitLoop.simps [code]

definition drawFittedText_poster ::
  "env \<Rightarrow> string \<Rightarrow> jsnum \<Rightarrow> jsnum \<Rightarrow> string \<Rightarrow> int \<Rightarrow> real \<Rightarrow> real \<Rightarrow> string \<Rightarrow> script option" where
  \<comment> \<open>\<^verbatim>\<open>drawFittedText\<close> of \<^verbatim>\<open>src/app/page.tsx\<close>: always centred\<close>
  "drawFittedText_poster e txt maxWidth fontSize fontFamily fontWeight x y color =
     Option.bind (fitLoop (measureText e) txt maxWidth fontFamily fontWeight fontSize)
       (\<lambda>(cs, s). Some ([SetTextAlign ''center'', SetFillStyle (Color color)] @ cs @ [FillText txt x y]))"

definition drawFittedText ::
  "env \<Rightarrow> string \<Rightarrow> jsnum \<Rightarrow> jsnum \<Rightarrow> string \<Rightarrow> int \<Rightarrow> real \<Rightarrow> real \<Rightarrow> string \<Rightarrow> string \<Rightarrow> script option" where
  \<comment> \<open>\<^verbatim>\<open>drawFittedText\<close> of the banner, business-card and logo pages\<close>
  "drawFittedText e txt maxWidth fontSize fontFamily fontWeight x y color align =
     Option.bind (fitLoop (measureText e) txt maxWidth fontFamily fontWeight fontSize)
       (\<lambda>(cs, s). Some ([SetTextAlign align, SetTextBaseline ''alphabetic'', SetFillStyle (Color color)]
                         @ cs @ [FillText txt x y]))"

definition returned :: "script option \<Rightarrow> script" where
  \<comment> \<open>the calls made by a call of \<^verbatim>\<open>drawFittedText\<close> that returns. The canvas routines pass
      the literals 16 to 60 as \<open>fontSize\<close>, for which it does (\<open>drawFittedText_returns\<close>).\<close>
  "returned r = the r"

text \<open>
  The loop as claim C10 describes it: the candidate size goes down by exactly 2 until it
  is at most 14 or the text fits. \<open>shrink\<close> is this description, with the calls made on
  the way; \<open>fitLoop_shrink\<close> compares it with the loop of the code.
\<close>

function shrink :: "(font \<Rightarrow> string \<Rightarrow> real) \<Rightarrow> string \<Rightarrow> jsnum \<Rightarrow> string \<Rightarrow> int \<Rightarrow> real \<Rightarrow> script \<times> real" where
  "shrink m txt maxWidth fontFamily fontWeight sz =
     (if 14 < sz then
        (if js_le (m (Font fontWeight sz fontFamily) txt) maxWidth
         then ([SetFont (Font fontWeight sz fontFamily), MeasureText txt], sz)
         else (SetFont (Font fontWeight sz fontFamily) # MeasureText txt
                 # fst (shrink m txt maxWidth fontFamily fontWeight (sz - 2)),
               snd (shrink m txt maxWidth fontFamily fontWeight (sz - 2))))
      else ([], sz))"
  by pat_completeness auto
termination
proof (relation "measure (\<lambda>(m, txt, maxWidth, fontFamily, fontWeight, sz). nat \<lceil>sz - 14\<rceil>)")
  show "wf (measure (\<lambda>(m :: font \<Rightarrow> string \<Rightarrow> real, txt :: string, maxWidth :: jsnum,
                       fontFamily :: string, fontWeight :: int, sz :: real). nat \<lceil>sz - 14\<rceil>))"
    by simp
next
  fix m :: "font \<Rightarrow> string \<Rightarrow> real" and t fontFamily :: string and maxWidth :: jsnum
    and fontWeight :: int and sz :: real
  assume "14 < sz"
  then have "\<lceil>sz - 2 - 14\<rceil> < \<lceil>sz - 14\<rceil>" and "0 < \<lceil>sz - 14\<rceil>" by linarith+
  then show "((m, t, maxWidth, fontFamily, fontWeight, sz - 2), m, t, maxWidth, fontFamily, fontWeight, sz)
      \<in> measure (\<lambda>(m, t, maxWidth, fontFamily, fontWeight, sz). nat \<lceil>sz - 14\<rceil>)"
    by simp
  then show "((m, t, maxWidth, fontFamily, fontWeight, sz - 2), m, t, maxWidth, fontFamily, fontWeight, sz)
      \<in> measure (\<lambda>(m, t, maxWidth, fontFamily, fontWeight, sz). nat \<lceil>sz - 14\<rceil>)" .
qed

declare shrink.simps [simp del]

text \<open>
  What the 2D context holds in \<^verbatim>\<open>ctx.font\<close> after a script: the last value assigned,
  with \<^verbatim>\<open>save()\<close> and \<^verbatim>\<open>restore()\<close> pushing and popping it. The first component is the
  current font, the second the stack of saved ones.
\<close>

fun font_step :: "font \<times> font list \<Rightarrow> call \<Rightarrow> font \<times> font list" where
  "font_step (f, st) (SetFont g) = (g, st)"
| "font_step (f, st) Save = (f, f # st)"
| "font_step (f, st) Restore = (case st of [] \<Rightarrow> (f, []) | g # st' \<Rightarrow> (g, st'))"
| "font_step (f, st) _ = (f, st)"

definition font_after :: "font \<Rightarrow> script \<Rightarrow> font" where
  "font_after f0 cs = fst (foldl font_step (f0, []) cs)"

text \<open>
  The pixel size of the canvas after a script: \<^verbatim>\<open>canvas.width\<close> and \<^verbatim>\<open>canvas.height\<close>
  hold the last value assigned; a new canvas is 300 by 150.
\<close>

fun size_step :: "real \<times> real \<Rightarrow> call \<Rightarrow> real \<times> real" where
  "size_step (w, h) (SetWidth w') = (w', h)"
| "size_step (w, h) (SetHeight h') = (w, h')"
| "size_step (w, h) _ = (w, h)"

definition canvas_size :: "script \<Rightarrow> real \<times> real" where
  "canvas_size cs = foldl size_step (300, 150) cs"


subsection \<open>The poster page (src/app/page.tsx)\<close>

record Palette =
  pal_background :: string
  pal_backgroundAlt :: string
  pal_frame :: string
  pal_text :: string
  pal_muted :: string
  pal_accent :: string
  pal_glow :: string
  pal_card :: string
  pal_cardBorder :: string
  pal_qrDark :: string
  pal_qrLight :: string

record PosterTemplate =
  t_id :: string
  t_name :: string
  t_description :: string
  t_cta :: string
  t_palette :: Palette

record PosterResult =
  r_id :: string
  r_name :: string
  r_description :: string
  r_posterUrl :: string

definition buildTemplates :: "env \<Rightarrow> string \<Rightarrow> string \<Rightarrow> PosterTemplate list" where
  "buildTemplates e primary accent =
     (let baseDark = ''#0B0B10''; baseLight = ''#F7F3EA'' in
      [\<lparr>t_id = ''gilt'', t_name = ''Gilt Plaque'',
        t_description = ''Classic dark board with gold framing.'',
        t_cta = ''Connect with us'',
        t_palette = \<lparr>
          pal_background = baseDark,
          pal_backgroundAlt = mixHex e baseDark primary 0.12,
          pal_frame = mixHex e primary ''#FFFFFF'' 0.25,
          pal_text = ''#F8F4E6'',
          pal_muted = mixHex e ''#F8F4E6'' ''#9CA3AF'' 0.25,
          pal_accent = primary,
          pal_glow = mixHex e primary ''#FFFFFF'' 0.35,
          pal_card = ''#FDF8EE'',
          pal_cardBorder = mixHex e primary ''#FFFFFF'' 0.35,
          pal_qrDark = mixHex e primary ''#101010'' 0.4,
          pal_qrLight = ''#FFFFFF''\<rparr>\<rparr>,
       \<lparr>t_id = ''noir'', t_name = ''Noir Accent'',
        t_description = ''Deep tones with bold accent energy.'',
        t_cta = ''Scan the code'',
        t_palette = \<lparr>
          pal_background = mixHex e baseDark accent 0.08,
          pal_backgroundAlt = mixHex e ''#111827'' accent 0.16,
          pal_frame = mixHex e accent ''#FFFFFF'' 0.22,
          pal_text = ''#F3F4F6'',
          pal_muted = mixHex e ''#F3F4F6'' ''#94A3B8'' 0.35,
          pal_accent = accent,
          pal_glow = mixHex e accent ''#FFFFFF'' 0.28,
          pal_card = mixHex e ''#F8FAFC'' accent 0.08,
          pal_cardBorder = mixHex e accent ''#FFFFFF'' 0.35,
          pal_qrDark = mixHex e accent ''#0F172A'' 0.5,
          pal_qrLight = ''#FFFFFF''\<rparr>\<rparr>,
       \<lparr>t_id = ''ivory'', t_name = ''Ivory Studio'',
        t_description = ''Light premium layout with soft framing.'',
        t_cta = ''Your link, beautifully'',
        t_palette = \<lparr>
          pal_background = baseLight,
          pal_backgroundAlt = mixHex e baseLight primary 0.1,
          pal_frame = mixHex e primary ''#000000'' 0.2,
          pal_text = ''#1F2937'',
          pal_muted = mixHex e ''#1F2937'' ''#6B7280'' 0.55,
          pal_accent = accent,
          pal_glow = mixHex e accent ''#FFFFFF'' 0.35,
          pal_card = ''#FFFFFF'',
          pal_cardBorder = mixHex e primary ''#FFFFFF'' 0.5,
          pal_qrDark = mixHex e primary ''#111827'' 0.4,
          pal_qrLight = ''#FFFFFF''\<rparr>\<rparr>])"

record PosterPayload =
  pp_template :: PosterTemplate
  pp_brandName :: string
  pp_tagline :: string
  pp_url :: string
  pp_qrSize :: real
  pp_qrDataUrl :: string
  pp_logoImage :: "image option"

definition poster_cardWidth :: "PosterPayload \<Rightarrow> real" where
  "poster_cardWidth p = pp_qrSize p + 90"

definition poster_cardHeight :: "PosterPayload \<Rightarrow> real" where
  "poster_cardHeight p = pp_qrSize p + 90"

definition poster_cardX :: "PosterPayload \<Rightarrow> real" where
  "poster_cardX p = (POSTER_WIDTH - poster_cardWidth p) / 2"

definition poster_cardY :: real where
  "poster_cardY = 260"

definition createPoster_upto_qr :: "env \<Rightarrow> PosterPayload \<Rightarrow> script" where
  \<comment> \<open>the statements of \<^verbatim>\<open>createPoster\<close> from the gradient to the stroke of the QR card\<close>
  "createPoster_upto_qr e p =
     (let template = pp_template p; palette = t_palette template in
      [SetFillStyle (LinearGradient 0 0 POSTER_WIDTH POSTER_HEIGHT
         [(0, pal_background palette), (1, pal_backgroundAlt palette)]),
       FillRect 0 0 POSTER_WIDTH POSTER_HEIGHT,
       Save, SetGlobalAlpha 0.35, SetFillStyle (Color (pal_glow palette)), BeginPath,
       Ellipse (js_times POSTER_WIDTH (double 0.82)) (js_times POSTER_HEIGHT (double 0.18)) 190 120 0 0 (Math_PI * 2),
       Fill, Restore,
       Save, SetGlobalAlpha 0.2, SetFillStyle (Color (pal_accent palette)), BeginPath,
       Ellipse (js_times POSTER_WIDTH (double 0.18)) (js_times POSTER_HEIGHT (double 0.86)) 220 140 0 0 (Math_PI * 2),
       Fill, Restore,
       SetLineWidth 6, SetStrokeStyle (Color (pal_frame palette)),
       StrokeRect 28 28 (POSTER_WIDTH - 56) (POSTER_HEIGHT - 56),
       SetLineWidth 2, SetStrokeStyle (Color ''rgba(255, 255, 255, 0.12)''),
       StrokeRect 52 52 (POSTER_WIDTH - 104) (POSTER_HEIGHT - 104)]
      @ (case pp_logoImage p of
           None \<Rightarrow> []
         | Some logoImage \<Rightarrow>
             (let logoSize = 88; logoX = 110; logoY = 110 in
              [Save, BeginPath, Arc logoX logoY (logoSize / 2) 0 (Math_PI * 2), ClosePath, Clip,
               DrawImage logoImage (logoX - logoSize / 2) (logoY - logoSize / 2) logoSize logoSize,
               Restore,
               SetStrokeStyle (Color (pal_frame palette)), SetLineWidth 3, BeginPath,
               Arc logoX logoY (logoSize / 2 + 3) 0 (Math_PI * 2), Stroke]))
      @ returned (drawFittedText_poster e (pp_brandName p) (Num (POSTER_WIDTH - 200)) (Num 48)
          DISPLAY_FONT 700 (POSTER_WIDTH / 2) 128 (pal_text palette))
      @ returned (drawFittedText_poster e (pp_tagline p) (Num (POSTER_WIDTH - 240)) (Num 22)
          BODY_FONT 500 (POSTER_WIDTH / 2) 162 (pal_muted palette))
      @ [SetFont (Font 600 26 DISPLAY_FONT), SetTextAlign ''center'',
         SetFillStyle (Color (pal_accent palette)),
         FillText (t_cta template) (POSTER_WIDTH / 2) 220]
      @ drawRoundedRect (poster_cardX p) poster_cardY (poster_cardWidth p) (poster_cardHeight p) 28
      @ [SetFillStyle (Color (pal_card palette)), Fill,
         SetLineWidth 3, SetStrokeStyle (Color (pal_cardBorder palette)), Stroke])"

definition createPoster_from_qr :: "PosterPayload \<Rightarrow> image \<Rightarrow> script" where
  \<comment> \<open>the statements of \<^verbatim>\<open>createPoster\<close> after \<^verbatim>\<open>await loadImage(qrDataUrl)\<close>, up to the return\<close>
  "createPoster_from_qr p qrImage =
     (let template = pp_template p; palette = t_palette template;
          displayUrl = truncateText (pp_url p) 52 in
      [DrawImage qrImage (poster_cardX p + 45) (poster_cardY + 45) (pp_qrSize p) (pp_qrSize p),
       SetFont (Font 500 20 BODY_FONT), SetFillStyle (Color (pal_muted palette)),
       SetTextAlign ''center'',
       FillText displayUrl (POSTER_WIDTH / 2) (poster_cardY + poster_cardHeight p + 50),
       SetFont (Font 600 18 BODY_FONT), SetFillStyle (Color (pal_text palette)),
       FillText (t_name template) (POSTER_WIDTH / 2) (POSTER_HEIGHT - 62)])"

definition createPoster :: "env \<Rightarrow> PosterPayload \<Rightarrow> script \<times> (error + string)" where
  "createPoster e p =
     (let canvas = [SetWidth POSTER_WIDTH, SetHeight POSTER_HEIGHT, GetContext ''2d''] in
      if \<not> getContext2d e then (canvas, Inl (Error ''Canvas not supported''))
      else
        (let drawn = canvas @ createPoster_upto_qr e p @ [LoadImage (pp_qrDataUrl p)] in
         case loadImage e (pp_qrDataUrl p) of
           Inl err \<Rightarrow> (drawn, Inl err)
         | Inr qrImage \<Rightarrow>
             (let finished = drawn @ createPoster_from_qr p qrImage in
              (finished @ [ToDataURL ''image/png''], canvas_toDataURL e finished))))"

definition createPoster_segments :: "env \<Rightarrow> PosterPayload \<Rightarrow> script list" where
  \<comment> \<open>the calls of \<^verbatim>\<open>createPoster\<close>, cut at its \<^verbatim>\<open>await\<close>: what runs before the QR image has
      loaded, and what runs after\<close>
  "createPoster_segments e p =
     (let canvas = [SetWidth POSTER_WIDTH, SetHeight POSTER_HEIGHT, GetContext ''2d''] in
      if \<not> getContext2d e then [canvas]
      else (canvas @ createPoster_upto_qr e p @ [LoadImage (pp_qrDataUrl p)])
           # (case loadImage e (pp_qrDataUrl p) of
                Inl err \<Rightarrow> []
              | Inr qrImage \<Rightarrow> [createPoster_from_qr p qrImage @ [ToDataURL ''image/png'']]))"

record PosterPage =
  ps_url :: string
  ps_brandName :: string
  ps_tagline :: string
  ps_primaryColor :: string
  ps_accentColor :: string
  ps_size :: string
  ps_logoUrl :: "string option"
  ps_posters :: "PosterResult list"
  ps_loading :: bool
  ps_error :: string

definition loadFonts :: "env \<Rightarrow> font \<Rightarrow> font \<Rightarrow> script \<times> error option" where
  \<comment> \<open>\<^verbatim>\<open>if (document.fonts?.ready) { await document.fonts.ready; await Promise.all([load(a), load(b)]); }\<close>\<close>
  "loadFonts e a b =
     (if fonts_available e
      then ([FontsReady, FontsLoad a, FontsLoad b],
            (case fonts_load e a of Some err \<Rightarrow> Some err | None \<Rightarrow> fonts_load e b))
      else ([], None))"

definition clampQrSize :: "jsnum \<Rightarrow> real" where
  \<comment> \<open>\<^verbatim>\<open>Math.min(Math.max(n || 260, 200), 360)\<close>: \<^verbatim>\<open>NaN\<close> and \<^verbatim>\<open>0\<close> are falsy\<close>
  "clampQrSize n =
     (case n of
        NaN \<Rightarrow> min (max 260 200) 360
      | Num r \<Rightarrow> (if r = 0 then min (max 260 200) 360 else min (max r 200) 360)
      | PosInfinity \<Rightarrow> 360
      | NegInfinity \<Rightarrow> 200)"

fun promise_all :: "(error + 'a) list \<Rightarrow> error + 'a list" where
  \<comment> \<open>\<^verbatim>\<open>Promise.all\<close>: the list of results, or a rejection when one of them rejects\<close>
  "promise_all [] = Inr []"
| "promise_all (Inl err # rs) = Inl err"
| "promise_all (Inr v # rs) = (case promise_all rs of Inl err \<Rightarrow> Inl err | Inr vs \<Rightarrow> Inr (v # vs))"

definition poster_qrOptions :: "real \<Rightarrow> PosterTemplate \<Rightarrow> QrOptions" where
  \<comment> \<open>the options object passed to the QR encoder\<close>
  "poster_qrOptions qrSize template =
     \<lparr>qr_width = qrSize, qr_margin = 1,
      qr_dark = pal_qrDark (t_palette template),
      qr_light = pal_qrLight (t_palette template)\<rparr>"

definition poster_payload ::
  "PosterTemplate \<Rightarrow> string \<Rightarrow> string \<Rightarrow> string \<Rightarrow> real \<Rightarrow> string \<Rightarrow> image option
     \<Rightarrow> PosterPayload" where
  \<comment> \<open>the object literal passed to \<^verbatim>\<open>createPoster\<close>\<close>
  "poster_payload template resolvedBrand resolvedTagline trimmedUrl qrSize qrDataUrl logoImage =
     \<lparr>pp_template = template, pp_brandName = resolvedBrand, pp_tagline = resolvedTagline,
      pp_url = trimmedUrl, pp_qrSize = qrSize, pp_qrDataUrl = qrDataUrl,
      pp_logoImage = logoImage\<rparr>"

definition poster_for ::
  "env \<Rightarrow> string \<Rightarrow> real \<Rightarrow> string \<Rightarrow> string \<Rightarrow> image option \<Rightarrow> PosterTemplate
     \<Rightarrow> script \<times> (error + PosterResult)" where
  \<comment> \<open>the async callback of \<^verbatim>\<open>templates.map\<close> in \<^verbatim>\<open>handleSubmit\<close>\<close>
  "poster_for e trimmedUrl qrSize resolvedBrand resolvedTagline logoImage template =
     (case qr_toDataURL e trimmedUrl (poster_qrOptions qrSize template) of
        Inl err \<Rightarrow> ([QrToDataURL trimmedUrl (poster_qrOptions qrSize template)], Inl err)
      | Inr qrDataUrl \<Rightarrow>
          (case createPoster e (poster_payload template resolvedBrand resolvedTagline trimmedUrl
                                  qrSize qrDataUrl logoImage) of
             (cs, Inl err) \<Rightarrow> (QrToDataURL trimmedUrl (poster_qrOptions qrSize template) # cs, Inl err)
           | (cs, Inr posterUrl) \<Rightarrow>
               (QrToDataURL trimmedUrl (poster_qrOptions qrSize template) # cs,
                Inr \<lparr>r_id = t_id template, r_name = t_name template,
                     r_description = t_description template, r_posterUrl = posterUrl\<rparr>)))"

definition poster_for_segments ::
  "env \<Rightarrow> string \<Rightarrow> real \<Rightarrow> string \<Rightarrow> string \<Rightarrow> image option \<Rightarrow> PosterTemplate
     \<Rightarrow> script list" where
  \<comment> \<open>what the callback does after its first \<^verbatim>\<open>await\<close> (that of the encoder), cut at the
      \<^verbatim>\<open>await\<close> inside \<^verbatim>\<open>createPoster\<close>\<close>
  "poster_for_segments e trimmedUrl qrSize resolvedBrand resolvedTagline logoImage template =
     (case qr_toDataURL e trimmedUrl (poster_qrOptions qrSize template) of
        Inl err \<Rightarrow> []
      | Inr qrDataUrl \<Rightarrow>
          createPoster_segments e (poster_payload template resolvedBrand resolvedTagline trimmedUrl
                                     qrSize qrDataUrl logoImage))"

fun resume :: "nat list \<Rightarrow> 'a list list list \<Rightarrow> 'a list" where
  \<comment> \<open>\<open>pending ! i\<close> are the segments that callback \<open>i\<close> has still to run. The callback
      named next runs its next segment; those still suspended when the list ends are
      resumed in the order of the templates.\<close>
  "resume [] pending = concat (map concat pending)"
| "resume (i # order) pending =
     (if i < length pending then
        (case pending ! i of
           [] \<Rightarrow> resume order pending
         | seg # rest \<Rightarrow> seg @ resume order (pending[i := rest]))
      else resume order pending)"

definition poster_templates :: "env \<Rightarrow> PosterPage \<Rightarrow> PosterTemplate list" where
  \<comment> \<open>the memoised \<^verbatim>\<open>templates\<close> of the component\<close>
  "poster_templates e s =
     buildTemplates e (normalizeHex (ps_primaryColor s) DEFAULT_PRIMARY)
                      (normalizeHex (ps_accentColor s) DEFAULT_ACCENT)"

definition poster_logo :: "env \<Rightarrow> PosterPage \<Rightarrow> script \<times> (error + image option)" where
  \<comment> \<open>\<^verbatim>\<open>logoUrl ? await loadImage(logoUrl) : null\<close>\<close>
  "poster_logo e s =
     (case truthy (ps_logoUrl s) of
        None \<Rightarrow> ([], Inr None)
      | Some l \<Rightarrow> ([LoadImage l], (case loadImage e l of Inl err \<Rightarrow> Inl err | Inr i \<Rightarrow> Inr (Some i))))"

definition poster_generate :: "env \<Rightarrow> PosterPage \<Rightarrow> script \<times> (error + PosterResult list)" where
  \<comment> \<open>the \<^verbatim>\<open>try\<close> block of \<^verbatim>\<open>handleSubmit\<close>. \<^verbatim>\<open>templates.map\<close> starts the three callbacks
      one after the other, and each of them calls the encoder and is suspended; then they
      are resumed as their promises settle, each on a canvas of its own.\<close>
  "poster_generate e s =
     (let trimmedUrl = trim (ps_url s) in
      case loadFonts e (Font 700 48 DISPLAY_FONT) (Font 500 20 BODY_FONT) of
        (cs0, Some err) \<Rightarrow> (cs0, Inl err)
      | (cs0, None) \<Rightarrow>
          (case poster_logo e s of
             (cs1, Inl err) \<Rightarrow> (cs0 @ cs1, Inl err)
           | (cs1, Inr logoImage) \<Rightarrow>
               (let qrSize = clampQrSize (js_Number e (ps_size s));
                    resolvedBrand = or_default (trim (ps_brandName s)) ''Your Brand'';
                    resolvedTagline = or_default (trim (ps_tagline s)) ''Scan to connect'';
                    runs = map (poster_for e trimmedUrl qrSize resolvedBrand resolvedTagline logoImage)
                               (poster_templates e s)
                in (cs0 @ cs1
                    @ map (\<lambda>template. QrToDataURL trimmedUrl (poster_qrOptions qrSize template))
                          (poster_templates e s)
                    @ resume (resume_order e)
                        (map (poster_for_segments e trimmedUrl qrSize resolvedBrand resolvedTagline
                                logoImage)
                             (poster_templates e s)),
                    promise_all (map snd runs)))))"

definition handleSubmit_poster :: "env \<Rightarrow> PosterPage \<Rightarrow> script \<times> PosterPage" where
  "handleSubmit_poster e s =
     (let s1 = s\<lparr>ps_error := ''''\<rparr>; trimmedUrl = trim (ps_url s) in
      if trimmedUrl = [] then ([], s1\<lparr>ps_error := ''Please enter a URL to generate posters.''\<rparr>)
      else
        (let s2 = s1\<lparr>ps_loading := True, ps_posters := []\<rparr> in
         case poster_generate e s of
           (cs, Inr nextPosters) \<Rightarrow> (cs, s2\<lparr>ps_posters := nextPosters, ps_loading := False\<rparr>)
         | (cs, Inl err) \<Rightarrow>
             (cs, s2\<lparr>ps_error := ''Could not generate branded posters. Please try again.'',
                    ps_loading := False\<rparr>)))"

definition handleDownload_poster :: "PosterResult \<Rightarrow> script" where
  "handleDownload_poster poster =
     (let fileSafeName = toLowerCase (replace_ws ''-'' (r_name poster)) in
      [LinkClick (r_posterUrl poster) (fileSafeName @ ''.png'')])"

subsection \<open>The banner page (src/app/banner/page.tsx)\<close>

record BannerPayload =
  bp_brandName :: string
  bp_headline :: string
  bp_subheadline :: string
  bp_cta :: string
  bp_url :: string
  bp_primary :: string
  bp_accent :: string
  bp_qrDataUrl :: string

definition createBanner_upto_qr :: "env \<Rightarrow> BannerPayload \<Rightarrow> script" where
  "createBanner_upto_qr e p =
     (let primary = bp_primary p; accent = bp_accent p;
          leftX = 120; rightWidth = 320;
          rightX = BANNER_WIDTH - rightWidth - 120;
          leftWidth = rightX - leftX - 20;
          ctaTextWidth = measureText e (Font 600 18 BODY_FONT) (bp_cta p);
          ctaWidth = js_plus ctaTextWidth 56; ctaHeight = 50; ctaY = 350;
          cardX = rightX; cardY = 130; cardWidth = rightWidth; cardHeight = 340 in
      [SetFillStyle (LinearGradient 0 0 BANNER_WIDTH BANNER_HEIGHT [(0, ''#0B0B10''), (1, primary)]),
       FillRect 0 0 BANNER_WIDTH BANNER_HEIGHT,
       Save, SetGlobalAlpha 0.3, SetFillStyle (Color accent), BeginPath,
       Ellipse (js_times BANNER_WIDTH (double 0.85)) (js_times BANNER_HEIGHT (double 0.2)) 260 160 0 0 (Math_PI * 2),
       Fill, Restore,
       Save, SetGlobalAlpha 0.2, SetFillStyle (Color primary), BeginPath,
       Ellipse (js_times BANNER_WIDTH (double 0.18)) (js_times BANNER_HEIGHT (double 0.82)) 320 180 0 0 (Math_PI * 2),
       Fill, Restore,
       SetLineWidth 4, SetStrokeStyle (Color ''rgba(255, 255, 255, 0.18)''),
       StrokeRect 28 28 (BANNER_WIDTH - 56) (BANNER_HEIGHT - 56),
       SetLineWidth 1, SetStrokeStyle (Color ''rgba(255, 255, 255, 0.08)''),
       StrokeRect 50 50 (BANNER_WIDTH - 100) (BANNER_HEIGHT - 100),
       SetFont (Font 600 16 BODY_FONT), SetTextAlign ''left'', SetTextBaseline ''alphabetic'',
       SetFillStyle (Color ''rgba(248, 244, 230, 0.7)''),
       FillText (bp_brandName p) leftX 140]
      @ returned (drawFittedText e (bp_headline p) (Num leftWidth) (Num 60) DISPLAY_FONT 700 leftX 230
          ''#F8F4E6'' ''left'')
      @ returned (drawFittedText e (bp_subheadline p) (Num leftWidth) (Num 26) BODY_FONT 500 leftX 300
          ''rgba(248, 244, 230, 0.75)'' ''left'')
      @ [SetFont (Font 600 18 BODY_FONT), MeasureText (bp_cta p)]
      @ drawRoundedRect leftX ctaY ctaWidth ctaHeight 999
      @ [SetFillStyle (Color accent), Fill,
         SetFillStyle (Color ''#0B0B10''), SetTextAlign ''left'', SetTextBaseline ''middle'',
         FillText (bp_cta p) (leftX + 28) (ctaY + ctaHeight / 2)]
      @ returned (drawFittedText e (bp_url p) (Num leftWidth) (Num 16) BODY_FONT 500 leftX
          (BANNER_HEIGHT - 80) ''rgba(248, 244, 230, 0.6)'' ''left'')
      @ drawRoundedRect cardX cardY cardWidth cardHeight 28
      @ [SetFillStyle (Color ''#F8F4E6''), Fill,
         SetLineWidth 2, SetStrokeStyle (Color ''rgba(255, 255, 255, 0.2)''), Stroke])"

definition createBanner_from_qr :: "image \<Rightarrow> script" where
  "createBanner_from_qr qrImage =
     (let rightWidth = 320; rightX = BANNER_WIDTH - rightWidth - 120;
          cardX = rightX; cardY = 130; cardWidth = rightWidth; cardHeight = 340;
          qrSize = 200; qrX = cardX + (cardWidth - qrSize) / 2; qrY = cardY + 50 in
      [DrawImage qrImage qrX qrY qrSize qrSize,
       SetFont (Font 600 14 BODY_FONT), SetFillStyle (Color ''#0F172A''),
       SetTextAlign ''center'', SetTextBaseline ''alphabetic'',
       FillText ''Scan to visit'' (cardX + cardWidth / 2) (cardY + cardHeight - 40)])"

definition createBanner :: "env \<Rightarrow> BannerPayload \<Rightarrow> script \<times> (error + string)" where
  "createBanner e p =
     (let canvas = [SetWidth BANNER_WIDTH, SetHeight BANNER_HEIGHT, GetContext ''2d''] in
      if \<not> getContext2d e then (canvas, Inl (Error ''Canvas not supported''))
      else
        (let drawn = canvas @ createBanner_upto_qr e p @ [LoadImage (bp_qrDataUrl p)] in
         case loadImage e (bp_qrDataUrl p) of
           Inl err \<Rightarrow> (drawn, Inl err)
         | Inr qrImage \<Rightarrow>
             (let finished = drawn @ createBanner_from_qr qrImage in
              (finished @ [ToDataURL ''image/png''], canvas_toDataURL e finished))))"

record BannerPage =
  bs_brandName :: string
  bs_headline :: string
  bs_subheadline :: string
  bs_cta :: string
  bs_url :: string
  bs_primaryColor :: string
  bs_accentColor :: string
  bs_bannerUrl :: "string option"
  bs_loading :: bool
  bs_error :: string

definition banner_qrOptions :: QrOptions where
  "banner_qrOptions = \<lparr>qr_width = 240, qr_margin = 1, qr_dark = ''#0F172A'', qr_light = ''#FFFFFF''\<rparr>"

definition banner_payload :: "BannerPage \<Rightarrow> string \<Rightarrow> BannerPayload" where
  \<comment> \<open>the object literal passed to \<^verbatim>\<open>createBanner\<close>\<close>
  "banner_payload s qrDataUrl =
     \<lparr>bp_brandName = or_default (trim (bs_brandName s)) ''Your Brand'',
      bp_headline = or_default (trim (bs_headline s)) ''Your headline'',
      bp_subheadline = or_default (trim (bs_subheadline s)) ''Your banner subheadline'',
      bp_cta = or_default (trim (bs_cta s)) ''Scan now'',
      bp_url = trim (bs_url s),
      bp_primary = normalizeHex (bs_primaryColor s) DEFAULT_PRIMARY,
      bp_accent = normalizeHex (bs_accentColor s) DEFAULT_ACCENT,
      bp_qrDataUrl = qrDataUrl\<rparr>"

definition banner_generate :: "env \<Rightarrow> BannerPage \<Rightarrow> script \<times> (error + string)" where
  \<comment> \<open>the \<^verbatim>\<open>try\<close> block of \<^verbatim>\<open>handleSubmit\<close>\<close>
  "banner_generate e s =
     (let trimmedUrl = trim (bs_url s) in
      case loadFonts e (Font 700 60 DISPLAY_FONT) (Font 500 24 BODY_FONT) of
        (cs0, Some err) \<Rightarrow> (cs0, Inl err)
      | (cs0, None) \<Rightarrow>
          (case qr_toDataURL e trimmedUrl banner_qrOptions of
             Inl err \<Rightarrow> (cs0 @ [QrToDataURL trimmedUrl banner_qrOptions], Inl err)
           | Inr qrDataUrl \<Rightarrow>
               (case createBanner e (banner_payload s qrDataUrl) of
                  (cs, r) \<Rightarrow> (cs0 @ [QrToDataURL trimmedUrl banner_qrOptions] @ cs, r))))"

definition handleSubmit_banner :: "env \<Rightarrow> BannerPage \<Rightarrow> script \<times> BannerPage" where
  "handleSubmit_banner e s =
     (let s1 = s\<lparr>bs_error := ''''\<rparr>; trimmedUrl = trim (bs_url s) in
      if trimmedUrl = []
      then ([], s1\<lparr>bs_error := ''Please enter a URL to embed in the banner QR code.''\<rparr>)
      else
        (let s2 = s1\<lparr>bs_loading := True, bs_bannerUrl := None\<rparr> in
         case banner_generate e s of
           (cs, Inr nextBanner) \<Rightarrow> (cs, s2\<lparr>bs_bannerUrl := Some nextBanner, bs_loading := False\<rparr>)
         | (cs, Inl err) \<Rightarrow>
             (cs, s2\<lparr>bs_error := ''Could not generate the banner. Please try again.'',
                    bs_loading := False\<rparr>)))"

definition handleDownload_banner :: "BannerPage \<Rightarrow> script" where
  "handleDownload_banner s =
     (case truthy (bs_bannerUrl s) of None \<Rightarrow> [] | Some u \<Rightarrow> [LinkClick u ''banner.png''])"

subsection \<open>The business-card page (src/unnamed/part_000)\<close>

record CardPayload =
  cp_brandName :: string
  cp_fullName :: string
  cp_role :: string
  cp_email :: string
  cp_phone :: string
  cp_website :: string
  cp_primary :: string
  cp_accent :: string
  cp_qrDataUrl :: string

definition createBusinessCard_upto_qr :: "env \<Rightarrow> CardPayload \<Rightarrow> script" where
  "createBusinessCard_upto_qr e p =
     (let primary = cp_primary p; accent = cp_accent p;
          panelX = 70; panelY = 70;
          panelWidth = CARD_WIDTH - 140; panelHeight = CARD_HEIGHT - 140;
          rightWidth = 300; rightX = panelX + panelWidth - rightWidth;
          textX = panelX + 90; textWidth = rightX - textX - 40;
          markSize = 58; markX = panelX + 90; markY = panelY + 95;
          qrSize = 200; qrX = rightX + (rightWidth - qrSize) / 2; qrY = panelY + 90 in
      [SetFillStyle (LinearGradient 0 0 CARD_WIDTH CARD_HEIGHT [(0, ''#0B0B10''), (1, primary)]),
       FillRect 0 0 CARD_WIDTH CARD_HEIGHT,
       Save, SetGlobalAlpha 0.3, SetFillStyle (Color accent), BeginPath,
       Ellipse (js_times CARD_WIDTH (double 0.82)) (js_times CARD_HEIGHT (double 0.2)) 240 140 0 0 (Math_PI * 2),
       Fill, Restore]
      @ drawRoundedRect panelX panelY panelWidth panelHeight 36
      @ [SetFillStyle (Color ''#F9F6EF''), Fill,
         SetLineWidth 3, SetStrokeStyle (Color accent), Stroke,
         Save]
      @ drawRoundedRect panelX panelY panelWidth panelHeight 36
      @ [Clip, SetFillStyle (Color ''rgba(15, 23, 42, 0.06)''),
         FillRect rightX panelY rightWidth panelHeight, Restore,
         SetFillStyle (Color accent), BeginPath,
         Arc markX markY (markSize / 2) 0 (Math_PI * 2), Fill,
         SetFillStyle (Color ''#0B0B10''), SetFont (Font 700 24 DISPLAY_FONT),
         SetTextAlign ''center'', SetTextBaseline ''middle'',
         FillText (getInitials (cp_brandName p)) markX (markY + 1),
         SetTextAlign ''left'', SetTextBaseline ''alphabetic'',
         SetFont (Font 600 16 BODY_FONT), SetFillStyle (Color ''#0F172A''),
         FillText (cp_brandName p) (markX + 50) (panelY + 102)]
      @ returned (drawFittedText e (cp_fullName p) (Num textWidth) (Num 44) DISPLAY_FONT 700 textX
          (panelY + 175) ''#0F172A'' ''left'')
      @ [SetFont (Font 500 20 BODY_FONT), SetFillStyle (Color ''#475569''),
         FillText (cp_role p) textX (panelY + 210),
         SetStrokeStyle (Color ''rgba(15, 23, 42, 0.15)''), SetLineWidth 1, BeginPath,
         MoveTo textX (panelY + 232), LineTo (rightX - 40) (panelY + 232), Stroke,
         SetFont (Font 500 18 BODY_FONT), SetFillStyle (Color ''#0F172A''),
         FillText (cp_email p) textX (panelY + 270),
         SetFillStyle (Color ''#475569''),
         FillText (cp_phone p) textX (panelY + 300),
         FillText (cp_website p) textX (panelY + 330)]
      @ drawRoundedRect (qrX - 18) (qrY - 18) (qrSize + 36) (qrSize + 36) 24
      @ [SetFillStyle (Color ''#FFFFFF''), Fill,
         SetStrokeStyle (Color ''rgba(15, 23, 42, 0.12)''), SetLineWidth 2, Stroke])"

definition createBusinessCard_from_qr :: "image \<Rightarrow> script" where
  "createBusinessCard_from_qr qrImage =
     (let panelX = 70; panelY = 70; panelWidth = CARD_WIDTH - 140;
          rightWidth = 300; rightX = panelX + panelWidth - rightWidth;
          qrSize = 200; qrX = rightX + (rightWidth - qrSize) / 2; qrY = panelY + 90 in
      [DrawImage qrImage qrX qrY qrSize qrSize,
       SetFont (Font 600 14 BODY_FONT), SetFillStyle (Color ''#0F172A''),
       SetTextAlign ''center'',
       FillText ''Scan for contact'' (rightX + rightWidth / 2) (qrY + qrSize + 40)])"

definition createBusinessCard :: "env \<Rightarrow> CardPayload \<Rightarrow> script \<times> (error + string)" where
  "createBusinessCard e p =
     (let canvas = [SetWidth CARD_WIDTH, SetHeight CARD_HEIGHT, GetContext ''2d''] in
      if \<not> getContext2d e then (canvas, Inl (Error ''Canvas not supported''))
      else
        (let drawn = canvas @ createBusinessCard_upto_qr e p @ [LoadImage (cp_qrDataUrl p)] in
         case loadImage e (cp_qrDataUrl p) of
           Inl err \<Rightarrow> (drawn, Inl err)
         | Inr qrImage \<Rightarrow>
             (let finished = drawn @ createBusinessCard_from_qr qrImage in
              (finished @ [ToDataURL ''image/png''], canvas_toDataURL e finished))))"

record CardPage =
  cs_brandName :: string
  cs_fullName :: string
  cs_role :: string
  cs_email :: string
  cs_phone :: string
  cs_website :: string
  cs_primaryColor :: string
  cs_accentColor :: string
  cs_cardUrl :: "string option"
  cs_loading :: bool
  cs_error :: string

definition card_qrOptions :: QrOptions where
  "card_qrOptions = \<lparr>qr_width = 240, qr_margin = 1, qr_dark = ''#0F172A'', qr_light = ''#FFFFFF''\<rparr>"

definition card_payload :: "CardPage \<Rightarrow> string \<Rightarrow> CardPayload" where
  \<comment> \<open>the object literal passed to \<^verbatim>\<open>createBusinessCard\<close>\<close>
  "card_payload s qrDataUrl =
     \<lparr>cp_brandName = or_default (trim (cs_brandName s)) ''Your Brand'',
      cp_fullName = or_default (trim (cs_fullName s)) ''Your Name'',
      cp_role = or_default (trim (cs_role s)) ''Role'',
      cp_email = or_default (trim (cs_email s)) ''hello@yourbrand.com'',
      cp_phone = or_default (trim (cs_phone s)) ''+1 (555) 555-5555'',
      cp_website = trim (cs_website s),
      cp_primary = normalizeHex (cs_primaryColor s) DEFAULT_PRIMARY,
      cp_accent = normalizeHex (cs_accentColor s) DEFAULT_ACCENT,
      cp_qrDataUrl = qrDataUrl\<rparr>"

definition card_generate :: "env \<Rightarrow> CardPage \<Rightarrow> script \<times> (error + string)" where
  \<comment> \<open>the \<^verbatim>\<open>try\<close> block of \<^verbatim>\<open>handleSubmit\<close>\<close>
  "card_generate e s =
     (let trimmedWebsite = trim (cs_website s) in
      case loadFonts e (Font 700 44 DISPLAY_FONT) (Font 600 18 BODY_FONT) of
        (cs0, Some err) \<Rightarrow> (cs0, Inl err)
      | (cs0, None) \<Rightarrow>
          (case qr_toDataURL e trimmedWebsite card_qrOptions of
             Inl err \<Rightarrow> (cs0 @ [QrToDataURL trimmedWebsite card_qrOptions], Inl err)
           | Inr qrDataUrl \<Rightarrow>
               (case createBusinessCard e (card_payload s qrDataUrl) of
                  (cs, r) \<Rightarrow> (cs0 @ [QrToDataURL trimmedWebsite card_qrOptions] @ cs, r))))"

definition handleSubmit_card :: "env \<Rightarrow> CardPage \<Rightarrow> script \<times> CardPage" where
  "handleSubmit_card e s =
     (let s1 = s\<lparr>cs_error := ''''\<rparr>; trimmedWebsite = trim (cs_website s) in
      if trimmedWebsite = []
      then ([], s1\<lparr>cs_error := ''Please enter a website URL to generate a QR code.''\<rparr>)
      else
        (let s2 = s1\<lparr>cs_loading := True, cs_cardUrl := None\<rparr> in
         case card_generate e s of
           (cs, Inr nextCard) \<Rightarrow> (cs, s2\<lparr>cs_cardUrl := Some nextCard, cs_loading := False\<rparr>)
         | (cs, Inl err) \<Rightarrow>
             (cs, s2\<lparr>cs_error := ''Could not generate the business card. Please try again.'',
                    cs_loading := False\<rparr>)))"

definition handleDownload_card :: "CardPage \<Rightarrow> script" where
  "handleDownload_card s =
     (case truthy (cs_cardUrl s) of None \<Rightarrow> [] | Some u \<Rightarrow> [LinkClick u ''business-card.png''])"

subsection \<open>The logo page (src/unnamed/part_001)\<close>

datatype layout = horizontal | stacked
datatype tone = light | dark

record LogoPayload =
  lp_brandName :: string
  lp_tagline :: string
  lp_primary :: string
  lp_accent :: string
  lp_layout :: layout
  lp_tone :: tone

definition createLogo_drawing :: "env \<Rightarrow> LogoPayload \<Rightarrow> script" where
  \<comment> \<open>the statements of \<^verbatim>\<open>createLogo\<close> between the context check and the return\<close>
  "createLogo_drawing e p =
     (let brandName = lp_brandName p; tagline = lp_tagline p;
          primary = lp_primary p; accent = lp_accent p; tn = lp_tone p;
          background = (if tn = light then ''#F9F6EF'' else ''#0B0B10'');
          textColor = (if tn = light then ''#0F172A'' else ''#F8F4E6'');
          mutedColor = (if tn = light then ''rgba(15, 23, 42, 0.6)'' else ''rgba(248, 244, 230, 0.7)'');
          markText = (if tn = light then ''#0B0B10'' else ''#F8F4E6'');
          strokeColor = (if tn = light then ''rgba(15, 23, 42, 0.15)'' else ''rgba(248, 244, 230, 0.2)'');
          initials = getInitials brandName;
          markSize = 180;
          markGradient = LinearGradient 0 0 markSize markSize [(0, accent), (1, primary)] in
      [SetFillStyle (Color background),
       FillRect 0 0 LOGO_WIDTH LOGO_HEIGHT,
       Save, SetGlobalAlpha (if tn = light then 0.2 else 0.15), SetFillStyle (Color accent), BeginPath,
       Ellipse (js_times LOGO_WIDTH (double 0.75)) (js_times LOGO_HEIGHT (double 0.2)) 220 140 0 0 (Math_PI * 2),
       Fill, Restore]
      @ (if lp_layout p = horizontal then
           (let markX = 220; markY = LOGO_HEIGHT / 2;
                textX = markX + markSize / 2 + 60; textWidth = LOGO_WIDTH - textX - 80 in
            [SetFillStyle markGradient, BeginPath,
             Arc markX markY (markSize / 2) 0 (Math_PI * 2), Fill,
             SetLineWidth 6, SetStrokeStyle (Color strokeColor), Stroke,
             SetFillStyle (Color markText), SetFont (Font 700 64 DISPLAY_FONT),
             SetTextAlign ''center'', SetTextBaseline ''middle'',
             FillText initials markX (markY + 2)]
            @ returned (drawFittedText e brandName (Num textWidth) (Num 56) DISPLAY_FONT 700 textX
                (LOGO_HEIGHT / 2 - 10) textColor ''left'')
            @ (if tagline \<noteq> [] then
                 [SetFont (Font 500 20 BODY_FONT), SetFillStyle (Color mutedColor),
                  SetTextAlign ''left'', SetTextBaseline ''alphabetic'',
                  FillText tagline textX (LOGO_HEIGHT / 2 + 26)]
               else []))
         else
           (let markX = LOGO_WIDTH / 2; markY = 220 in
            [SetFillStyle markGradient, BeginPath,
             Arc markX markY (markSize / 2) 0 (Math_PI * 2), Fill,
             SetLineWidth 6, SetStrokeStyle (Color strokeColor), Stroke,
             SetFillStyle (Color markText), SetFont (Font 700 64 DISPLAY_FONT),
             SetTextAlign ''center'', SetTextBaseline ''middle'',
             FillText initials markX (markY + 2)]
            @ returned (drawFittedText e brandName (Num (LOGO_WIDTH - 160)) (Num 58) DISPLAY_FONT 700
                (LOGO_WIDTH / 2) 360 textColor ''center'')
            @ (if tagline \<noteq> [] then
                 [SetFont (Font 500 20 BODY_FONT), SetFillStyle (Color mutedColor),
                  SetTextAlign ''center'', SetTextBaseline ''alphabetic'',
                  FillText tagline (LOGO_WIDTH / 2) 392]
               else []))))"

definition createLogo :: "env \<Rightarrow> LogoPayload \<Rightarrow> script \<times> (error + string)" where
  "createLogo e p =
     (let canvas = [SetWidth LOGO_WIDTH, SetHeight LOGO_HEIGHT, GetContext ''2d''] in
      if \<not> getContext2d e then (canvas, Inl (Error ''Canvas not supported''))
      else
        (let finished = canvas @ createLogo_drawing e p in
         (finished @ [ToDataURL ''image/png''], canvas_toDataURL e finished)))"

record LogoPage =
  ls_brandName :: string
  ls_tagline :: string
  ls_layout :: layout
  ls_tone :: tone
  ls_primaryColor :: string
  ls_accentColor :: string
  ls_logoUrl :: "string option"
  ls_loading :: bool
  ls_error :: string

definition logo_payload :: "LogoPage \<Rightarrow> LogoPayload" where
  \<comment> \<open>the object literal passed to \<^verbatim>\<open>createLogo\<close>\<close>
  "logo_payload s =
     \<lparr>lp_brandName = or_default (trim (ls_brandName s)) ''Your Brand'',
      lp_tagline = trim (ls_tagline s),
      lp_primary = normalizeHex (ls_primaryColor s) DEFAULT_PRIMARY,
      lp_accent = normalizeHex (ls_accentColor s) DEFAULT_ACCENT,
      lp_layout = ls_layout s,
      lp_tone = ls_tone s\<rparr>"

definition logo_generate :: "env \<Rightarrow> LogoPage \<Rightarrow> script \<times> (error + string)" where
  \<comment> \<open>the \<^verbatim>\<open>try\<close> block of \<^verbatim>\<open>handleSubmit\<close>\<close>
  "logo_generate e s =
     (case loadFonts e (Font 700 58 DISPLAY_FONT) (Font 500 20 BODY_FONT) of
        (cs0, Some err) \<Rightarrow> (cs0, Inl err)
      | (cs0, None) \<Rightarrow>
          (case createLogo e (logo_payload s) of (cs, r) \<Rightarrow> (cs0 @ cs, r)))"

definition handleSubmit_logo :: "env \<Rightarrow> LogoPage \<Rightarrow> script \<times> LogoPage" where
  "handleSubmit_logo e s =
     (let s1 = s\<lparr>ls_error := ''''\<rparr>;
          s2 = s1\<lparr>ls_loading := True, ls_logoUrl := None\<rparr> in
      case logo_generate e s of
        (cs, Inr nextLogo) \<Rightarrow> (cs, s2\<lparr>ls_logoUrl := Some nextLogo, ls_loading := False\<rparr>)
      | (cs, Inl err) \<Rightarrow>
          (cs, s2\<lparr>ls_error := ''Could not generate the logo. Please try again.'',
                 ls_loading := False\<rparr>))"

definition handleDownload_logo :: "LogoPage \<Rightarrow> script" where
  "handleDownload_logo s =
     (case truthy (ls_logoUrl s) of None \<Rightarrow> [] | Some u \<Rightarrow> [LinkClick u ''logo.png''])"

subsection \<open>Classifying calls\<close>

text \<open>
  \<open>drawing\<close> holds of the property assignments and method calls on the 2D context;
  \<open>plain\<close> of those among them that draw no image.
\<close>

fun is_resize :: "call \<Rightarrow> bool" where
  "is_resize (SetWidth _) = True"
| "is_resize (SetHeight _) = True"
| "is_resize _ = False"

fun is_DrawImage :: "call \<Rightarrow> bool" where
  "is_DrawImage (DrawImage _ _ _ _ _) = True"
| "is_DrawImage _ = False"

fun is_QrToDataURL :: "call \<Rightarrow> bool" where
  "is_QrToDataURL (QrToDataURL _ _) = True"
| "is_QrToDataURL _ = False"

fun is_ToDataURL :: "call \<Rightarrow> bool" where
  "is_ToDataURL (ToDataURL _) = True"
| "is_ToDataURL _ = False"

fun is_LinkClick :: "call \<Rightarrow> bool" where
  "is_LinkClick (LinkClick _ _) = True"
| "is_LinkClick _ = False"

fun drawing :: "call \<Rightarrow> bool" where
  "drawing (SetWidth _) = False"
| "drawing (SetHeight _) = False"
| "drawing (GetContext _) = False"
| "drawing (LoadImage _) = False"
| "drawing (ToDataURL _) = False"
| "drawing FontsReady = False"
| "drawing (FontsLoad _) = False"
| "drawing (QrToDataURL _ _) = False"
| "drawing (LinkClick _ _) = False"
| "drawing _ = True"

fun on_canvas :: "call \<Rightarrow> bool" where
  \<comment> \<open>work on the canvas: creating it, loading an image for it, and every context call\<close>
  "on_canvas (ToDataURL _) = False"
| "on_canvas FontsReady = False"
| "on_canvas (FontsLoad _) = False"
| "on_canvas (QrToDataURL _ _) = False"
| "on_canvas (LinkClick _ _) = False"
| "on_canvas _ = True"

definition plain :: "call \<Rightarrow> bool" where
  "plain c = (drawing c \<and> \<not> is_DrawImage c)"

fun is_rectangle :: "call \<Rightarrow> bool" where
  "is_rectangle (FillRect _ _ _ _) = True"
| "is_rectangle (StrokeRect _ _ _ _) = True"
| "is_rectangle _ = False"

fun is_Ellipse :: "call \<Rightarrow> bool" where
  "is_Ellipse (Ellipse _ _ _ _ _ _ _) = True"
| "is_Ellipse _ = False"

fun is_gradient :: "call \<Rightarrow> bool" where
  "is_gradient (SetFillStyle (LinearGradient _ _ _ _ _)) = True"
| "is_gradient _ = False"

fun fillTexts :: "script \<Rightarrow> string list" where
  \<comment> \<open>the texts drawn by a script, in order\<close>
  "fillTexts [] = []"
| "fillTexts (FillText t x y # cs) = t # fillTexts cs"
| "fillTexts (c # cs) = fillTexts cs"

fun position :: "call \<Rightarrow> real list" where
  \<comment> \<open>the pixel coordinates, lengths and angles that a call is given\<close>
  "position (FillRect x y w h) = [x, y, w, h]"
| "position (StrokeRect x y w h) = [x, y, w, h]"
| "position (MoveTo x y) = [x, y]"
| "position (LineTo x y) = [x, y]"
| "position (QuadraticCurveTo cx cy x y) = [cx, cy, x, y]"
| "position (Ellipse x y rx ry rot a0 a1) = [x, y, rx, ry, rot, a0, a1]"
| "position (Arc x y r a0 a1) = [x, y, r, a0, a1]"
| "position (FillText t x y) = [x, y]"
| "position (DrawImage i x y w h) = [x, y, w, h]"
| "position (SetFillStyle (LinearGradient x0 y0 x1 y1 stops)) = [x0, y0, x1, y1]"
| "position _ = []"

definition geometry :: "script \<Rightarrow> real list list" where
  \<comment> \<open>where a script draws: the positions of its calls, in order\<close>
  "geometry cs = filter (\<lambda>p. p \<noteq> []) (map position cs)"

fun interleavings :: "'a list list \<Rightarrow> 'a list set" where
  \<comment> \<open>the sequences made of all the elements of the given sequences, each in its own order\<close>
  "interleavings [] = {[]}"
| "interleavings (xs # xss) = (\<Union>ys \<in> interleavings xss. shuffles xs ys)"

subsection \<open>Sample inputs\<close>

text \<open>
  A browser in which every external step succeeds: every character is as wide as the
  font size, the QR encoder and the PNG encoder return a recognisable string. The
  initial page states are the \<^verbatim>\<open>useState\<close> defaults of the four components.
\<close>

definition sample_env :: env where
  "sample_env =
     \<lparr>fonts_available = True,
      fonts_load = (\<lambda>f. None),
      qr_toDataURL = (\<lambda>t opts. Inr (''data:qr,'' @ t)),
      getContext2d = True,
      measureText = (\<lambda>f t. case f of Font w s fam \<Rightarrow> s * real (length t)
                                       | FontText w s fam \<Rightarrow> 10 * real (length t)),
      loadImage_ok = (\<lambda>src. True),
      canvas_toDataURL = (\<lambda>cs. Inr ''data:image/png''),
      js_Number = (\<lambda>s. if s = ''220'' then Num 220 else if s = ''260'' then Num 260
                       else if s = ''300'' then Num 300 else if s = ''340'' then Num 340 else NaN),
      mixHex = (\<lambda>a b amount. a),
      resume_order = [0, 1, 2, 0, 1, 2]\<rparr>"

definition long_url :: string where
  "long_url = ''https://site2qr.com/campaigns/2024/spring-launch/banner?utm_source=qr-code''"

definition initial_poster :: PosterPage where
  "initial_poster =
     \<lparr>ps_url = '''', ps_brandName = ''Site2QR Studio'', ps_tagline = ''Scan to connect'',
      ps_primaryColor = DEFAULT_PRIMARY, ps_accentColor = DEFAULT_ACCENT, ps_size = ''260'',
      ps_logoUrl = None, ps_posters = [], ps_loading = False, ps_error = ''''\<rparr>"

definition sample_poster_payload :: PosterPayload where
  "sample_poster_payload =
     \<lparr>pp_template = buildTemplates sample_env DEFAULT_PRIMARY DEFAULT_ACCENT ! 0,
      pp_brandName = ''Site2QR Studio'', pp_tagline = ''Scan to connect'',
      pp_url = ''https://site2qr.com'', pp_qrSize = 260,
      pp_qrDataUrl = ''data:qr,https://site2qr.com'', pp_logoImage = None\<rparr>"

definition initial_banner :: BannerPage where
  "initial_banner =
     \<lparr>bs_brandName = ''Site2QR Studio'', bs_headline = ''Instant QR banners'',
      bs_subheadline = ''Turn walk-bys into visitors with a scannable banner.'',
      bs_cta = ''Scan to explore'', bs_url = ''https://site2qr.com'',
      bs_primaryColor = DEFAULT_PRIMARY, bs_accentColor = DEFAULT_ACCENT,
      bs_bannerUrl = None, bs_loading = False, bs_error = ''''\<rparr>"

definition initial_card :: CardPage where
  "initial_card =
     \<lparr>cs_brandName = ''Site2QR Studio'', cs_fullName = ''Avery Bloom'',
      cs_role = ''Creative Director'', cs_email = ''hello@site2qr.com'',
      cs_phone = ''+1 (212) 555-0190'', cs_website = ''https://site2qr.com'',
      cs_primaryColor = DEFAULT_PRIMARY, cs_accentColor = DEFAULT_ACCENT,
      cs_cardUrl = None, cs_loading = False, cs_error = ''''\<rparr>"

definition initial_logo :: LogoPage where
  "initial_logo =
     \<lparr>ls_brandName = ''Site2QR'', ls_tagline = ''Scan. Share. Shine.'',
      ls_layout = horizontal, ls_tone = light,
      ls_primaryColor = DEFAULT_PRIMARY, ls_accentColor = DEFAULT_ACCENT,
      ls_logoUrl = None, ls_loading = False, ls_error = ''''\<rparr>"

section \<open>Theorems\<close>

subsection \<open>String helpers\<close>

lemma slice0_take: "0 \<le> e \<Longrightarrow> slice0 s e = take (nat e) s"
  by (auto simp: slice0_def Let_def min_def)

lemma truncateText_long:
  "3 \<le> k \<Longrightarrow> k < int (length val) \<Longrightarrow> truncateText val k = take (nat (k - 3)) val @ ''...''"
  by (simp add: truncateText_def slice0_take)

lemma truncateText_long_length:
  "3 \<le> k \<Longrightarrow> k < int (length val) \<Longrightarrow> int (length (truncateText val k)) = k"
  by (simp add: truncateText_long min_def)

lemma upperChar_hex: "isHexDigit c \<Longrightarrow> isUpperHexDigit (upperChar c)"
  unfolding isHexDigit_def isUpperHexDigit_def upperChar_def Let_def
  by (auto simp: of_char_of)

lemma hex_not_sharp_s: "isHexDigit c \<Longrightarrow> c \<noteq> CHR 0xDF"
  by (auto simp: isHexDigit_def)

lemma toUpperCase_hex: "list_all isHexDigit cs \<Longrightarrow> toUpperCase cs = map upperChar cs"
  by (induction cs) (simp_all add: toUpperCase_def hex_not_sharp_s)

lemma toUpperCase_hash: "toUpperCase (CHR ''#'' # cs) = CHR ''#'' # toUpperCase cs"
  by (simp add: toUpperCase_def upperChar_def)

lemma hexPattern_upper: "hexPattern_test s \<Longrightarrow> wellFormedHex (toUpperCase s)"
  unfolding hexPattern_test_def wellFormedHex_def
  by (auto split: list.splits simp: toUpperCase_hash toUpperCase_hex list_all_iff upperChar_hex)

lemma normalizeHex_wellFormed: "wellFormedHex fb \<Longrightarrow> wellFormedHex (normalizeHex v fb)"
  by (simp add: normalizeHex_def Let_def hexPattern_upper)

lemma defaults_wellFormed: "wellFormedHex DEFAULT_PRIMARY" "wellFormedHex DEFAULT_ACCENT"
  by (simp_all add: wellFormedHex_def DEFAULT_PRIMARY_def DEFAULT_ACCENT_def isUpperHexDigit_def)

lemma templates_accent:
  "t \<in> set (buildTemplates e primary accent) \<Longrightarrow>
   pal_accent (t_palette t) = primary \<or> pal_accent (t_palette t) = accent"
  by (auto simp: buildTemplates_def Let_def)

text \<open>
  Claim C8. \<open>normalizeHex\<close> returns the trimmed input in upper case when the trimmed
  input matches \<^verbatim>\<open>^#[0-9a-fA-F]{6}$\<close>, and the fallback unchanged when it does not. When
  the fallback matches \<^verbatim>\<open>#[0-9A-F]{6}\<close>, so does the result. Hence the \<open>primary\<close> and
  \<open>accent\<close> that the banner, business-card and logo handlers put into the payload, and
  the \<open>accent\<close> of every poster palette, are well-formed six-digit colours.
\<close>

theorem normalizeHex_spec:
  "(hexPattern_test (trim v) \<longrightarrow> normalizeHex v fb = toUpperCase (trim v))
   \<and> (\<not> hexPattern_test (trim v) \<longrightarrow> normalizeHex v fb = fb)
   \<and> (wellFormedHex fb \<longrightarrow> wellFormedHex (normalizeHex v fb))
   \<and> wellFormedHex (bp_primary (banner_payload bs q)) \<and> wellFormedHex (bp_accent (banner_payload bs q))
   \<and> wellFormedHex (cp_primary (card_payload cs q)) \<and> wellFormedHex (cp_accent (card_payload cs q))
   \<and> wellFormedHex (lp_primary (logo_payload ls)) \<and> wellFormedHex (lp_accent (logo_payload ls))
   \<and> (\<forall>t \<in> set (poster_templates e ps). wellFormedHex (pal_accent (t_palette t)))"
proof -
  have a: "hexPattern_test (trim v) \<longrightarrow> normalizeHex v fb = toUpperCase (trim v)"
    and b: "\<not> hexPattern_test (trim v) \<longrightarrow> normalizeHex v fb = fb"
    by (simp_all add: normalizeHex_def Let_def)
  have c: "wellFormedHex fb \<longrightarrow> wellFormedHex (normalizeHex v fb)"
    by (simp add: normalizeHex_wellFormed)
  have p: "\<And>x. wellFormedHex (normalizeHex x DEFAULT_PRIMARY)"
    and q: "\<And>x. wellFormedHex (normalizeHex x DEFAULT_ACCENT)"
    by (simp_all add: normalizeHex_wellFormed defaults_wellFormed)
  have t: "\<forall>t \<in> set (poster_templates e ps). wellFormedHex (pal_accent (t_palette t))"
    unfolding poster_templates_def using templates_accent p q by fastforce
  show ?thesis
    using a b c p q t
    by (simp add: banner_payload_def card_payload_def logo_payload_def)
qed

lemma normalizeHex_examples:
  "trim ''  #d6b36c '' = ''#d6b36c''"
  "hexPattern_test ''#d6b36c''"
  "normalizeHex ''  #d6b36c '' ''#000000'' = ''#D6B36C''"
  "\<not> hexPattern_test (trim ''gold'')"
  "wellFormedHex ''#000000''"
  by code_simp+

theorem normalizeHex_spec_witness:
  "hexPattern_test (trim ''  #d6b36c '')
   \<and> normalizeHex ''  #d6b36c '' ''#000000'' = toUpperCase (trim ''  #d6b36c '')
   \<and> normalizeHex ''  #d6b36c '' ''#000000'' = ''#D6B36C''
   \<and> \<not> hexPattern_test (trim ''gold'')
   \<and> normalizeHex ''gold'' ''#000000'' = ''#000000''
   \<and> wellFormedHex ''#000000''
   \<and> wellFormedHex (normalizeHex ''gold'' ''#000000'')
   \<and> list_all (\<lambda>t. wellFormedHex (pal_accent (t_palette t))) (poster_templates sample_env initial_poster)
   \<and> length (poster_templates sample_env initial_poster) = 3"
  using normalizeHex_spec [of "''  #d6b36c ''" "''#000000''" initial_banner "''q''" initial_card
                              initial_logo sample_env initial_poster]
        normalizeHex_spec [of "''gold''" "''#000000''" initial_banner "''q''" initial_card
                              initial_logo sample_env initial_poster]
        normalizeHex_examples
  by (simp add: poster_templates_def buildTemplates_def Let_def list_all_iff)

subsection \<open>Rounding to doubles\<close>

lemma pow2_powr: "pow2 k = 2 powr (real_of_int k)"
proof (cases "0 \<le> k")
  case True
  then show ?thesis by (simp add: pow2_def powr_realpow [symmetric])
next
  case False
  then have "2 powr (real_of_int k) = 1 / 2 powr (real_of_int (- k))"
    by (simp add: powr_minus_divide)
  also have "\<dots> = 1 / 2 ^ nat (- k)" using False by (simp add: powr_realpow [symmetric])
  finally show ?thesis using False by (simp add: pow2_def)
qed

lemma pow2_pos: "0 < pow2 k" by (simp add: pow2_powr)

lemma pow2_add: "pow2 (a + b) = pow2 a * pow2 b" by (simp add: pow2_powr powr_add)

lemma pow2_int: "0 \<le> k \<Longrightarrow> pow2 k = of_int (2 ^ nat k)" by (simp add: pow2_def)

lemma exponent_ge1:
  assumes "1 \<le> x"
  shows "exponent x = bitlen \<lfloor>x\<rfloor> - 1" and "0 \<le> exponent x"
    and "x < 2 ^ nat (exponent x + 1)"
proof -
  show e: "exponent x = bitlen \<lfloor>x\<rfloor> - 1" using assms by (simp add: exponent_def)
  have f: "1 \<le> \<lfloor>x\<rfloor>" using assms by linarith
  then have "bitlen \<lfloor>x\<rfloor> \<noteq> 0" by (simp add: bitlen_eq_zero_iff)
  with bitlen_nonneg [of "\<lfloor>x\<rfloor>"] have b: "1 \<le> bitlen \<lfloor>x\<rfloor>" by linarith
  then show "0 \<le> exponent x" using e by simp
  have "bitlen \<lfloor>x\<rfloor> \<le> bitlen \<lfloor>x\<rfloor>" by simp
  then have "\<lfloor>x\<rfloor> < 2 ^ nat (bitlen \<lfloor>x\<rfloor>)" by (simp only: bitlen_le_iff_power)
  then have "x < of_int (2 ^ nat (bitlen \<lfloor>x\<rfloor>))" by (simp only: floor_less_iff)
  then show "x < 2 ^ nat (exponent x + 1)" using e by simp
qed

lemma exponent_mono:
  assumes "1 \<le> y" and "y \<le> x"
  shows "exponent y \<le> exponent x"
proof -
  have x: "1 \<le> x" using assms by simp
  have "y < 2 ^ nat (exponent x + 1)" using exponent_ge1(3) [OF x] assms(2) by simp
  then have "\<lfloor>y\<rfloor> < 2 ^ nat (exponent x + 1)" by (simp add: floor_less_iff)
  moreover have "0 \<le> exponent x + 1" using exponent_ge1(2) [OF x] by simp
  ultimately have "bitlen \<lfloor>y\<rfloor> \<le> exponent x + 1" by (simp add: bitlen_le_iff_power)
  then show ?thesis using exponent_ge1(1) [OF assms(1)] by simp
qed

lemma exponent_less:
  assumes "1 \<le> y" and "y < 2 ^ n"
  shows "exponent y < int n"
proof -
  have "\<lfloor>y\<rfloor> < 2 ^ nat (int n)" using assms(2) by (simp add: floor_less_iff)
  then have "bitlen \<lfloor>y\<rfloor> \<le> int n" by (simp add: bitlen_le_iff_power)
  then show ?thesis using exponent_ge1(1) [OF assms(1)] by simp
qed

lemma round_even_int: "round_even (of_int n) = n"
  by (simp add: round_even_def)

lemma double_multiple:
  assumes "x \<noteq> 0" and "x = of_int n * pow2 (exponent x - 52)"
  shows "double x = x"
proof -
  have "x / pow2 (exponent x - 52) = of_int n"
    using assms(2) pow2_pos [of "exponent x - 52"] by (simp add: field_simps)
  then show ?thesis using assms by (simp add: double_def Let_def round_even_int)
qed

lemma double_sub2:
  assumes d: "double r = r" and lo: "14 < r" and hi: "r \<le> 2 ^ 54"
  shows "double (r - 2) = r - 2"
proof -
  let ?e = "exponent r" and ?e' = "exponent (r - 2)"
  have r1: "1 \<le> r" and r2: "1 \<le> r - 2" using lo by simp_all
  have le: "?e' \<le> ?e" using exponent_mono [OF r2, of r] by simp
  have "r - 2 < 2 ^ 54" using hi by simp
  from exponent_less [OF r2 this] have e53: "?e' \<le> 53" by simp
  define N where "N = round_even (r / pow2 (?e - 52))"
  have r: "r = of_int N * pow2 (?e - 52)"
    using d lo by (simp add: double_def Let_def N_def)
  have a: "pow2 (?e - 52) = of_int (2 ^ nat (?e - ?e')) * pow2 (?e' - 52)"
  proof -
    have "pow2 (?e - 52) = pow2 ((?e - ?e') + (?e' - 52))" by simp
    also have "\<dots> = pow2 (?e - ?e') * pow2 (?e' - 52)" by (rule pow2_add)
    finally show ?thesis using le by (simp add: pow2_int)
  qed
  have b: "2 = of_int (2 ^ nat (53 - ?e')) * pow2 (?e' - 52)"
  proof -
    have "(2::real) = pow2 1" by (simp add: pow2_def)
    also have "\<dots> = pow2 ((53 - ?e') + (?e' - 52))" by simp
    also have "\<dots> = pow2 (53 - ?e') * pow2 (?e' - 52)" by (rule pow2_add)
    finally show ?thesis using e53 by (simp add: pow2_int)
  qed
  have "r - 2 = of_int N * (of_int (2 ^ nat (?e - ?e')) * pow2 (?e' - 52))
                 - of_int (2 ^ nat (53 - ?e')) * pow2 (?e' - 52)"
    using r a b by simp
  also have "\<dots> = of_int (N * 2 ^ nat (?e - ?e') - 2 ^ nat (53 - ?e')) * pow2 (?e' - 52)"
    by (simp add: algebra_simps)
  finally have m: "r - 2 = of_int (N * 2 ^ nat (?e - ?e') - 2 ^ nat (53 - ?e')) * pow2 (?e' - 52)" .
  have "r - 2 \<noteq> 0" using lo by simp
  from double_multiple [OF this m] show ?thesis .
qed

subsection \<open>The shrink loop\<close>

lemma shrink_stop: "\<not> 14 < sz \<Longrightarrow> shrink m t mw fam w sz = ([], sz)"
  by (simp add: shrink.simps [of m t mw fam w sz])

lemma shrink_fit:
  "14 < sz \<Longrightarrow> js_le (m (Font w sz fam) t) mw \<Longrightarrow>
   shrink m t mw fam w sz = ([SetFont (Font w sz fam), MeasureText t], sz)"
  by (simp add: shrink.simps [of m t mw fam w sz])

lemma shrink_step:
  "14 < sz \<Longrightarrow> \<not> js_le (m (Font w sz fam) t) mw \<Longrightarrow>
   shrink m t mw fam w sz =
     (SetFont (Font w sz fam) # MeasureText t # fst (shrink m t mw fam w (sz - 2)),
      snd (shrink m t mw fam w (sz - 2)))"
  by (simp add: shrink.simps [of m t mw fam w sz])

lemma fitLoop_shrink:
  "double sz = sz \<Longrightarrow> sz \<le> 2 ^ 54 \<Longrightarrow>
   fitLoop m t mw fam w (Num sz) =
     Some (fst (shrink m t mw fam w sz), Num (snd (shrink m t mw fam w sz)))"
proof (induction m t mw fam w sz rule: shrink.induct)
  case (1 m t mw fam w sz)
  show ?case
  proof (cases "14 < sz")
    case False
    then show ?thesis by (simp add: shrink_stop fitLoop.simps [of m t mw fam w "Num sz"])
  next
    case big: True
    show ?thesis
    proof (cases "js_le (m (Font w sz fam) t) mw")
      case True
      with big show ?thesis by (simp add: shrink_fit fitLoop.simps [of m t mw fam w "Num sz"])
    next
      case False
      have d: "double (sz - 2) = sz - 2" using "1.prems" big by (simp add: double_sub2)
      moreover have "sz - 2 \<le> 2 ^ 54" using "1.prems"(2) by simp
      ultimately have "fitLoop m t mw fam w (Num (sz - 2)) =
          Some (fst (shrink m t mw fam w (sz - 2)), Num (snd (shrink m t mw fam w (sz - 2))))"
        using "1.IH"(1) [OF big False] by simp
      with big False d show ?thesis
        by (simp add: shrink_step fitLoop.simps [of m t mw fam w "Num sz"] js_minus_def)
    qed
  qed
qed

lemma fitLoop_skipped: "\<not> js_gt sz 14 \<Longrightarrow> fitLoop m t mw fam w sz = Some ([], sz)"
  by (simp add: fitLoop.simps [of m t mw fam w sz])

lemma fitLoop_fits_at_once:
  "js_gt sz 14 \<Longrightarrow> js_le (m (font_of w sz fam) t) mw \<Longrightarrow>
   fitLoop m t mw fam w sz = Some ([SetFont (font_of w sz fam), MeasureText t], sz)"
  by (simp add: fitLoop.simps [of m t mw fam w sz])

lemma fitLoop_stuck:
  assumes "js_gt sz 14" and "js_sub sz 2 = sz" and "\<not> js_le (m (font_of w sz fam) t) mw"
  shows "fitLoop m t mw fam w sz = None"
proof (rule ccontr)
  assume "fitLoop m t mw fam w sz \<noteq> None"
  then obtain y where y: "fitLoop m t mw fam w sz = Some y" by auto
  have "\<not> (js_gt sz 14 \<and> js_sub sz 2 = sz \<and> \<not> js_le (m (font_of w sz fam) t) mw)"
  proof (rule fitLoop.raw_induct
      [where P = "\<lambda>m t mw fam w sz y.
                    \<not> (js_gt sz 14 \<and> js_sub sz 2 = sz \<and> \<not> js_le (m (font_of w sz fam) t) mw)",
       OF _ y])
    fix f :: "(font \<Rightarrow> string \<Rightarrow> real) \<Rightarrow> string \<Rightarrow> jsnum \<Rightarrow> string \<Rightarrow> int \<Rightarrow> jsnum
                \<Rightarrow> (script \<times> jsnum) option"
      and m' t' mw' fam' w' sz' y'
    assume ih: "\<And>m t mw fam w sz y. f m t mw fam w sz = Some y \<Longrightarrow>
                  \<not> (js_gt sz 14 \<and> js_sub sz 2 = sz \<and> \<not> js_le (m (font_of w sz fam) t) mw)"
      and body: "(if js_gt sz' 14
           then if js_le (m' (font_of w' sz' fam') t') mw'
                then Some ([SetFont (font_of w' sz' fam'), MeasureText t'], sz')
                else Option.bind (f m' t' mw' fam' w' (js_sub sz' 2))
                       (\<lambda>(cs, s). Some (SetFont (font_of w' sz' fam') # MeasureText t' # cs, s))
           else Some ([], sz')) = Some y'"
    show "\<not> (js_gt sz' 14 \<and> js_sub sz' 2 = sz' \<and> \<not> js_le (m' (font_of w' sz' fam') t') mw')"
    proof
      assume a: "js_gt sz' 14 \<and> js_sub sz' 2 = sz' \<and> \<not> js_le (m' (font_of w' sz' fam') t') mw'"
      with body obtain y'' where "f m' t' mw' fam' w' sz' = Some y''"
        by (auto simp: bind_eq_Some_conv)
      from ih [OF this] a show False by simp
    qed
  qed
  with assms show False by simp
qed


lemma shrink_font:
  "foldl font_step (f, st) (fst (shrink m t mw fam w sz)) =
     ((if sz \<le> 14 then f
       else Font w (if 14 < snd (shrink m t mw fam w sz) then snd (shrink m t mw fam w sz)
                    else snd (shrink m t mw fam w sz) + 2) fam), st)"
proof (induction m t mw fam w sz arbitrary: f rule: shrink.induct)
  case (1 m t mw fam w sz)
  show ?case
  proof (cases "14 < sz")
    case False
    then show ?thesis by (simp add: shrink_stop)
  next
    case big: True
    show ?thesis
    proof (cases "js_le (m (Font w sz fam) t) mw")
      case True
      with big show ?thesis by (simp add: shrink_fit)
    next
      case False
      have ih: "foldl font_step (Font w sz fam, st) (fst (shrink m t mw fam w (sz - 2))) =
         ((if sz - 2 \<le> 14 then Font w sz fam
           else Font w (if 14 < snd (shrink m t mw fam w (sz - 2))
                        then snd (shrink m t mw fam w (sz - 2))
                        else snd (shrink m t mw fam w (sz - 2)) + 2) fam), st)"
        using "1.IH"(1) [OF big False] .
      have small: "sz - 2 \<le> 14 \<Longrightarrow> snd (shrink m t mw fam w (sz - 2)) = sz - 2"
        by (simp add: shrink_stop)
      show ?thesis
        using big False ih small by (simp add: shrink_step)
    qed
  qed
qed

lemma shrink_final:
  "\<exists>k. snd (shrink m t mw fam w sz) = sz - 2 * real k
     \<and> (\<forall>j<k. 14 < sz - 2 * real j \<and> \<not> js_le (m (Font w (sz - 2 * real j) fam) t) mw)
     \<and> (snd (shrink m t mw fam w sz) \<le> 14
        \<or> js_le (m (Font w (snd (shrink m t mw fam w sz)) fam) t) mw)"
proof (induction m t mw fam w sz rule: shrink.induct)
  case (1 m t mw fam w sz)
  show ?case
  proof (cases "14 < sz")
    case False
    then have "snd (shrink m t mw fam w sz) = sz" by (simp add: shrink_stop)
    with False show ?thesis by (intro exI [of _ 0]) simp
  next
    case big: True
    show ?thesis
    proof (cases "js_le (m (Font w sz fam) t) mw")
      case True
      with big have "snd (shrink m t mw fam w sz) = sz" by (simp add: shrink_fit)
      with True show ?thesis by (intro exI [of _ 0]) simp
    next
      case False
      have eq: "snd (shrink m t mw fam w sz) = snd (shrink m t mw fam w (sz - 2))"
        using big False by (simp add: shrink_step)
      from "1.IH"(1) [OF big False] obtain k where k:
        "snd (shrink m t mw fam w (sz - 2)) = sz - 2 - 2 * real k"
        "\<forall>j<k. 14 < sz - 2 - 2 * real j \<and> \<not> js_le (m (Font w (sz - 2 - 2 * real j) fam) t) mw"
        "snd (shrink m t mw fam w (sz - 2)) \<le> 14
         \<or> js_le (m (Font w (snd (shrink m t mw fam w (sz - 2))) fam) t) mw"
        by blast
      have "\<forall>j<Suc k. 14 < sz - 2 * real j \<and> \<not> js_le (m (Font w (sz - 2 * real j) fam) t) mw"
      proof (intro allI impI)
        fix j
        assume "j < Suc k"
        show "14 < sz - 2 * real j \<and> \<not> js_le (m (Font w (sz - 2 * real j) fam) t) mw"
        proof (cases j)
          case 0
          with big False show ?thesis by simp
        next
          case (Suc i)
          with \<open>j < Suc k\<close> have "i < k" by simp
          with k(2) have "14 < sz - 2 - 2 * real i
              \<and> \<not> js_le (m (Font w (sz - 2 - 2 * real i) fam) t) mw"
            by blast
          moreover have "sz - 2 - 2 * real i = sz - 2 * real j" using Suc by simp
          ultimately show ?thesis by simp
        qed
      qed
      moreover have "snd (shrink m t mw fam w sz) = sz - 2 * real (Suc k)" using eq k(1) by simp
      ultimately show ?thesis using k(3) eq by (intro exI [of _ "Suc k"]) simp
    qed
  qed
qed

lemma shrink_iterations:
  "length (fst (shrink m t mw fam w sz)) \<le> 2 * nat \<lceil>(sz - 14) / 2\<rceil>"
proof (induction m t mw fam w sz rule: shrink.induct)
  case (1 m t mw fam w sz)
  show ?case
  proof (cases "14 < sz")
    case False
    then show ?thesis by (simp add: shrink_stop)
  next
    case big: True
    have "(sz - 2 - 14) / 2 = (sz - 14) / 2 - 1" by (simp add: field_simps)
    then have "\<lceil>(sz - 2 - 14) / 2\<rceil> = \<lceil>(sz - 14) / 2 - 1\<rceil>" by (simp only:)
    also have "\<dots> = \<lceil>(sz - 14) / 2\<rceil> - 1" by (rule ceiling_diff_one)
    finally have "\<lceil>(sz - 2 - 14) / 2\<rceil> = \<lceil>(sz - 14) / 2\<rceil> - 1" .
    moreover have "0 < \<lceil>(sz - 14) / 2\<rceil>" using big by simp
    ultimately have pos: "nat \<lceil>(sz - 14) / 2\<rceil> = Suc (nat \<lceil>(sz - 2 - 14) / 2\<rceil>)" by linarith
    show ?thesis
    proof (cases "js_le (m (Font w sz fam) t) mw")
      case True
      with big pos show ?thesis by (simp add: shrink_fit)
    next
      case False
      have "length (fst (shrink m t mw fam w (sz - 2))) \<le> 2 * nat \<lceil>(sz - 2 - 14) / 2\<rceil>"
        using "1.IH"(1) [OF big False] .
      then show ?thesis using big False pos by (simp add: shrink_step)
    qed
  qed
qed

lemma shrink_floor: "14 < sz \<Longrightarrow> 12 < snd (shrink m t mw fam w sz)"
proof (induction m t mw fam w sz rule: shrink.induct)
  case (1 m t mw fam w sz)
  show ?case
  proof (cases "js_le (m (Font w sz fam) t) mw")
    case True
    with "1.prems" show ?thesis by (simp add: shrink_fit)
  next
    case False
    show ?thesis
    proof (cases "14 < sz - 2")
      case True
      with "1.IH"(1) [OF "1.prems" False] "1.prems" False show ?thesis by (simp add: shrink_step)
    next
      case False
      with "1.prems" \<open>\<not> js_le (m (Font w sz fam) t) mw\<close> show ?thesis
        by (simp add: shrink_step shrink_stop)
    qed
  qed
qed

lemma shrink_floor_int:
  "14 < sz \<Longrightarrow> sz \<in> \<int> \<Longrightarrow> 13 \<le> snd (shrink m t mw fam w sz)"
proof (induction m t mw fam w sz rule: shrink.induct)
  case (1 m t mw fam w sz)
  from "1.prems"(2) obtain n :: int where n: "sz = of_int n" by (auto elim: Ints_cases)
  with "1.prems"(1) have n15: "15 \<le> n" by linarith
  show ?case
  proof (cases "js_le (m (Font w sz fam) t) mw")
    case True
    with "1.prems" show ?thesis by (simp add: shrink_fit)
  next
    case False
    have i: "sz - 2 \<in> \<int>" using "1.prems"(2) by simp
    show ?thesis
    proof (cases "14 < sz - 2")
      case True
      with "1.IH"(1) [OF "1.prems"(1) False _ i] "1.prems" False show ?thesis by (simp add: shrink_step)
    next
      case False
      have "13 \<le> sz - 2" using n n15 by simp
      with False "1.prems" \<open>\<not> js_le (m (Font w sz fam) t) mw\<close> show ?thesis
        by (simp add: shrink_step shrink_stop)
    qed
  qed
qed

lemma no_font_prefix:
  "foldl font_step (f, st) [SetTextAlign a, SetTextBaseline b, SetFillStyle c] = (f, st)"
  "foldl font_step (f, st) [SetTextAlign a, SetFillStyle c] = (f, st)"
  by simp_all

lemma literal_sizes:
  "double 16 = 16" "double 22 = 22" "double 26 = 26" "double 44 = 44" "double 48 = 48"
  "double 56 = 56" "double 58 = 58" "double 60 = 60"
  by code_simp+

lemma stuck_sizes:
  "js_sub (Num (2 ^ 54 + 8)) 2 = Num (2 ^ 54 + 8)"
  "js_sub (Num (2 ^ 55)) 2 = Num (2 ^ 55)"
  "js_sub PosInfinity 2 = PosInfinity"
  by code_simp+

text \<open>
  Claim C10 (as amended). For a starting \<open>fontSize\<close> that is a double of at most \<^verbatim>\<open>2^54\<close>
  the loop of \<open>drawFittedText\<close> is \<open>shrink\<close>: it ends after at most \<open>\<lceil>(fontSize - 14) / 2\<rceil>\<close>
  iterations (two calls each), and the variable \<open>size\<close> ends at \<open>fontSize - 2k\<close>, where no
  earlier size of the sequence \<open>fontSize, fontSize - 2, \<dots>\<close> fits and each of them is above
  14, and where the last one either fits or is at most 14; it is above 12 when
  \<open>fontSize > 14\<close>, and at least 13 when \<open>fontSize\<close> is moreover an integer. The font in
  force when \<open>fillText\<close> runs is the last font the loop assigned: the first size above 14 at
  which the text fits, and when none fits the smallest size of the sequence above 14, which
  is two more than the final \<open>size\<close>; when \<open>fontSize \<le> 14\<close> (also \<^verbatim>\<open>NaN\<close> and
  \<^verbatim>\<open>-Infinity\<close>) the loop is skipped and the font is the one in force before the call.
  When \<open>size - 2\<close> rounds back to \<open>size\<close>, as it does for \<^verbatim>\<open>2^54 + 8\<close>, for \<^verbatim>\<open>2^55\<close> and
  for \<^verbatim>\<open>Infinity\<close>, and the text does not fit, the loop never ends.
\<close>

theorem drawFittedText_font:
  "(double fontSize = fontSize \<and> fontSize \<le> 2 ^ 54 \<longrightarrow>
      (\<exists>cs s k.
          fitLoop (measureText e) txt maxWidth fam w (Num fontSize) = Some (cs, Num s)
        \<and> shrink (measureText e) txt maxWidth fam w fontSize = (cs, s)
        \<and> length cs \<le> 2 * nat \<lceil>(fontSize - 14) / 2\<rceil>
        \<and> s = fontSize - 2 * real k
        \<and> (\<forall>j<k. 14 < fontSize - 2 * real j
               \<and> \<not> js_le (measureText e (Font w (fontSize - 2 * real j) fam) txt) maxWidth)
        \<and> (s \<le> 14 \<or> js_le (measureText e (Font w s fam) txt) maxWidth)
        \<and> (14 < fontSize \<longrightarrow> 12 < s)
        \<and> (14 < fontSize \<and> fontSize \<in> \<int> \<longrightarrow> 13 \<le> s)
        \<and> drawFittedText e txt maxWidth (Num fontSize) fam w x y color align =
            Some ([SetTextAlign align, SetTextBaseline ''alphabetic'', SetFillStyle (Color color)]
                  @ cs @ [FillText txt x y])
        \<and> drawFittedText_poster e txt maxWidth (Num fontSize) fam w x y color =
            Some ([SetTextAlign ''center'', SetFillStyle (Color color)] @ cs @ [FillText txt x y])
        \<and> font_after f0 ([SetTextAlign align, SetTextBaseline ''alphabetic'', SetFillStyle (Color color)] @ cs) =
            (if fontSize \<le> 14 then f0 else Font w (if 14 < s then s else s + 2) fam)
        \<and> font_after f0 ([SetTextAlign ''center'', SetFillStyle (Color color)] @ cs) =
            (if fontSize \<le> 14 then f0 else Font w (if 14 < s then s else s + 2) fam)))
   \<and> (\<not> js_gt sz 14 \<longrightarrow> fitLoop (measureText e) txt maxWidth fam w sz = Some ([], sz))
   \<and> (js_gt sz 14 \<and> js_sub sz 2 = sz
        \<and> \<not> js_le (measureText e (font_of w sz fam) txt) maxWidth \<longrightarrow>
          fitLoop (measureText e) txt maxWidth fam w sz = None
        \<and> drawFittedText e txt maxWidth sz fam w x y color align = None
        \<and> drawFittedText_poster e txt maxWidth sz fam w x y color = None)
   \<and> js_sub (Num (2 ^ 54 + 8)) 2 = Num (2 ^ 54 + 8)
   \<and> js_sub (Num (2 ^ 55)) 2 = Num (2 ^ 55)
   \<and> js_sub PosInfinity 2 = PosInfinity"
proof -
  let ?cs = "fst (shrink (measureText e) txt maxWidth fam w fontSize)"
  let ?s = "snd (shrink (measureText e) txt maxWidth fam w fontSize)"
  have fin: "double fontSize = fontSize \<and> fontSize \<le> 2 ^ 54 \<longrightarrow>
      (\<exists>cs s k.
          fitLoop (measureText e) txt maxWidth fam w (Num fontSize) = Some (cs, Num s)
        \<and> shrink (measureText e) txt maxWidth fam w fontSize = (cs, s)
        \<and> length cs \<le> 2 * nat \<lceil>(fontSize - 14) / 2\<rceil>
        \<and> s = fontSize - 2 * real k
        \<and> (\<forall>j<k. 14 < fontSize - 2 * real j
               \<and> \<not> js_le (measureText e (Font w (fontSize - 2 * real j) fam) txt) maxWidth)
        \<and> (s \<le> 14 \<or> js_le (measureText e (Font w s fam) txt) maxWidth)
        \<and> (14 < fontSize \<longrightarrow> 12 < s)
        \<and> (14 < fontSize \<and> fontSize \<in> \<int> \<longrightarrow> 13 \<le> s)
        \<and> drawFittedText e txt maxWidth (Num fontSize) fam w x y color align =
            Some ([SetTextAlign align, SetTextBaseline ''alphabetic'', SetFillStyle (Color color)]
                  @ cs @ [FillText txt x y])
        \<and> drawFittedText_poster e txt maxWidth (Num fontSize) fam w x y color =
            Some ([SetTextAlign ''center'', SetFillStyle (Color color)] @ cs @ [FillText txt x y])
        \<and> font_after f0 ([SetTextAlign align, SetTextBaseline ''alphabetic'', SetFillStyle (Color color)] @ cs) =
            (if fontSize \<le> 14 then f0 else Font w (if 14 < s then s else s + 2) fam)
        \<and> font_after f0 ([SetTextAlign ''center'', SetFillStyle (Color color)] @ cs) =
            (if fontSize \<le> 14 then f0 else Font w (if 14 < s then s else s + 2) fam))"
  proof
    assume a: "double fontSize = fontSize \<and> fontSize \<le> 2 ^ 54"
    then have 0: "fitLoop (measureText e) txt maxWidth fam w (Num fontSize) = Some (?cs, Num ?s)"
      by (simp add: fitLoop_shrink)
    have 1: "shrink (measureText e) txt maxWidth fam w fontSize = (?cs, ?s)" by simp
    have 2: "length ?cs \<le> 2 * nat \<lceil>(fontSize - 14) / 2\<rceil>" by (rule shrink_iterations)
    from shrink_final [of "measureText e" "txt" maxWidth fam w fontSize] obtain k where k:
      "?s = fontSize - 2 * real k"
      "\<forall>j<k. 14 < fontSize - 2 * real j
               \<and> \<not> js_le (measureText e (Font w (fontSize - 2 * real j) fam) txt) maxWidth"
      "?s \<le> 14 \<or> js_le (measureText e (Font w ?s fam) txt) maxWidth"
      by blast
    have 3: "14 < fontSize \<longrightarrow> 12 < ?s" by (simp add: shrink_floor)
    have 4: "14 < fontSize \<and> fontSize \<in> \<int> \<longrightarrow> 13 \<le> ?s" by (simp add: shrink_floor_int)
    have 5: "drawFittedText e txt maxWidth (Num fontSize) fam w x y color align =
            Some ([SetTextAlign align, SetTextBaseline ''alphabetic'', SetFillStyle (Color color)]
                  @ ?cs @ [FillText txt x y])"
      by (simp add: drawFittedText_def 0)
    have 6: "drawFittedText_poster e txt maxWidth (Num fontSize) fam w x y color =
            Some ([SetTextAlign ''center'', SetFillStyle (Color color)] @ ?cs @ [FillText txt x y])"
      by (simp add: drawFittedText_poster_def 0)
    have 7: "font_after f0 ([SetTextAlign align, SetTextBaseline ''alphabetic'', SetFillStyle (Color color)] @ ?cs) =
            (if fontSize \<le> 14 then f0 else Font w (if 14 < ?s then ?s else ?s + 2) fam)"
      unfolding font_after_def foldl_append no_font_prefix shrink_font by simp
    have 8: "font_after f0 ([SetTextAlign ''center'', SetFillStyle (Color color)] @ ?cs) =
            (if fontSize \<le> 14 then f0 else Font w (if 14 < ?s then ?s else ?s + 2) fam)"
      unfolding font_after_def foldl_append no_font_prefix shrink_font by simp
    from 0 1 2 k 3 4 5 6 7 8 show "\<exists>cs s k.
          fitLoop (measureText e) txt maxWidth fam w (Num fontSize) = Some (cs, Num s)
        \<and> shrink (measureText e) txt maxWidth fam w fontSize = (cs, s)
        \<and> length cs \<le> 2 * nat \<lceil>(fontSize - 14) / 2\<rceil>
        \<and> s = fontSize - 2 * real k
        \<and> (\<forall>j<k. 14 < fontSize - 2 * real j
               \<and> \<not> js_le (measureText e (Font w (fontSize - 2 * real j) fam) txt) maxWidth)
        \<and> (s \<le> 14 \<or> js_le (measureText e (Font w s fam) txt) maxWidth)
        \<and> (14 < fontSize \<longrightarrow> 12 < s)
        \<and> (14 < fontSize \<and> fontSize \<in> \<int> \<longrightarrow> 13 \<le> s)
        \<and> drawFittedText e txt maxWidth (Num fontSize) fam w x y color align =
            Some ([SetTextAlign align, SetTextBaseline ''alphabetic'', SetFillStyle (Color color)]
                  @ cs @ [FillText txt x y])
        \<and> drawFittedText_poster e txt maxWidth (Num fontSize) fam w x y color =
            Some ([SetTextAlign ''center'', SetFillStyle (Color color)] @ cs @ [FillText txt x y])
        \<and> font_after f0 ([SetTextAlign align, SetTextBaseline ''alphabetic'', SetFillStyle (Color color)] @ cs) =
            (if fontSize \<le> 14 then f0 else Font w (if 14 < s then s else s + 2) fam)
        \<and> font_after f0 ([SetTextAlign ''center'', SetFillStyle (Color color)] @ cs) =
            (if fontSize \<le> 14 then f0 else Font w (if 14 < s then s else s + 2) fam)"
      by (intro exI [of _ ?cs] exI [of _ ?s] exI [of _ k] conjI)
  qed
  have skip: "\<not> js_gt sz 14 \<longrightarrow> fitLoop (measureText e) txt maxWidth fam w sz = Some ([], sz)"
    by (simp add: fitLoop_skipped)
  have stuck: "js_gt sz 14 \<and> js_sub sz 2 = sz
        \<and> \<not> js_le (measureText e (font_of w sz fam) txt) maxWidth \<longrightarrow>
          fitLoop (measureText e) txt maxWidth fam w sz = None
        \<and> drawFittedText e txt maxWidth sz fam w x y color align = None
        \<and> drawFittedText_poster e txt maxWidth sz fam w x y color = None"
    by (simp add: fitLoop_stuck drawFittedText_def drawFittedText_poster_def)
  from fin skip stuck stuck_sizes show ?thesis by (intro conjI)
qed

lemma shrink_example:
  "shrink (measureText sample_env) long_url (Num 1020) BODY_FONT 500 16 =
     ([SetFont (Font 500 16 BODY_FONT), MeasureText long_url], 14)"
  "shrink (measureText sample_env) long_url (Num 1020) BODY_FONT 500 (29 / 2) =
     ([SetFont (Font 500 (29 / 2) BODY_FONT), MeasureText long_url], 25 / 2)"
  "double (29 / 2) = 29 / 2"
  by code_simp+

lemma fitLoop_example:
  "fitLoop (measureText sample_env) long_url (Num 1020) BODY_FONT 500 (Num 16) =
     Some ([SetFont (Font 500 16 BODY_FONT), MeasureText long_url], Num 14)"
  "fitLoop (measureText sample_env) long_url (Num 1020) BODY_FONT 500 (Num (29 / 2)) =
     Some ([SetFont (Font 500 (29 / 2) BODY_FONT), MeasureText long_url], Num (25 / 2))"
  by (simp_all add: fitLoop_shrink literal_sizes shrink_example)

lemma measure_example:
  "\<not> js_le (measureText sample_env (Font 500 16 BODY_FONT) long_url) (Num 1020)"
  "\<not> js_le (measureText sample_env (font_of 500 (Num (2 ^ 55)) BODY_FONT) long_url) (Num 1020)"
  "js_gt (Num (2 ^ 55)) 14"
  by code_simp+

theorem drawFittedText_font_witness:
  "double 16 = 16 \<and> (16 :: real) \<le> 2 ^ 54
   \<and> fitLoop (measureText sample_env) long_url (Num 1020) BODY_FONT 500 (Num 16) =
       Some ([SetFont (Font 500 16 BODY_FONT), MeasureText long_url], Num 14)
   \<and> drawFittedText sample_env long_url (Num 1020) (Num 16) BODY_FONT 500 120 520
        ''rgba(248, 244, 230, 0.6)'' ''left'' =
       Some ([SetTextAlign ''left'', SetTextBaseline ''alphabetic'',
              SetFillStyle (Color ''rgba(248, 244, 230, 0.6)''),
              SetFont (Font 500 16 BODY_FONT), MeasureText long_url, FillText long_url 120 520])
   \<and> font_after (Font 400 10 ''sans-serif'')
        ([SetTextAlign ''left'', SetTextBaseline ''alphabetic'',
          SetFillStyle (Color ''rgba(248, 244, 230, 0.6)''),
          SetFont (Font 500 16 BODY_FONT), MeasureText long_url]) = Font 500 16 BODY_FONT
   \<and> js_gt (Num (2 ^ 55)) 14
   \<and> fitLoop (measureText sample_env) long_url (Num 1020) BODY_FONT 500 (Num (2 ^ 55)) = None"
proof -
  have h: "double 16 = 16 \<and> (16 :: real) \<le> 2 ^ 54" by (simp add: literal_sizes)
  note t = drawFittedText_font [of 16 sample_env long_url "Num 1020" BODY_FONT 500 120 520
      "''rgba(248, 244, 230, 0.6)''" "''left''" "Font 400 10 ''sans-serif''" "Num (2 ^ 55)"]
  from t [THEN conjunct1, THEN mp, OF h] obtain cs s where c:
    "fitLoop (measureText sample_env) long_url (Num 1020) BODY_FONT 500 (Num 16) = Some (cs, Num s)"
    "drawFittedText sample_env long_url (Num 1020) (Num 16) BODY_FONT 500 120 520
        ''rgba(248, 244, 230, 0.6)'' ''left'' =
       Some ([SetTextAlign ''left'', SetTextBaseline ''alphabetic'',
              SetFillStyle (Color ''rgba(248, 244, 230, 0.6)'')] @ cs @ [FillText long_url 120 520])"
    "font_after (Font 400 10 ''sans-serif'')
        ([SetTextAlign ''left'', SetTextBaseline ''alphabetic'',
          SetFillStyle (Color ''rgba(248, 244, 230, 0.6)'')] @ cs) =
       (if (16 :: real) \<le> 14 then Font 400 10 ''sans-serif''
        else Font 500 (if 14 < s then s else s + 2) BODY_FONT)"
    by blast
  from c(1) have cs: "cs = [SetFont (Font 500 16 BODY_FONT), MeasureText long_url]" and s: "s = 14"
    by (simp_all add: fitLoop_example)
  have n: "fitLoop (measureText sample_env) long_url (Num 1020) BODY_FONT 500 (Num (2 ^ 55)) = None"
    using t [THEN conjunct2, THEN conjunct2, THEN conjunct1] measure_example stuck_sizes by simp
  from h c n show ?thesis unfolding cs s using measure_example(3) by simp
qed

text \<open>
  The claim as stated fails in three ways. From \<^verbatim>\<open>2^55\<close> the loop does not end on a text
  that never fits. With a URL that does not fit at 16px the loop variable ends at 14,
  but the text is drawn in the 16px font assigned in the only iteration. And from 14.5
  the loop variable ends at 12.5, below 13.
\<close>

theorem drawFittedText_font_counterexample:
  "drawFittedText sample_env long_url (Num 1020) (Num (2 ^ 55)) BODY_FONT 500 120 520
      ''rgba(248, 244, 230, 0.6)'' ''left'' = None
   \<and> fitLoop (measureText sample_env) long_url (Num 1020) BODY_FONT 500 (Num 16) =
       Some ([SetFont (Font 500 16 BODY_FONT), MeasureText long_url], Num 14)
   \<and> last (returned (drawFittedText sample_env long_url (Num 1020) (Num 16) BODY_FONT 500 120 520
        ''rgba(248, 244, 230, 0.6)'' ''left'')) = FillText long_url 120 520
   \<and> font_after (Font 400 10 ''sans-serif'')
        (butlast (returned (drawFittedText sample_env long_url (Num 1020) (Num 16) BODY_FONT 500 120 520
           ''rgba(248, 244, 230, 0.6)'' ''left''))) = Font 500 16 BODY_FONT
   \<and> \<not> js_le (measureText sample_env (Font 500 16 BODY_FONT) long_url) (Num 1020)
   \<and> fitLoop (measureText sample_env) long_url (Num 1020) BODY_FONT 500 (Num (29 / 2)) =
       Some ([SetFont (Font 500 (29 / 2) BODY_FONT), MeasureText long_url], Num (25 / 2))
   \<and> (25 / 2 :: real) < 13"
proof -
  have "fitLoop (measureText sample_env) long_url (Num 1020) BODY_FONT 500 (Num (2 ^ 55)) = None"
    using measure_example(3) stuck_sizes(2) measure_example(2) by (rule fitLoop_stuck)
  then have a: "drawFittedText sample_env long_url (Num 1020) (Num (2 ^ 55)) BODY_FONT 500 120 520
      ''rgba(248, 244, 230, 0.6)'' ''left'' = None"
    by (simp add: drawFittedText_def)
  have b: "drawFittedText sample_env long_url (Num 1020) (Num 16) BODY_FONT 500 120 520
        ''rgba(248, 244, 230, 0.6)'' ''left'' =
       Some ([SetTextAlign ''left'', SetTextBaseline ''alphabetic'',
              SetFillStyle (Color ''rgba(248, 244, 230, 0.6)''),
              SetFont (Font 500 16 BODY_FONT), MeasureText long_url, FillText long_url 120 520])"
    by (simp add: drawFittedText_def fitLoop_example)
  show ?thesis
    using a fitLoop_example measure_example(1)
    by (simp add: b returned_def font_after_def)
qed

subsection \<open>The shape of the scripts\<close>

lemma shrink_plain: "list_all plain (fst (shrink m t mw fam w sz))"
proof (induction m t mw fam w sz rule: shrink.induct)
  case (1 m t mw fam w sz)
  show ?case
  proof (cases "14 < sz")
    case False
    then show ?thesis by (simp add: shrink_stop)
  next
    case big: True
    show ?thesis
    proof (cases "js_le (m (Font w sz fam) t) mw")
      case True
      with big show ?thesis by (simp add: shrink_fit plain_def)
    next
      case False
      with big "1.IH"(1) show ?thesis by (simp add: shrink_step plain_def)
    qed
  qed
qed

lemma drawFittedText_returns:
  assumes "double sz = sz" and "sz \<le> 2 ^ 54"
  shows "returned (drawFittedText e t mw (Num sz) fam w x y c a) =
           [SetTextAlign a, SetTextBaseline ''alphabetic'', SetFillStyle (Color c)]
           @ fst (shrink (measureText e) t mw fam w sz) @ [FillText t x y]"
    and "returned (drawFittedText_poster e t mw (Num sz) fam w x y c) =
           [SetTextAlign ''center'', SetFillStyle (Color c)]
           @ fst (shrink (measureText e) t mw fam w sz) @ [FillText t x y]"
  using assms by (simp_all add: drawFittedText_def drawFittedText_poster_def fitLoop_shrink returned_def)

lemma drawFittedText_plain:
  assumes "double sz = sz" and "sz \<le> 2 ^ 54"
  shows "list_all plain (returned (drawFittedText e t mw (Num sz) fam w x y c a))"
    and "list_all plain (returned (drawFittedText_poster e t mw (Num sz) fam w x y c))"
  using assms by (simp_all add: drawFittedText_returns shrink_plain, simp_all add: plain_def)

lemma drawRoundedRect_plain: "list_all plain (drawRoundedRect x y w h r)"
  by (simp add: drawRoundedRect_def Let_def plain_def)

lemma createBanner_upto_qr_plain: "list_all plain (createBanner_upto_qr e p)"
  by (simp add: createBanner_upto_qr_def Let_def drawFittedText_plain literal_sizes drawRoundedRect_plain, simp add: plain_def)

lemma createBusinessCard_upto_qr_plain: "list_all plain (createBusinessCard_upto_qr e p)"
  by (simp add: createBusinessCard_upto_qr_def Let_def drawFittedText_plain literal_sizes drawRoundedRect_plain, simp add: plain_def)

lemma createLogo_drawing_plain: "list_all plain (createLogo_drawing e p)"
  by (simp add: createLogo_drawing_def Let_def drawFittedText_plain literal_sizes drawRoundedRect_plain, simp add: plain_def)

lemma plain_drawing: "list_all plain cs \<Longrightarrow> list_all drawing cs"
  by (induction cs) (auto simp: plain_def)

lemma plain_no_image: "list_all plain cs \<Longrightarrow> filter is_DrawImage cs = []"
  by (induction cs) (auto simp: plain_def)

lemma createPoster_upto_qr_drawing: "list_all drawing (createPoster_upto_qr e p)"
  by (cases "pp_logoImage p")
     (simp_all add: createPoster_upto_qr_def Let_def drawFittedText_plain literal_sizes drawRoundedRect_plain
        plain_drawing)

lemma createPoster_upto_qr_images:
  "filter is_DrawImage (createPoster_upto_qr e p) =
     (case pp_logoImage p of None \<Rightarrow> [] | Some logoImage \<Rightarrow> [DrawImage logoImage 66 66 88 88])"
  by (cases "pp_logoImage p")
     (simp_all add: createPoster_upto_qr_def Let_def drawFittedText_plain literal_sizes drawRoundedRect_plain
        plain_no_image)

lemma drawing_keeps_size: "list_all drawing cs \<Longrightarrow> list_all (\<lambda>c. \<not> is_resize c) cs"
  by (induction cs) (auto elim: drawing.elims)

lemma size_unchanged: "list_all (\<lambda>c. \<not> is_resize c) cs \<Longrightarrow> foldl size_step z cs = z"
proof (induction cs arbitrary: z)
  case Nil
  then show ?case by simp
next
  case (Cons c cs)
  obtain w h where z: "z = (w, h)" by (cases z)
  from Cons.prems have "\<not> is_resize c" by simp
  then have "size_step (w, h) c = (w, h)" by (cases c) simp_all
  with Cons z show ?case by simp
qed

lemma sized_prefix:
  assumes "list_all (\<lambda>c. \<not> is_resize c) rest"
  shows "canvas_size (take (n + 2) (SetWidth w # SetHeight h # rest)) = (w, h)"
proof -
  have "list_all (\<lambda>c. \<not> is_resize c) (take n rest)"
    using assms by (auto simp: list_all_iff dest: in_set_takeD)
  then show ?thesis by (simp add: canvas_size_def size_unchanged)
qed

lemma from_qr_drawing:
  "list_all drawing (createPoster_from_qr pp i)"
  "list_all drawing (createBanner_from_qr i)"
  "list_all drawing (createBusinessCard_from_qr i)"
  by (simp_all add: createPoster_from_qr_def createBanner_from_qr_def
        createBusinessCard_from_qr_def Let_def)

lemma createPoster_shape:
  "\<exists>rest. fst (createPoster e p) = SetWidth POSTER_WIDTH # SetHeight POSTER_HEIGHT # rest
      \<and> list_all (\<lambda>c. \<not> is_resize c) rest"
  by (simp add: createPoster_def Let_def loadImage_def drawing_keeps_size
        createPoster_upto_qr_drawing from_qr_drawing)

lemma createBanner_shape:
  "\<exists>rest. fst (createBanner e p) = SetWidth BANNER_WIDTH # SetHeight BANNER_HEIGHT # rest
      \<and> list_all (\<lambda>c. \<not> is_resize c) rest"
  by (simp add: createBanner_def Let_def loadImage_def drawing_keeps_size plain_drawing
        createBanner_upto_qr_plain from_qr_drawing)

lemma createBusinessCard_shape:
  "\<exists>rest. fst (createBusinessCard e p) = SetWidth CARD_WIDTH # SetHeight CARD_HEIGHT # rest
      \<and> list_all (\<lambda>c. \<not> is_resize c) rest"
  by (simp add: createBusinessCard_def Let_def loadImage_def drawing_keeps_size plain_drawing
        createBusinessCard_upto_qr_plain from_qr_drawing)

lemma createLogo_shape:
  "\<exists>rest. fst (createLogo e p) = SetWidth LOGO_WIDTH # SetHeight LOGO_HEIGHT # rest
      \<and> list_all (\<lambda>c. \<not> is_resize c) rest"
  by (simp add: createLogo_def Let_def drawing_keeps_size plain_drawing createLogo_drawing_plain)

text \<open>
  Claim C3. The canvas of each generator has a fixed size, whatever the payload and the
  browser: 1050 by 600 for the business card, 1600 by 600 for the banner, 1000 by 600 for
  the logo, 1200 by 800 for the poster. The size is set by the first two calls of the
  script and is the same after every later call, up to and including the export.
\<close>

theorem canvas_dimensions:
  "canvas_size (take (n + 2) (fst (createBusinessCard e cp))) = (1050, 600)
   \<and> canvas_size (take (n + 2) (fst (createBanner e bp))) = (1600, 600)
   \<and> canvas_size (take (n + 2) (fst (createLogo e lp))) = (1000, 600)
   \<and> canvas_size (take (n + 2) (fst (createPoster e pp))) = (1200, 800)
   \<and> canvas_size (fst (createBusinessCard e cp)) = (1050, 600)
   \<and> canvas_size (fst (createBanner e bp)) = (1600, 600)
   \<and> canvas_size (fst (createLogo e lp)) = (1000, 600)
   \<and> canvas_size (fst (createPoster e pp)) = (1200, 800)"
proof -
  have a: "\<And>k. canvas_size (take (k + 2) (fst (createBusinessCard e cp))) = (1050, 600)"
    using createBusinessCard_shape [of e cp] sized_prefix
    by (auto simp: CARD_WIDTH_def CARD_HEIGHT_def)
  have b: "\<And>k. canvas_size (take (k + 2) (fst (createBanner e bp))) = (1600, 600)"
    using createBanner_shape [of e bp] sized_prefix
    by (auto simp: BANNER_WIDTH_def BANNER_HEIGHT_def)
  have c: "\<And>k. canvas_size (take (k + 2) (fst (createLogo e lp))) = (1000, 600)"
    using createLogo_shape [of e lp] sized_prefix
    by (auto simp: LOGO_WIDTH_def LOGO_HEIGHT_def)
  have d: "\<And>k. canvas_size (take (k + 2) (fst (createPoster e pp))) = (1200, 800)"
    using createPoster_shape [of e pp] sized_prefix
    by (auto simp: POSTER_WIDTH_def POSTER_HEIGHT_def)
  have full: "\<And>xs :: script. take (length xs + 2) xs = xs" by simp
  show ?thesis
    using a [of n] b [of n] c [of n] d [of n]
      a [of "length (fst (createBusinessCard e cp))"] b [of "length (fst (createBanner e bp))"]
      c [of "length (fst (createLogo e lp))"] d [of "length (fst (createPoster e pp))"]
    by (simp only: full)
qed

theorem canvas_dimensions_witness:
  "canvas_size (fst (createBusinessCard sample_env (card_payload initial_card ''data:qr,x''))) = (1050, 600)
   \<and> canvas_size (fst (createBanner sample_env (banner_payload initial_banner ''data:qr,x''))) = (1600, 600)
   \<and> canvas_size (fst (createLogo sample_env (logo_payload initial_logo))) = (1000, 600)
   \<and> canvas_size (fst (createPoster sample_env sample_poster_payload)) = (1200, 800)"
  using canvas_dimensions [of 0 sample_env "card_payload initial_card ''data:qr,x''"
          "banner_payload initial_banner ''data:qr,x''" "logo_payload initial_logo"
          sample_poster_payload]
  by simp

subsection \<open>Images and QR encodings in the scripts\<close>

lemma loadFonts_plain: "filter is_DrawImage (fst (loadFonts e a b)) = []"
  "filter is_QrToDataURL (fst (loadFonts e a b)) = []"
  by (simp_all add: loadFonts_def)

lemma plain_no_qr: "list_all plain cs \<Longrightarrow> filter is_QrToDataURL cs = []"
  by (induction cs) (auto simp: plain_def elim: drawing.elims)

lemma drawing_no_qr: "list_all drawing cs \<Longrightarrow> filter is_QrToDataURL cs = []"
  by (induction cs) (auto elim: drawing.elims)

lemma createBanner_images:
  "filter is_DrawImage (fst (createBanner e p)) =
     (if getContext2d e \<and> loadImage_ok e (bp_qrDataUrl p)
      then [DrawImage (Img (bp_qrDataUrl p)) 1220 180 200 200] else [])"
  by (simp add: createBanner_def Let_def loadImage_def plain_no_image createBanner_upto_qr_plain
        createBanner_from_qr_def BANNER_WIDTH_def)

lemma createBusinessCard_images:
  "filter is_DrawImage (fst (createBusinessCard e p)) =
     (if getContext2d e \<and> loadImage_ok e (cp_qrDataUrl p)
      then [DrawImage (Img (cp_qrDataUrl p)) 730 160 200 200] else [])"
  by (simp add: createBusinessCard_def Let_def loadImage_def plain_no_image
        createBusinessCard_upto_qr_plain createBusinessCard_from_qr_def CARD_WIDTH_def)

lemma createLogo_images: "filter is_DrawImage (fst (createLogo e p)) = []"
  by (simp add: createLogo_def Let_def plain_no_image createLogo_drawing_plain)

lemma createPoster_images:
  "filter is_DrawImage (fst (createPoster e p)) =
     (if getContext2d e
      then (case pp_logoImage p of None \<Rightarrow> [] | Some logoImage \<Rightarrow> [DrawImage logoImage 66 66 88 88])
           @ (if loadImage_ok e (pp_qrDataUrl p)
              then [DrawImage (Img (pp_qrDataUrl p)) (poster_cardX p + 45) (poster_cardY + 45)
                      (pp_qrSize p) (pp_qrSize p)]
              else [])
      else [])"
  by (simp add: createPoster_def Let_def loadImage_def createPoster_upto_qr_images
        createPoster_from_qr_def)

lemma create_no_qr:
  "filter is_QrToDataURL (fst (createBanner e bp)) = []"
  "filter is_QrToDataURL (fst (createBusinessCard e cp)) = []"
  "filter is_QrToDataURL (fst (createLogo e lp)) = []"
  "filter is_QrToDataURL (fst (createPoster e pp)) = []"
  by (simp_all add: createBanner_def createBusinessCard_def createLogo_def createPoster_def
        Let_def loadImage_def plain_no_qr drawing_no_qr createBanner_upto_qr_plain
        createBusinessCard_upto_qr_plain createLogo_drawing_plain createPoster_upto_qr_drawing
        from_qr_drawing)

lemma banner_generate_unfold:
  "banner_generate e s =
     (case snd (loadFonts e (Font 700 60 DISPLAY_FONT) (Font 500 24 BODY_FONT)) of
        Some err \<Rightarrow> (fst (loadFonts e (Font 700 60 DISPLAY_FONT) (Font 500 24 BODY_FONT)), Inl err)
      | None \<Rightarrow>
         (case qr_toDataURL e (trim (bs_url s)) banner_qrOptions of
            Inl err \<Rightarrow>
              (fst (loadFonts e (Font 700 60 DISPLAY_FONT) (Font 500 24 BODY_FONT))
               @ [QrToDataURL (trim (bs_url s)) banner_qrOptions], Inl err)
          | Inr q \<Rightarrow>
              (fst (loadFonts e (Font 700 60 DISPLAY_FONT) (Font 500 24 BODY_FONT))
               @ [QrToDataURL (trim (bs_url s)) banner_qrOptions]
               @ fst (createBanner e (banner_payload s q)),
               snd (createBanner e (banner_payload s q)))))"
  by (simp add: banner_generate_def Let_def split: prod.splits option.splits sum.splits)

lemma card_generate_unfold:
  "card_generate e s =
     (case snd (loadFonts e (Font 700 44 DISPLAY_FONT) (Font 600 18 BODY_FONT)) of
        Some err \<Rightarrow> (fst (loadFonts e (Font 700 44 DISPLAY_FONT) (Font 600 18 BODY_FONT)), Inl err)
      | None \<Rightarrow>
         (case qr_toDataURL e (trim (cs_website s)) card_qrOptions of
            Inl err \<Rightarrow>
              (fst (loadFonts e (Font 700 44 DISPLAY_FONT) (Font 600 18 BODY_FONT))
               @ [QrToDataURL (trim (cs_website s)) card_qrOptions], Inl err)
          | Inr q \<Rightarrow>
              (fst (loadFonts e (Font 700 44 DISPLAY_FONT) (Font 600 18 BODY_FONT))
               @ [QrToDataURL (trim (cs_website s)) card_qrOptions]
               @ fst (createBusinessCard e (card_payload s q)),
               snd (createBusinessCard e (card_payload s q)))))"
  by (simp add: card_generate_def Let_def split: prod.splits option.splits sum.splits)

lemma logo_generate_unfold:
  "logo_generate e s =
     (case snd (loadFonts e (Font 700 58 DISPLAY_FONT) (Font 500 20 BODY_FONT)) of
        Some err \<Rightarrow> (fst (loadFonts e (Font 700 58 DISPLAY_FONT) (Font 500 20 BODY_FONT)), Inl err)
      | None \<Rightarrow>
          (fst (loadFonts e (Font 700 58 DISPLAY_FONT) (Font 500 20 BODY_FONT))
           @ fst (createLogo e (logo_payload s)),
           snd (createLogo e (logo_payload s))))"
  by (simp add: logo_generate_def Let_def split: prod.splits option.splits sum.splits)

lemma banner_generate_images:
  "filter is_DrawImage (fst (banner_generate e s)) =
     (case snd (loadFonts e (Font 700 60 DISPLAY_FONT) (Font 500 24 BODY_FONT)) of
        Some err \<Rightarrow> []
      | None \<Rightarrow>
         (case qr_toDataURL e (trim (bs_url s)) banner_qrOptions of
            Inl err \<Rightarrow> []
          | Inr q \<Rightarrow> if getContext2d e \<and> loadImage_ok e q
                     then [DrawImage (Img q) 1220 180 200 200] else []))"
  by (simp add: banner_generate_unfold loadFonts_plain createBanner_images banner_payload_def
        split: option.splits sum.splits)

lemma card_generate_images:
  "filter is_DrawImage (fst (card_generate e s)) =
     (case snd (loadFonts e (Font 700 44 DISPLAY_FONT) (Font 600 18 BODY_FONT)) of
        Some err \<Rightarrow> []
      | None \<Rightarrow>
         (case qr_toDataURL e (trim (cs_website s)) card_qrOptions of
            Inl err \<Rightarrow> []
          | Inr q \<Rightarrow> if getContext2d e \<and> loadImage_ok e q
                     then [DrawImage (Img q) 730 160 200 200] else []))"
  by (simp add: card_generate_unfold loadFonts_plain createBusinessCard_images card_payload_def
        split: option.splits sum.splits)

lemma logo_generate_images: "filter is_DrawImage (fst (logo_generate e s)) = []"
  by (simp add: logo_generate_unfold loadFonts_plain createLogo_images split: option.splits)

lemma generate_qr_calls:
  "filter is_QrToDataURL (fst (banner_generate e bs)) =
     (case snd (loadFonts e (Font 700 60 DISPLAY_FONT) (Font 500 24 BODY_FONT)) of
        Some err \<Rightarrow> [] | None \<Rightarrow> [QrToDataURL (trim (bs_url bs)) banner_qrOptions])"
  "filter is_QrToDataURL (fst (card_generate e cs)) =
     (case snd (loadFonts e (Font 700 44 DISPLAY_FONT) (Font 600 18 BODY_FONT)) of
        Some err \<Rightarrow> [] | None \<Rightarrow> [QrToDataURL (trim (cs_website cs)) card_qrOptions])"
  "filter is_QrToDataURL (fst (logo_generate e ls)) = []"
  by (simp_all add: banner_generate_unfold card_generate_unfold logo_generate_unfold
        loadFonts_plain create_no_qr split: option.splits sum.splits)

lemma handleSubmit_trace:
  "fst (handleSubmit_banner e bs) = (if trim (bs_url bs) = [] then [] else fst (banner_generate e bs))"
  "fst (handleSubmit_card e cs) = (if trim (cs_website cs) = [] then [] else fst (card_generate e cs))"
  "fst (handleSubmit_logo e ls) = fst (logo_generate e ls)"
  "fst (handleSubmit_poster e ps) = (if trim (ps_url ps) = [] then [] else fst (poster_generate e ps))"
  by (simp_all add: handleSubmit_banner_def handleSubmit_card_def handleSubmit_logo_def
        handleSubmit_poster_def Let_def split: prod.splits sum.splits)

lemma poster_for_unfold:
  "poster_for e u qs b t l tpl =
     (case qr_toDataURL e u (poster_qrOptions qs tpl) of
        Inl err \<Rightarrow> ([QrToDataURL u (poster_qrOptions qs tpl)], Inl err)
      | Inr q \<Rightarrow>
          (QrToDataURL u (poster_qrOptions qs tpl) # fst (createPoster e (poster_payload tpl b t u qs q l)),
           (case snd (createPoster e (poster_payload tpl b t u qs q l)) of
              Inl err \<Rightarrow> Inl err
            | Inr posterUrl \<Rightarrow>
                Inr \<lparr>r_id = t_id tpl, r_name = t_name tpl,
                     r_description = t_description tpl, r_posterUrl = posterUrl\<rparr>)))"
  by (simp add: poster_for_def split: prod.splits sum.splits)

lemma createPoster_segments_concat: "concat (createPoster_segments e p) = fst (createPoster e p)"
  by (simp add: createPoster_segments_def createPoster_def Let_def split: sum.splits)

lemma poster_for_segments_concat:
  "fst (poster_for e u qs b t l tpl) =
     QrToDataURL u (poster_qrOptions qs tpl) # concat (poster_for_segments e u qs b t l tpl)"
  by (simp add: poster_for_unfold poster_for_segments_def createPoster_segments_concat split: sum.splits)

lemma concat_update:
  assumes "i < length pending" and "pending ! i = seg # rest"
  shows "set seg \<union> set (concat (map concat (pending[i := rest]))) = set (concat (map concat pending))"
proof -
  have p: "pending = take i pending @ (seg # rest) # drop (Suc i) pending"
    using assms by (metis id_take_nth_drop)
  have u: "pending[i := rest] = take i pending @ rest # drop (Suc i) pending"
    using assms(1) by (simp add: upd_conv_take_nth_drop)
  have "set (concat (map concat pending)) =
        set (concat (map concat (take i pending @ (seg # rest) # drop (Suc i) pending)))"
    using p by simp
  then show ?thesis unfolding u by auto
qed

lemma resume_set: "set (resume order pending) = set (concat (map concat pending))"
proof (induction order arbitrary: pending)
  case Nil
  then show ?case by simp
next
  case (Cons i order)
  show ?case
  proof (cases "i < length pending")
    case False
    then show ?thesis using Cons.IH by simp
  next
    case True
    show ?thesis
    proof (cases "pending ! i")
      case Nil
      with True show ?thesis using Cons.IH by simp
    next
      case (Cons seg rest)
      have "set (resume (i # order) pending) = set seg \<union> set (resume order (pending[i := rest]))"
        using True Cons by simp
      also have "\<dots> = set seg \<union> set (concat (map concat (pending[i := rest])))"
        using Cons.IH by simp
      also have "\<dots> = set (concat (map concat pending))" by (rule concat_update [OF True Cons])
      finally show ?thesis .
    qed
  qed
qed

lemma poster_generate_unfold:
  "poster_generate e s =
     (case snd (loadFonts e (Font 700 48 DISPLAY_FONT) (Font 500 20 BODY_FONT)) of
        Some err \<Rightarrow> (fst (loadFonts e (Font 700 48 DISPLAY_FONT) (Font 500 20 BODY_FONT)), Inl err)
      | None \<Rightarrow>
         (case snd (poster_logo e s) of
            Inl err \<Rightarrow>
              (fst (loadFonts e (Font 700 48 DISPLAY_FONT) (Font 500 20 BODY_FONT))
               @ fst (poster_logo e s), Inl err)
          | Inr logoImage \<Rightarrow>
              (fst (loadFonts e (Font 700 48 DISPLAY_FONT) (Font 500 20 BODY_FONT))
               @ fst (poster_logo e s)
               @ map (\<lambda>tpl. QrToDataURL (trim (ps_url s))
                               (poster_qrOptions (clampQrSize (js_Number e (ps_size s))) tpl))
                     (poster_templates e s)
               @ resume (resume_order e)
                   (map (poster_for_segments e (trim (ps_url s))
                           (clampQrSize (js_Number e (ps_size s)))
                           (or_default (trim (ps_brandName s)) ''Your Brand'')
                           (or_default (trim (ps_tagline s)) ''Scan to connect'')
                           logoImage)
                        (poster_templates e s)),
               promise_all (map (\<lambda>tpl. snd (poster_for e (trim (ps_url s))
                                 (clampQrSize (js_Number e (ps_size s)))
                                 (or_default (trim (ps_brandName s)) ''Your Brand'')
                                 (or_default (trim (ps_tagline s)) ''Scan to connect'')
                                 logoImage tpl))
                             (poster_templates e s)))))"
  by (simp add: poster_generate_def Let_def comp_def split: prod.splits option.splits sum.splits)

lemma poster_logo_cases:
  "snd (poster_logo e s) = Inr l \<Longrightarrow> l = map_option Img (truthy (ps_logoUrl s))"
  "filter is_DrawImage (fst (poster_logo e s)) = []"
  "filter is_QrToDataURL (fst (poster_logo e s)) = []"
  by (auto simp: poster_logo_def loadImage_def split: option.splits if_splits)

lemma poster_for_images:
  "filter is_DrawImage (fst (poster_for e u qs b t l tpl)) =
     (case qr_toDataURL e u (poster_qrOptions qs tpl) of
        Inl err \<Rightarrow> []
      | Inr q \<Rightarrow>
          (if getContext2d e
           then (case l of None \<Rightarrow> [] | Some logoImage \<Rightarrow> [DrawImage logoImage 66 66 88 88])
                @ (if loadImage_ok e q
                   then [DrawImage (Img q) ((POSTER_WIDTH - (qs + 90)) / 2 + 45) 305 qs qs]
                   else [])
           else []))"
  by (simp add: poster_for_unfold createPoster_images poster_payload_def poster_cardX_def
        poster_cardWidth_def poster_cardY_def split: sum.splits)

lemma poster_for_qr_calls:
  "filter is_QrToDataURL (fst (poster_for e u qs b t l tpl)) = [QrToDataURL u (poster_qrOptions qs tpl)]"
  by (simp add: poster_for_unfold create_no_qr split: sum.splits)

lemma callbacks_set:
  "set (map (\<lambda>tpl. QrToDataURL u (poster_qrOptions qs tpl)) tpls
        @ resume order (map (poster_for_segments e u qs b t l) tpls))
   = (\<Union>tpl \<in> set tpls. set (fst (poster_for e u qs b t l tpl)))"
  by (auto simp: resume_set poster_for_segments_concat)


lemma poster_generate_members:
  assumes "c \<in> set (fst (poster_generate e s))"
  shows "c \<in> set (fst (loadFonts e (Font 700 48 DISPLAY_FONT) (Font 500 20 BODY_FONT)))
     \<or> c \<in> set (fst (poster_logo e s))
     \<or> (\<exists>tpl \<in> set (poster_templates e s).
           c \<in> set (fst (poster_for e (trim (ps_url s)) (clampQrSize (js_Number e (ps_size s)))
                         (or_default (trim (ps_brandName s)) ''Your Brand'')
                         (or_default (trim (ps_tagline s)) ''Scan to connect'')
                         (map_option Img (truthy (ps_logoUrl s))) tpl)))"
proof (cases "snd (loadFonts e (Font 700 48 DISPLAY_FONT) (Font 500 20 BODY_FONT))")
  case (Some err)
  with assms show ?thesis by (simp add: poster_generate_unfold)
next
  case None
  show ?thesis
  proof (cases "snd (poster_logo e s)")
    case (Inl err)
    with assms None show ?thesis by (auto simp: poster_generate_unfold)
  next
    case (Inr l)
    then have l: "l = map_option Img (truthy (ps_logoUrl s))" by (rule poster_logo_cases(1))
    from assms None Inr have
      "c \<in> set (fst (loadFonts e (Font 700 48 DISPLAY_FONT) (Font 500 20 BODY_FONT)))
       \<or> c \<in> set (fst (poster_logo e s))
       \<or> c \<in> set (map (\<lambda>tpl. QrToDataURL (trim (ps_url s))
                               (poster_qrOptions (clampQrSize (js_Number e (ps_size s))) tpl))
                     (poster_templates e s)
               @ resume (resume_order e)
                   (map (poster_for_segments e (trim (ps_url s))
                           (clampQrSize (js_Number e (ps_size s)))
                           (or_default (trim (ps_brandName s)) ''Your Brand'')
                           (or_default (trim (ps_tagline s)) ''Scan to connect'')
                           (map_option Img (truthy (ps_logoUrl s))))
                        (poster_templates e s)))"
      unfolding l by (auto simp: poster_generate_unfold)
    then show ?thesis unfolding callbacks_set by blast
  qed
qed

lemma not_filtered: "filter P cs = [] \<Longrightarrow> c \<in> set cs \<Longrightarrow> \<not> P c"
  by (simp add: filter_empty_conv)

lemma poster_generate_image_source:
  assumes "c \<in> set (fst (poster_generate e s))" and "is_DrawImage c"
  shows "\<exists>tpl \<in> set (poster_templates e s).
           c \<in> set (filter is_DrawImage
                  (fst (poster_for e (trim (ps_url s)) (clampQrSize (js_Number e (ps_size s)))
                         (or_default (trim (ps_brandName s)) ''Your Brand'')
                         (or_default (trim (ps_tagline s)) ''Scan to connect'')
                         (map_option Img (truthy (ps_logoUrl s))) tpl)))"
proof -
  have nf: "c \<notin> set (fst (loadFonts e (Font 700 48 DISPLAY_FONT) (Font 500 20 BODY_FONT)))"
    using assms(2) by (auto simp: loadFonts_def)
  have nl: "c \<notin> set (fst (poster_logo e s))"
    using assms(2) by (auto simp: poster_logo_def split: option.splits)
  from poster_generate_members [OF assms(1)] nf nl obtain tpl where
    "tpl \<in> set (poster_templates e s)"
    "c \<in> set (fst (poster_for e (trim (ps_url s)) (clampQrSize (js_Number e (ps_size s)))
                         (or_default (trim (ps_brandName s)) ''Your Brand'')
                         (or_default (trim (ps_tagline s)) ''Scan to connect'')
                         (map_option Img (truthy (ps_logoUrl s))) tpl))"
    by blast
  with assms(2) show ?thesis by auto
qed

lemma poster_generate_qr_source:
  assumes "c \<in> set (fst (poster_generate e s))" and "is_QrToDataURL c"
  shows "\<exists>tpl \<in> set (poster_templates e s).
           c = QrToDataURL (trim (ps_url s))
                 (poster_qrOptions (clampQrSize (js_Number e (ps_size s))) tpl)"
proof -
  have nf: "c \<notin> set (fst (loadFonts e (Font 700 48 DISPLAY_FONT) (Font 500 20 BODY_FONT)))"
    using assms(2) by (auto simp: loadFonts_def)
  have nl: "c \<notin> set (fst (poster_logo e s))"
    using assms(2) by (auto simp: poster_logo_def split: option.splits)
  from poster_generate_members [OF assms(1)] nf nl obtain tpl where
    tpl: "tpl \<in> set (poster_templates e s)"
    and m: "c \<in> set (fst (poster_for e (trim (ps_url s)) (clampQrSize (js_Number e (ps_size s)))
                         (or_default (trim (ps_brandName s)) ''Your Brand'')
                         (or_default (trim (ps_tagline s)) ''Scan to connect'')
                         (map_option Img (truthy (ps_logoUrl s))) tpl))"
    by blast
  from m assms(2) have "c \<in> set (filter is_QrToDataURL
       (fst (poster_for e (trim (ps_url s)) (clampQrSize (js_Number e (ps_size s)))
                         (or_default (trim (ps_brandName s)) ''Your Brand'')
                         (or_default (trim (ps_tagline s)) ''Scan to connect'')
                         (map_option Img (truthy (ps_logoUrl s))) tpl)))"
    by simp
  then have "c = QrToDataURL (trim (ps_url s))
                 (poster_qrOptions (clampQrSize (js_Number e (ps_size s))) tpl)"
    by (simp add: poster_for_qr_calls)
  with tpl show ?thesis by blast
qed

text \<open>
  Claim C6. On the banner, business-card and poster pages the QR encoder is only ever
  called on the trimmed URL, and every \<open>drawImage\<close> call is square. The image drawn is the
  one loaded from the encoder's output for the trimmed URL (at 200 by 200 on the banner and
  the card, at \<open>qrSize\<close> by \<open>qrSize\<close> on the poster); the poster's only other image is the
  uploaded logo, drawn at 88 by 88.
\<close>

theorem qr_drawn_square:
  "(DrawImage i x y w h \<in> set (fst (handleSubmit_banner e bs)) \<longrightarrow>
      w = h \<and> qr_toDataURL e (trim (bs_url bs)) banner_qrOptions = Inr (case i of Img src \<Rightarrow> src))
   \<and> (QrToDataURL t opts \<in> set (fst (handleSubmit_banner e bs)) \<longrightarrow> t = trim (bs_url bs))
   \<and> (DrawImage i x y w h \<in> set (fst (handleSubmit_card e cs)) \<longrightarrow>
      w = h \<and> qr_toDataURL e (trim (cs_website cs)) card_qrOptions = Inr (case i of Img src \<Rightarrow> src))
   \<and> (QrToDataURL t opts \<in> set (fst (handleSubmit_card e cs)) \<longrightarrow> t = trim (cs_website cs))
   \<and> (DrawImage i x y w h \<in> set (fst (handleSubmit_poster e ps)) \<longrightarrow>
      w = h
      \<and> ((w = 88 \<and> map_option Img (truthy (ps_logoUrl ps)) = Some i)
         \<or> (w = clampQrSize (js_Number e (ps_size ps))
            \<and> (\<exists>tpl \<in> set (poster_templates e ps).
                  qr_toDataURL e (trim (ps_url ps))
                    (poster_qrOptions (clampQrSize (js_Number e (ps_size ps))) tpl)
                  = Inr (case i of Img src \<Rightarrow> src)))))
   \<and> (QrToDataURL t opts \<in> set (fst (handleSubmit_poster e ps)) \<longrightarrow> t = trim (ps_url ps))"
proof -
  have b1: "DrawImage i x y w h \<in> set (fst (handleSubmit_banner e bs)) \<longrightarrow>
      w = h \<and> qr_toDataURL e (trim (bs_url bs)) banner_qrOptions = Inr (case i of Img src \<Rightarrow> src)"
  proof
    assume "DrawImage i x y w h \<in> set (fst (handleSubmit_banner e bs))"
    then have "DrawImage i x y w h \<in> set (filter is_DrawImage (fst (banner_generate e bs)))"
      by (simp add: handleSubmit_trace split: if_splits)
    then show "w = h \<and> qr_toDataURL e (trim (bs_url bs)) banner_qrOptions = Inr (case i of Img src \<Rightarrow> src)"
      by (auto simp: banner_generate_images split: option.splits sum.splits if_splits)
  qed
  have b2: "QrToDataURL t opts \<in> set (fst (handleSubmit_banner e bs)) \<longrightarrow> t = trim (bs_url bs)"
  proof
    assume "QrToDataURL t opts \<in> set (fst (handleSubmit_banner e bs))"
    then have "QrToDataURL t opts \<in> set (filter is_QrToDataURL (fst (banner_generate e bs)))"
      by (simp add: handleSubmit_trace split: if_splits)
    then show "t = trim (bs_url bs)"
      by (auto simp: generate_qr_calls split: option.splits)
  qed
  have c1: "DrawImage i x y w h \<in> set (fst (handleSubmit_card e cs)) \<longrightarrow>
      w = h \<and> qr_toDataURL e (trim (cs_website cs)) card_qrOptions = Inr (case i of Img src \<Rightarrow> src)"
  proof
    assume "DrawImage i x y w h \<in> set (fst (handleSubmit_card e cs))"
    then have "DrawImage i x y w h \<in> set (filter is_DrawImage (fst (card_generate e cs)))"
      by (simp add: handleSubmit_trace split: if_splits)
    then show "w = h \<and> qr_toDataURL e (trim (cs_website cs)) card_qrOptions = Inr (case i of Img src \<Rightarrow> src)"
      by (auto simp: card_generate_images split: option.splits sum.splits if_splits)
  qed
  have c2: "QrToDataURL t opts \<in> set (fst (handleSubmit_card e cs)) \<longrightarrow> t = trim (cs_website cs)"
  proof
    assume "QrToDataURL t opts \<in> set (fst (handleSubmit_card e cs))"
    then have "QrToDataURL t opts \<in> set (filter is_QrToDataURL (fst (card_generate e cs)))"
      by (simp add: handleSubmit_trace split: if_splits)
    then show "t = trim (cs_website cs)"
      by (auto simp: generate_qr_calls split: option.splits)
  qed
  have p1: "DrawImage i x y w h \<in> set (fst (handleSubmit_poster e ps)) \<longrightarrow>
      w = h
      \<and> ((w = 88 \<and> map_option Img (truthy (ps_logoUrl ps)) = Some i)
         \<or> (w = clampQrSize (js_Number e (ps_size ps))
            \<and> (\<exists>tpl \<in> set (poster_templates e ps).
                  qr_toDataURL e (trim (ps_url ps))
                    (poster_qrOptions (clampQrSize (js_Number e (ps_size ps))) tpl)
                  = Inr (case i of Img src \<Rightarrow> src))))"
  proof
    assume "DrawImage i x y w h \<in> set (fst (handleSubmit_poster e ps))"
    then have "DrawImage i x y w h \<in> set (fst (poster_generate e ps))"
      by (simp add: handleSubmit_trace split: if_splits)
    from poster_generate_image_source [OF this] obtain tpl where
      tpl: "tpl \<in> set (poster_templates e ps)"
      and m: "DrawImage i x y w h \<in> set (filter is_DrawImage
                  (fst (poster_for e (trim (ps_url ps)) (clampQrSize (js_Number e (ps_size ps)))
                         (or_default (trim (ps_brandName ps)) ''Your Brand'')
                         (or_default (trim (ps_tagline ps)) ''Scan to connect'')
                         (map_option Img (truthy (ps_logoUrl ps))) tpl)))"
      by auto
    from m have "w = h
      \<and> ((w = 88 \<and> map_option Img (truthy (ps_logoUrl ps)) = Some i)
         \<or> (w = clampQrSize (js_Number e (ps_size ps))
            \<and> qr_toDataURL e (trim (ps_url ps))
                    (poster_qrOptions (clampQrSize (js_Number e (ps_size ps))) tpl)
                  = Inr (case i of Img src \<Rightarrow> src)))"
      unfolding poster_for_images
      by (cases "truthy (ps_logoUrl ps)") (auto split: sum.splits if_splits)
    with tpl show "w = h
      \<and> ((w = 88 \<and> map_option Img (truthy (ps_logoUrl ps)) = Some i)
         \<or> (w = clampQrSize (js_Number e (ps_size ps))
            \<and> (\<exists>tpl \<in> set (poster_templates e ps).
                  qr_toDataURL e (trim (ps_url ps))
                    (poster_qrOptions (clampQrSize (js_Number e (ps_size ps))) tpl)
                  = Inr (case i of Img src \<Rightarrow> src))))"
      by blast
  qed
  have p2: "QrToDataURL t opts \<in> set (fst (handleSubmit_poster e ps)) \<longrightarrow> t = trim (ps_url ps)"
  proof
    assume "QrToDataURL t opts \<in> set (fst (handleSubmit_poster e ps))"
    then have "QrToDataURL t opts \<in> set (fst (poster_generate e ps))"
      by (simp add: handleSubmit_trace split: if_splits)
    from poster_generate_qr_source [OF this] show "t = trim (ps_url ps)" by auto
  qed
  show ?thesis using b1 b2 c1 c2 p1 p2 by blast
qed

lemma sample_runs:
  "filter is_DrawImage (fst (handleSubmit_banner sample_env initial_banner)) =
     [DrawImage (Img ''data:qr,https://site2qr.com'') 1220 180 200 200]"
  "filter is_DrawImage (fst (handleSubmit_card sample_env initial_card)) =
     [DrawImage (Img ''data:qr,https://site2qr.com'') 730 160 200 200]"
  "filter is_DrawImage (fst (handleSubmit_poster sample_env (initial_poster\<lparr>ps_url := '' https://site2qr.com ''\<rparr>))) =
     [DrawImage (Img ''data:qr,https://site2qr.com'') 470 305 260 260,
      DrawImage (Img ''data:qr,https://site2qr.com'') 470 305 260 260,
      DrawImage (Img ''data:qr,https://site2qr.com'') 470 305 260 260]"
  "trim (bs_url initial_banner) = ''https://site2qr.com''"
  "trim (cs_website initial_card) = ''https://site2qr.com''"
  "trim (ps_url (initial_poster\<lparr>ps_url := '' https://site2qr.com ''\<rparr>)) = ''https://site2qr.com''"
  by code_simp+

lemma filter_member: "filter P cs = c # rest \<Longrightarrow> c \<in> set cs"
proof -
  assume "filter P cs = c # rest"
  then have "c \<in> set (filter P cs)" by simp
  then show ?thesis by simp
qed

theorem qr_drawn_square_witness:
  "DrawImage (Img ''data:qr,https://site2qr.com'') 1220 180 200 200
     \<in> set (fst (handleSubmit_banner sample_env initial_banner))
   \<and> qr_toDataURL sample_env (trim (bs_url initial_banner)) banner_qrOptions
       = Inr ''data:qr,https://site2qr.com''
   \<and> DrawImage (Img ''data:qr,https://site2qr.com'') 730 160 200 200
     \<in> set (fst (handleSubmit_card sample_env initial_card))
   \<and> qr_toDataURL sample_env (trim (cs_website initial_card)) card_qrOptions
       = Inr ''data:qr,https://site2qr.com''
   \<and> DrawImage (Img ''data:qr,https://site2qr.com'') 470 305 260 260
     \<in> set (fst (handleSubmit_poster sample_env (initial_poster\<lparr>ps_url := '' https://site2qr.com ''\<rparr>)))"
proof -
  have b: "DrawImage (Img ''data:qr,https://site2qr.com'') 1220 180 200 200
     \<in> set (fst (handleSubmit_banner sample_env initial_banner))"
    by (rule filter_member [OF sample_runs(1)])
  have c: "DrawImage (Img ''data:qr,https://site2qr.com'') 730 160 200 200
     \<in> set (fst (handleSubmit_card sample_env initial_card))"
    by (rule filter_member [OF sample_runs(2)])
  have p: "DrawImage (Img ''data:qr,https://site2qr.com'') 470 305 260 260
     \<in> set (fst (handleSubmit_poster sample_env (initial_poster\<lparr>ps_url := '' https://site2qr.com ''\<rparr>)))"
    by (rule filter_member [OF sample_runs(3)])
  show ?thesis
    using b c p
      qr_drawn_square [where e = sample_env and bs = initial_banner and cs = initial_card
        and ps = "initial_poster\<lparr>ps_url := '' https://site2qr.com ''\<rparr>"
        and i = "Img ''data:qr,https://site2qr.com''" and x = 1220 and y = 180 and w = 200 and h = 200]
      qr_drawn_square [where e = sample_env and bs = initial_banner and cs = initial_card
        and ps = "initial_poster\<lparr>ps_url := '' https://site2qr.com ''\<rparr>"
        and i = "Img ''data:qr,https://site2qr.com''" and x = 730 and y = 160 and w = 200 and h = 200]
    by simp
qed

subsection \<open>The submit handlers\<close>

lemma promise_all_isl: "isl (promise_all rs) \<longleftrightarrow> (\<exists>r \<in> set rs. isl r)"
proof (induction rs)
  case Nil
  then show ?case by simp
next
  case (Cons r rs)
  then show ?case by (cases r) (auto split: sum.splits)
qed

lemma create_fails:
  "\<not> getContext2d e \<or> \<not> loadImage_ok e (bp_qrDataUrl bp) \<or> (\<forall>sc. isl (canvas_toDataURL e sc))
     \<Longrightarrow> isl (snd (createBanner e bp))"
  "\<not> getContext2d e \<or> \<not> loadImage_ok e (cp_qrDataUrl cp) \<or> (\<forall>sc. isl (canvas_toDataURL e sc))
     \<Longrightarrow> isl (snd (createBusinessCard e cp))"
  "\<not> getContext2d e \<or> \<not> loadImage_ok e (pp_qrDataUrl pp) \<or> (\<forall>sc. isl (canvas_toDataURL e sc))
     \<Longrightarrow> isl (snd (createPoster e pp))"
  "\<not> getContext2d e \<or> (\<forall>sc. isl (canvas_toDataURL e sc)) \<Longrightarrow> isl (snd (createLogo e lp))"
  by (auto simp: createBanner_def createBusinessCard_def createPoster_def createLogo_def
        Let_def loadImage_def)

lemma banner_generate_fails:
  assumes "snd (loadFonts e (Font 700 60 DISPLAY_FONT) (Font 500 24 BODY_FONT)) \<noteq> None
     \<or> isl (qr_toDataURL e (trim (bs_url s)) banner_qrOptions)
     \<or> \<not> getContext2d e \<or> (\<forall>src. \<not> loadImage_ok e src) \<or> (\<forall>sc. isl (canvas_toDataURL e sc))"
  shows "isl (snd (banner_generate e s))"
  using assms create_fails(1) [of e]
  by (auto simp: banner_generate_unfold split: option.splits sum.splits)

lemma card_generate_fails:
  assumes "snd (loadFonts e (Font 700 44 DISPLAY_FONT) (Font 600 18 BODY_FONT)) \<noteq> None
     \<or> isl (qr_toDataURL e (trim (cs_website s)) card_qrOptions)
     \<or> \<not> getContext2d e \<or> (\<forall>src. \<not> loadImage_ok e src) \<or> (\<forall>sc. isl (canvas_toDataURL e sc))"
  shows "isl (snd (card_generate e s))"
  using assms create_fails(2) [of e]
  by (auto simp: card_generate_unfold split: option.splits sum.splits)

lemma logo_generate_fails:
  assumes "snd (loadFonts e (Font 700 58 DISPLAY_FONT) (Font 500 20 BODY_FONT)) \<noteq> None
     \<or> \<not> getContext2d e \<or> (\<forall>sc. isl (canvas_toDataURL e sc))"
  shows "isl (snd (logo_generate e s))"
  using assms create_fails(4) [of e]
  by (auto simp: logo_generate_unfold split: option.splits sum.splits)

lemma poster_for_fails:
  assumes "isl (qr_toDataURL e u (poster_qrOptions qs tpl))
     \<or> \<not> getContext2d e \<or> (\<forall>src. \<not> loadImage_ok e src) \<or> (\<forall>sc. isl (canvas_toDataURL e sc))"
  shows "isl (snd (poster_for e u qs b t l tpl))"
proof (cases "qr_toDataURL e u (poster_qrOptions qs tpl)")
  case (Inl err)
  then show ?thesis by (simp add: poster_for_unfold)
next
  case (Inr q)
  with assms have "\<not> getContext2d e \<or> \<not> loadImage_ok e (pp_qrDataUrl (poster_payload tpl b t u qs q l))
      \<or> (\<forall>sc. isl (canvas_toDataURL e sc))"
    by auto
  then have "isl (snd (createPoster e (poster_payload tpl b t u qs q l)))"
    by (rule create_fails(3))
  with Inr show ?thesis by (auto simp: poster_for_unfold split: sum.splits)
qed

lemma templates_length: "length (poster_templates e s) = 3"
  by (simp add: poster_templates_def buildTemplates_def Let_def)

lemma poster_generate_fails:
  assumes "snd (loadFonts e (Font 700 48 DISPLAY_FONT) (Font 500 20 BODY_FONT)) \<noteq> None
     \<or> (\<exists>tpl \<in> set (poster_templates e s).
           isl (qr_toDataURL e (trim (ps_url s))
                  (poster_qrOptions (clampQrSize (js_Number e (ps_size s))) tpl)))
     \<or> (\<exists>src. truthy (ps_logoUrl s) = Some src \<and> \<not> loadImage_ok e src)
     \<or> \<not> getContext2d e \<or> (\<forall>src. \<not> loadImage_ok e src) \<or> (\<forall>sc. isl (canvas_toDataURL e sc))"
  shows "isl (snd (poster_generate e s))"
proof (cases "snd (loadFonts e (Font 700 48 DISPLAY_FONT) (Font 500 20 BODY_FONT))")
  case (Some err)
  then show ?thesis by (simp add: poster_generate_unfold)
next
  case None
  show ?thesis
  proof (cases "snd (poster_logo e s)")
    case (Inl err)
    with None show ?thesis by (simp add: poster_generate_unfold)
  next
    case (Inr l)
    then have ok: "\<not> (\<exists>src. truthy (ps_logoUrl s) = Some src \<and> \<not> loadImage_ok e src)"
      by (auto simp: poster_logo_def loadImage_def split: option.splits if_splits)
    obtain tpl where tpl: "tpl \<in> set (poster_templates e s)"
      using templates_length [of e s] by (cases "poster_templates e s") auto
    from assms None ok have
      "(\<exists>tpl \<in> set (poster_templates e s).
           isl (qr_toDataURL e (trim (ps_url s))
                  (poster_qrOptions (clampQrSize (js_Number e (ps_size s))) tpl)))
       \<or> \<not> getContext2d e \<or> (\<forall>src. \<not> loadImage_ok e src) \<or> (\<forall>sc. isl (canvas_toDataURL e sc))"
      by blast
    then have "\<exists>tpl \<in> set (poster_templates e s).
        isl (snd (poster_for e (trim (ps_url s)) (clampQrSize (js_Number e (ps_size s)))
                   (or_default (trim (ps_brandName s)) ''Your Brand'')
                   (or_default (trim (ps_tagline s)) ''Scan to connect'') l tpl))"
      using tpl poster_for_fails by blast
    with None Inr show ?thesis
      by (simp add: poster_generate_unfold promise_all_isl)
  qed
qed

lemma handleSubmit_state:
  "snd (handleSubmit_banner e bs) =
     (if trim (bs_url bs) = []
      then bs\<lparr>bs_error := ''Please enter a URL to embed in the banner QR code.''\<rparr>
      else (case snd (banner_generate e bs) of
              Inl err \<Rightarrow> bs\<lparr>bs_bannerUrl := None, bs_loading := False,
                             bs_error := ''Could not generate the banner. Please try again.''\<rparr>
            | Inr png \<Rightarrow> bs\<lparr>bs_bannerUrl := Some png, bs_loading := False, bs_error := ''''\<rparr>))"
  "snd (handleSubmit_card e cs) =
     (if trim (cs_website cs) = []
      then cs\<lparr>cs_error := ''Please enter a website URL to generate a QR code.''\<rparr>
      else (case snd (card_generate e cs) of
              Inl err \<Rightarrow> cs\<lparr>cs_cardUrl := None, cs_loading := False,
                             cs_error := ''Could not generate the business card. Please try again.''\<rparr>
            | Inr png \<Rightarrow> cs\<lparr>cs_cardUrl := Some png, cs_loading := False, cs_error := ''''\<rparr>))"
  "snd (handleSubmit_logo e ls) =
     (case snd (logo_generate e ls) of
        Inl err \<Rightarrow> ls\<lparr>ls_logoUrl := None, ls_loading := False,
                       ls_error := ''Could not generate the logo. Please try again.''\<rparr>
      | Inr png \<Rightarrow> ls\<lparr>ls_logoUrl := Some png, ls_loading := False, ls_error := ''''\<rparr>)"
  "snd (handleSubmit_poster e ps) =
     (if trim (ps_url ps) = []
      then ps\<lparr>ps_error := ''Please enter a URL to generate posters.''\<rparr>
      else (case snd (poster_generate e ps) of
              Inl err \<Rightarrow> ps\<lparr>ps_posters := [], ps_loading := False,
                             ps_error := ''Could not generate branded posters. Please try again.''\<rparr>
            | Inr rs \<Rightarrow> ps\<lparr>ps_posters := rs, ps_loading := False, ps_error := ''''\<rparr>))"
  by (simp_all add: handleSubmit_banner_def handleSubmit_card_def handleSubmit_logo_def
        handleSubmit_poster_def Let_def split: prod.splits sum.splits)

text \<open>
  Claim C4. When the \<^verbatim>\<open>try\<close> block of a page's \<open>handleSubmit\<close> throws at any step, the
  handler ends with the page's fixed error message, with the result cleared (the empty
  list of posters, or \<open>None\<close>) and with \<open>loading\<close> false; \<open>loading\<close> is false after every
  generation, failed or not. The block throws when the fonts fail to load, when the QR
  encoder rejects, when the 2D context is missing, when an image fails to load or when the
  PNG export throws.
\<close>

theorem submit_failure:
  "(trim (ps_url ps) \<noteq> [] \<and> isl (snd (poster_generate e ps)) \<longrightarrow>
      snd (handleSubmit_poster e ps) =
        ps\<lparr>ps_posters := [], ps_loading := False,
           ps_error := ''Could not generate branded posters. Please try again.''\<rparr>)
   \<and> (trim (ps_url ps) \<noteq> [] \<longrightarrow> \<not> ps_loading (snd (handleSubmit_poster e ps)))
   \<and> (snd (loadFonts e (Font 700 48 DISPLAY_FONT) (Font 500 20 BODY_FONT)) \<noteq> None
       \<or> (\<exists>tpl \<in> set (poster_templates e ps).
             isl (qr_toDataURL e (trim (ps_url ps))
                    (poster_qrOptions (clampQrSize (js_Number e (ps_size ps))) tpl)))
       \<or> (\<exists>src. truthy (ps_logoUrl ps) = Some src \<and> \<not> loadImage_ok e src)
       \<or> \<not> getContext2d e \<or> (\<forall>src. \<not> loadImage_ok e src) \<or> (\<forall>sc. isl (canvas_toDataURL e sc))
      \<longrightarrow> isl (snd (poster_generate e ps)))
   \<and> (trim (bs_url bs) \<noteq> [] \<and> isl (snd (banner_generate e bs)) \<longrightarrow>
      snd (handleSubmit_banner e bs) =
        bs\<lparr>bs_bannerUrl := None, bs_loading := False,
           bs_error := ''Could not generate the banner. Please try again.''\<rparr>)
   \<and> (trim (bs_url bs) \<noteq> [] \<longrightarrow> \<not> bs_loading (snd (handleSubmit_banner e bs)))
   \<and> (snd (loadFonts e (Font 700 60 DISPLAY_FONT) (Font 500 24 BODY_FONT)) \<noteq> None
       \<or> isl (qr_toDataURL e (trim (bs_url bs)) banner_qrOptions)
       \<or> \<not> getContext2d e \<or> (\<forall>src. \<not> loadImage_ok e src) \<or> (\<forall>sc. isl (canvas_toDataURL e sc))
      \<longrightarrow> isl (snd (banner_generate e bs)))
   \<and> (trim (cs_website cs) \<noteq> [] \<and> isl (snd (card_generate e cs)) \<longrightarrow>
      snd (handleSubmit_card e cs) =
        cs\<lparr>cs_cardUrl := None, cs_loading := False,
           cs_error := ''Could not generate the business card. Please try again.''\<rparr>)
   \<and> (trim (cs_website cs) \<noteq> [] \<longrightarrow> \<not> cs_loading (snd (handleSubmit_card e cs)))
   \<and> (snd (loadFonts e (Font 700 44 DISPLAY_FONT) (Font 600 18 BODY_FONT)) \<noteq> None
       \<or> isl (qr_toDataURL e (trim (cs_website cs)) card_qrOptions)
       \<or> \<not> getContext2d e \<or> (\<forall>src. \<not> loadImage_ok e src) \<or> (\<forall>sc. isl (canvas_toDataURL e sc))
      \<longrightarrow> isl (snd (card_generate e cs)))
   \<and> (isl (snd (logo_generate e ls)) \<longrightarrow>
      snd (handleSubmit_logo e ls) =
        ls\<lparr>ls_logoUrl := None, ls_loading := False,
           ls_error := ''Could not generate the logo. Please try again.''\<rparr>)
   \<and> \<not> ls_loading (snd (handleSubmit_logo e ls))
   \<and> (snd (loadFonts e (Font 700 58 DISPLAY_FONT) (Font 500 20 BODY_FONT)) \<noteq> None
       \<or> \<not> getContext2d e \<or> (\<forall>sc. isl (canvas_toDataURL e sc))
      \<longrightarrow> isl (snd (logo_generate e ls)))"
proof -
  have p1: "trim (ps_url ps) \<noteq> [] \<and> isl (snd (poster_generate e ps)) \<longrightarrow>
      snd (handleSubmit_poster e ps) =
        ps\<lparr>ps_posters := [], ps_loading := False,
           ps_error := ''Could not generate branded posters. Please try again.''\<rparr>"
    by (cases "snd (poster_generate e ps)") (simp_all add: handleSubmit_state)
  have p2: "trim (ps_url ps) \<noteq> [] \<longrightarrow> \<not> ps_loading (snd (handleSubmit_poster e ps))"
    by (cases "snd (poster_generate e ps)") (simp_all add: handleSubmit_state)
  have b1: "trim (bs_url bs) \<noteq> [] \<and> isl (snd (banner_generate e bs)) \<longrightarrow>
      snd (handleSubmit_banner e bs) =
        bs\<lparr>bs_bannerUrl := None, bs_loading := False,
           bs_error := ''Could not generate the banner. Please try again.''\<rparr>"
    by (cases "snd (banner_generate e bs)") (simp_all add: handleSubmit_state)
  have b2: "trim (bs_url bs) \<noteq> [] \<longrightarrow> \<not> bs_loading (snd (handleSubmit_banner e bs))"
    by (cases "snd (banner_generate e bs)") (simp_all add: handleSubmit_state)
  have c1: "trim (cs_website cs) \<noteq> [] \<and> isl (snd (card_generate e cs)) \<longrightarrow>
      snd (handleSubmit_card e cs) =
        cs\<lparr>cs_cardUrl := None, cs_loading := False,
           cs_error := ''Could not generate the business card. Please try again.''\<rparr>"
    by (cases "snd (card_generate e cs)") (simp_all add: handleSubmit_state)
  have c2: "trim (cs_website cs) \<noteq> [] \<longrightarrow> \<not> cs_loading (snd (handleSubmit_card e cs))"
    by (cases "snd (card_generate e cs)") (simp_all add: handleSubmit_state)
  have l1: "isl (snd (logo_generate e ls)) \<longrightarrow>
      snd (handleSubmit_logo e ls) =
        ls\<lparr>ls_logoUrl := None, ls_loading := False,
           ls_error := ''Could not generate the logo. Please try again.''\<rparr>"
    by (cases "snd (logo_generate e ls)") (simp_all add: handleSubmit_state)
  have l2: "\<not> ls_loading (snd (handleSubmit_logo e ls))"
    by (cases "snd (logo_generate e ls)") (simp_all add: handleSubmit_state)
  show ?thesis
    using p1 p2 b1 b2 c1 c2 l1 l2
      poster_generate_fails [of e ps] banner_generate_fails [of e bs]
      card_generate_fails [of e cs] logo_generate_fails [of e ls]
    by blast
qed

lemma failing_runs:
  "trim (bs_url initial_banner) \<noteq> []"
  "trim (cs_website initial_card) \<noteq> []"
  "trim (ps_url (initial_poster\<lparr>ps_url := '' https://site2qr.com ''\<rparr>)) \<noteq> []"
  "\<not> getContext2d (sample_env\<lparr>getContext2d := False\<rparr>)"
  by code_simp+

theorem submit_failure_witness:
  "snd (handleSubmit_banner (sample_env\<lparr>getContext2d := False\<rparr>)
         (initial_banner\<lparr>bs_bannerUrl := Some ''data:old''\<rparr>)) =
     initial_banner\<lparr>bs_bannerUrl := None, bs_loading := False,
        bs_error := ''Could not generate the banner. Please try again.''\<rparr>
   \<and> snd (handleSubmit_card (sample_env\<lparr>getContext2d := False\<rparr>)
         (initial_card\<lparr>cs_cardUrl := Some ''data:old''\<rparr>)) =
     initial_card\<lparr>cs_cardUrl := None, cs_loading := False,
        cs_error := ''Could not generate the business card. Please try again.''\<rparr>
   \<and> snd (handleSubmit_logo (sample_env\<lparr>getContext2d := False\<rparr>)
         (initial_logo\<lparr>ls_logoUrl := Some ''data:old''\<rparr>)) =
     initial_logo\<lparr>ls_logoUrl := None, ls_loading := False,
        ls_error := ''Could not generate the logo. Please try again.''\<rparr>
   \<and> snd (handleSubmit_poster (sample_env\<lparr>getContext2d := False\<rparr>)
         (initial_poster\<lparr>ps_url := '' https://site2qr.com ''\<rparr>)) =
     initial_poster\<lparr>ps_url := '' https://site2qr.com '', ps_posters := [], ps_loading := False,
        ps_error := ''Could not generate branded posters. Please try again.''\<rparr>"
proof -
  have u: "trim (bs_url (initial_banner\<lparr>bs_bannerUrl := Some ''data:old''\<rparr>)) \<noteq> []"
    "trim (cs_website (initial_card\<lparr>cs_cardUrl := Some ''data:old''\<rparr>)) \<noteq> []"
    using failing_runs by simp_all
  show ?thesis
    using u failing_runs(3,4)
      submit_failure [of "initial_poster\<lparr>ps_url := '' https://site2qr.com ''\<rparr>"
        "sample_env\<lparr>getContext2d := False\<rparr>"
        "initial_banner\<lparr>bs_bannerUrl := Some ''data:old''\<rparr>"
        "initial_card\<lparr>cs_cardUrl := Some ''data:old''\<rparr>"
        "initial_logo\<lparr>ls_logoUrl := Some ''data:old''\<rparr>"]
    by (simp add: initial_banner_def initial_card_def initial_logo_def initial_poster_def)
qed

lemma filter_mem: "filter P cs = [c] \<Longrightarrow> c \<in> set cs"
proof -
  assume "filter P cs = [c]"
  then have "c \<in> set (filter P cs)" by simp
  then show ?thesis by simp
qed

subsection \<open>What a successful generation does\<close>

lemma drawing_on_canvas: "list_all drawing cs \<Longrightarrow> list_all on_canvas cs"
  by (induction cs) (auto elim: drawing.elims)

lemma on_canvas_no_click: "list_all on_canvas cs \<Longrightarrow> filter is_LinkClick cs = []"
  by (induction cs) (auto elim: on_canvas.elims)

lemma createBanner_success:
  assumes "snd (createBanner e p) = Inr png"
  shows "\<exists>canvas. fst (createBanner e p) = canvas @ [ToDataURL ''image/png'']
           \<and> canvas_toDataURL e canvas = Inr png \<and> list_all on_canvas canvas
           \<and> DrawImage (Img (bp_qrDataUrl p)) 1220 180 200 200 \<in> set canvas"
proof -
  from assms have ok: "getContext2d e" "loadImage_ok e (bp_qrDataUrl p)"
    by (auto simp: createBanner_def Let_def loadImage_def split: if_splits)
  let ?canvas = "[SetWidth BANNER_WIDTH, SetHeight BANNER_HEIGHT, GetContext ''2d'']
      @ createBanner_upto_qr e p @ [LoadImage (bp_qrDataUrl p)]
      @ createBanner_from_qr (Img (bp_qrDataUrl p))"
  have 1: "fst (createBanner e p) = ?canvas @ [ToDataURL ''image/png'']"
    using ok by (simp add: createBanner_def Let_def loadImage_def)
  have 2: "canvas_toDataURL e ?canvas = Inr png"
    using ok assms by (simp add: createBanner_def Let_def loadImage_def)
  have 3: "list_all on_canvas ?canvas"
    by (simp add: drawing_on_canvas plain_drawing createBanner_upto_qr_plain from_qr_drawing)
  have 4: "DrawImage (Img (bp_qrDataUrl p)) 1220 180 200 200 \<in> set ?canvas"
    by (simp add: createBanner_from_qr_def BANNER_WIDTH_def)
  from 1 2 3 4 show ?thesis by blast
qed

lemma createBusinessCard_success:
  assumes "snd (createBusinessCard e p) = Inr png"
  shows "\<exists>canvas. fst (createBusinessCard e p) = canvas @ [ToDataURL ''image/png'']
           \<and> canvas_toDataURL e canvas = Inr png \<and> list_all on_canvas canvas
           \<and> DrawImage (Img (cp_qrDataUrl p)) 730 160 200 200 \<in> set canvas"
proof -
  from assms have ok: "getContext2d e" "loadImage_ok e (cp_qrDataUrl p)"
    by (auto simp: createBusinessCard_def Let_def loadImage_def split: if_splits)
  let ?canvas = "[SetWidth CARD_WIDTH, SetHeight CARD_HEIGHT, GetContext ''2d'']
      @ createBusinessCard_upto_qr e p @ [LoadImage (cp_qrDataUrl p)]
      @ createBusinessCard_from_qr (Img (cp_qrDataUrl p))"
  have 1: "fst (createBusinessCard e p) = ?canvas @ [ToDataURL ''image/png'']"
    using ok by (simp add: createBusinessCard_def Let_def loadImage_def)
  have 2: "canvas_toDataURL e ?canvas = Inr png"
    using ok assms by (simp add: createBusinessCard_def Let_def loadImage_def)
  have 3: "list_all on_canvas ?canvas"
    by (simp add: drawing_on_canvas plain_drawing createBusinessCard_upto_qr_plain from_qr_drawing)
  have 4: "DrawImage (Img (cp_qrDataUrl p)) 730 160 200 200 \<in> set ?canvas"
    by (simp add: createBusinessCard_from_qr_def CARD_WIDTH_def)
  from 1 2 3 4 show ?thesis by blast
qed

lemma createPoster_success:
  assumes "snd (createPoster e p) = Inr png"
  shows "\<exists>canvas. fst (createPoster e p) = canvas @ [ToDataURL ''image/png'']
           \<and> canvas_toDataURL e canvas = Inr png \<and> list_all on_canvas canvas
           \<and> DrawImage (Img (pp_qrDataUrl p)) (poster_cardX p + 45) (poster_cardY + 45)
                (pp_qrSize p) (pp_qrSize p) \<in> set canvas"
proof -
  from assms have ok: "getContext2d e" "loadImage_ok e (pp_qrDataUrl p)"
    by (auto simp: createPoster_def Let_def loadImage_def split: if_splits)
  let ?canvas = "[SetWidth POSTER_WIDTH, SetHeight POSTER_HEIGHT, GetContext ''2d'']
      @ createPoster_upto_qr e p @ [LoadImage (pp_qrDataUrl p)]
      @ createPoster_from_qr p (Img (pp_qrDataUrl p))"
  have 1: "fst (createPoster e p) = ?canvas @ [ToDataURL ''image/png'']"
    using ok by (simp add: createPoster_def Let_def loadImage_def)
  have 2: "canvas_toDataURL e ?canvas = Inr png"
    using ok assms by (simp add: createPoster_def Let_def loadImage_def)
  have 3: "list_all on_canvas ?canvas"
    by (simp add: drawing_on_canvas createPoster_upto_qr_drawing from_qr_drawing)
  have 4: "DrawImage (Img (pp_qrDataUrl p)) (poster_cardX p + 45) (poster_cardY + 45)
                (pp_qrSize p) (pp_qrSize p) \<in> set ?canvas"
    by (simp add: createPoster_from_qr_def Let_def)
  from 1 2 3 4 show ?thesis by blast
qed

lemma createLogo_success:
  assumes "snd (createLogo e p) = Inr png"
  shows "\<exists>canvas. fst (createLogo e p) = canvas @ [ToDataURL ''image/png'']
           \<and> canvas_toDataURL e canvas = Inr png \<and> list_all on_canvas canvas"
proof -
  from assms have ok: "getContext2d e"
    by (auto simp: createLogo_def Let_def split: if_splits)
  let ?canvas = "[SetWidth LOGO_WIDTH, SetHeight LOGO_HEIGHT, GetContext ''2d'']
      @ createLogo_drawing e p"
  have 1: "fst (createLogo e p) = ?canvas @ [ToDataURL ''image/png'']"
    using ok by (simp add: createLogo_def Let_def)
  have 2: "canvas_toDataURL e ?canvas = Inr png"
    using ok assms by (simp add: createLogo_def Let_def)
  have 3: "list_all on_canvas ?canvas"
    by (simp add: drawing_on_canvas plain_drawing createLogo_drawing_plain)
  from 1 2 3 show ?thesis by blast
qed

lemma banner_generate_success:
  assumes "snd (banner_generate e s) = Inr png"
  shows "\<exists>q canvas. qr_toDataURL e (trim (bs_url s)) banner_qrOptions = Inr q
     \<and> fst (banner_generate e s) =
         fst (loadFonts e (Font 700 60 DISPLAY_FONT) (Font 500 24 BODY_FONT))
         @ [QrToDataURL (trim (bs_url s)) banner_qrOptions] @ canvas @ [ToDataURL ''image/png'']
     \<and> canvas_toDataURL e canvas = Inr png \<and> list_all on_canvas canvas
     \<and> DrawImage (Img q) 1220 180 200 200 \<in> set canvas"
proof -
  from assms have f: "snd (loadFonts e (Font 700 60 DISPLAY_FONT) (Font 500 24 BODY_FONT)) = None"
    by (auto simp: banner_generate_unfold split: option.splits)
  from assms f obtain q where q: "qr_toDataURL e (trim (bs_url s)) banner_qrOptions = Inr q"
    by (cases "qr_toDataURL e (trim (bs_url s)) banner_qrOptions")
       (auto simp: banner_generate_unfold)
  from assms f q have "snd (createBanner e (banner_payload s q)) = Inr png"
    by (simp add: banner_generate_unfold)
  from createBanner_success [OF this] obtain canvas where c:
    "fst (createBanner e (banner_payload s q)) = canvas @ [ToDataURL ''image/png'']"
    "canvas_toDataURL e canvas = Inr png" "list_all on_canvas canvas"
    "DrawImage (Img (bp_qrDataUrl (banner_payload s q))) 1220 180 200 200 \<in> set canvas"
    by blast
  have "fst (banner_generate e s) =
         fst (loadFonts e (Font 700 60 DISPLAY_FONT) (Font 500 24 BODY_FONT))
         @ [QrToDataURL (trim (bs_url s)) banner_qrOptions] @ canvas @ [ToDataURL ''image/png'']"
    using f q c(1) by (simp add: banner_generate_unfold)
  moreover have "DrawImage (Img q) 1220 180 200 200 \<in> set canvas"
    using c(4) by (simp add: banner_payload_def)
  ultimately show ?thesis using q c(2,3) by blast
qed

lemma card_generate_success:
  assumes "snd (card_generate e s) = Inr png"
  shows "\<exists>q canvas. qr_toDataURL e (trim (cs_website s)) card_qrOptions = Inr q
     \<and> fst (card_generate e s) =
         fst (loadFonts e (Font 700 44 DISPLAY_FONT) (Font 600 18 BODY_FONT))
         @ [QrToDataURL (trim (cs_website s)) card_qrOptions] @ canvas @ [ToDataURL ''image/png'']
     \<and> canvas_toDataURL e canvas = Inr png \<and> list_all on_canvas canvas
     \<and> DrawImage (Img q) 730 160 200 200 \<in> set canvas"
proof -
  from assms have f: "snd (loadFonts e (Font 700 44 DISPLAY_FONT) (Font 600 18 BODY_FONT)) = None"
    by (auto simp: card_generate_unfold split: option.splits)
  from assms f obtain q where q: "qr_toDataURL e (trim (cs_website s)) card_qrOptions = Inr q"
    by (cases "qr_toDataURL e (trim (cs_website s)) card_qrOptions")
       (auto simp: card_generate_unfold)
  from assms f q have "snd (createBusinessCard e (card_payload s q)) = Inr png"
    by (simp add: card_generate_unfold)
  from createBusinessCard_success [OF this] obtain canvas where c:
    "fst (createBusinessCard e (card_payload s q)) = canvas @ [ToDataURL ''image/png'']"
    "canvas_toDataURL e canvas = Inr png" "list_all on_canvas canvas"
    "DrawImage (Img (cp_qrDataUrl (card_payload s q))) 730 160 200 200 \<in> set canvas"
    by blast
  have "fst (card_generate e s) =
         fst (loadFonts e (Font 700 44 DISPLAY_FONT) (Font 600 18 BODY_FONT))
         @ [QrToDataURL (trim (cs_website s)) card_qrOptions] @ canvas @ [ToDataURL ''image/png'']"
    using f q c(1) by (simp add: card_generate_unfold)
  moreover have "DrawImage (Img q) 730 160 200 200 \<in> set canvas"
    using c(4) by (simp add: card_payload_def)
  ultimately show ?thesis using q c(2,3) by blast
qed

lemma logo_generate_success:
  assumes "snd (logo_generate e s) = Inr png"
  shows "\<exists>canvas. fst (logo_generate e s) =
         fst (loadFonts e (Font 700 58 DISPLAY_FONT) (Font 500 20 BODY_FONT))
         @ canvas @ [ToDataURL ''image/png'']
     \<and> canvas_toDataURL e canvas = Inr png \<and> list_all on_canvas canvas"
proof -
  from assms have f: "snd (loadFonts e (Font 700 58 DISPLAY_FONT) (Font 500 20 BODY_FONT)) = None"
    by (auto simp: logo_generate_unfold split: option.splits)
  from assms f have "snd (createLogo e (logo_payload s)) = Inr png"
    by (simp add: logo_generate_unfold)
  from createLogo_success [OF this] obtain canvas where c:
    "fst (createLogo e (logo_payload s)) = canvas @ [ToDataURL ''image/png'']"
    "canvas_toDataURL e canvas = Inr png" "list_all on_canvas canvas"
    by blast
  have "fst (logo_generate e s) =
         fst (loadFonts e (Font 700 58 DISPLAY_FONT) (Font 500 20 BODY_FONT))
         @ canvas @ [ToDataURL ''image/png'']"
    using f c(1) by (simp add: logo_generate_unfold)
  then show ?thesis using c(2,3) by blast
qed

lemma poster_for_success:
  assumes "snd (poster_for e u qs b t l tpl) = Inr r"
  shows "\<exists>q canvas. qr_toDataURL e u (poster_qrOptions qs tpl) = Inr q
     \<and> fst (poster_for e u qs b t l tpl) =
         [QrToDataURL u (poster_qrOptions qs tpl)] @ canvas @ [ToDataURL ''image/png'']
     \<and> canvas_toDataURL e canvas = Inr (r_posterUrl r) \<and> list_all on_canvas canvas
     \<and> DrawImage (Img q) ((POSTER_WIDTH - (qs + 90)) / 2 + 45) 305 qs qs \<in> set canvas
     \<and> r_id r = t_id tpl \<and> r_name r = t_name tpl \<and> r_description r = t_description tpl"
proof -
  from assms obtain q where q: "qr_toDataURL e u (poster_qrOptions qs tpl) = Inr q"
    by (cases "qr_toDataURL e u (poster_qrOptions qs tpl)") (auto simp: poster_for_unfold)
  from assms q obtain png where png:
    "snd (createPoster e (poster_payload tpl b t u qs q l)) = Inr png"
    "r = \<lparr>r_id = t_id tpl, r_name = t_name tpl, r_description = t_description tpl,
          r_posterUrl = png\<rparr>"
    by (cases "snd (createPoster e (poster_payload tpl b t u qs q l))")
       (auto simp: poster_for_unfold)
  from createPoster_success [OF png(1)] obtain canvas where c:
    "fst (createPoster e (poster_payload tpl b t u qs q l)) = canvas @ [ToDataURL ''image/png'']"
    "canvas_toDataURL e canvas = Inr png" "list_all on_canvas canvas"
    "DrawImage (Img (pp_qrDataUrl (poster_payload tpl b t u qs q l)))
        (poster_cardX (poster_payload tpl b t u qs q l) + 45) (poster_cardY + 45)
        (pp_qrSize (poster_payload tpl b t u qs q l)) (pp_qrSize (poster_payload tpl b t u qs q l))
      \<in> set canvas"
    by blast
  have 1: "fst (poster_for e u qs b t l tpl) =
         [QrToDataURL u (poster_qrOptions qs tpl)] @ canvas @ [ToDataURL ''image/png'']"
    using q c(1) by (simp add: poster_for_unfold)
  have 2: "DrawImage (Img q) ((POSTER_WIDTH - (qs + 90)) / 2 + 45) 305 qs qs \<in> set canvas"
    using c(4) by (simp add: poster_payload_def poster_cardX_def poster_cardWidth_def poster_cardY_def)
  have 3: "canvas_toDataURL e canvas = Inr (r_posterUrl r)" using c(2) png(2) by simp
  have 4: "r_id r = t_id tpl \<and> r_name r = t_name tpl \<and> r_description r = t_description tpl"
    using png(2) by simp
  from q 1 2 3 4 c(3) show ?thesis by blast
qed

lemma promise_all_Inr: "promise_all rs = Inr vs \<Longrightarrow> rs = map Inr vs"
proof (induction rs arbitrary: vs)
  case Nil
  then show ?case by simp
next
  case (Cons r rs)
  then show ?case by (cases r) (auto split: sum.splits)
qed

lemma poster_generate_success:
  assumes "snd (poster_generate e s) = Inr rs" and "k < length rs"
  shows "length rs = length (poster_templates e s)
     \<and> snd (poster_for e (trim (ps_url s)) (clampQrSize (js_Number e (ps_size s)))
              (or_default (trim (ps_brandName s)) ''Your Brand'')
              (or_default (trim (ps_tagline s)) ''Scan to connect'')
              (map_option Img (truthy (ps_logoUrl s))) (poster_templates e s ! k)) = Inr (rs ! k)"
proof -
  from assms(1) have f: "snd (loadFonts e (Font 700 48 DISPLAY_FONT) (Font 500 20 BODY_FONT)) = None"
    by (auto simp: poster_generate_unfold split: option.splits)
  from assms(1) f obtain l where l: "snd (poster_logo e s) = Inr l"
    by (cases "snd (poster_logo e s)") (auto simp: poster_generate_unfold)
  then have l': "l = map_option Img (truthy (ps_logoUrl s))" by (rule poster_logo_cases(1))
  let ?run = "\<lambda>tpl. snd (poster_for e (trim (ps_url s)) (clampQrSize (js_Number e (ps_size s)))
              (or_default (trim (ps_brandName s)) ''Your Brand'')
              (or_default (trim (ps_tagline s)) ''Scan to connect'')
              (map_option Img (truthy (ps_logoUrl s))) tpl)"
  from assms(1) f l have "promise_all (map ?run (poster_templates e s)) = Inr rs"
    unfolding l' by (simp add: poster_generate_unfold)
  then have m: "map ?run (poster_templates e s) = map Inr rs" by (rule promise_all_Inr)
  then have len: "length rs = length (poster_templates e s)"
    by (metis length_map)
  from m have "map ?run (poster_templates e s) ! k = map Inr rs ! k" by simp
  with assms(2) len have "?run (poster_templates e s ! k) = Inr (rs ! k)" by simp
  with len show ?thesis by simp
qed

text \<open>
  Claim C1 (as amended). Every output of the banner, business-card and poster pages is
  the PNG export of a canvas onto which the QR image was drawn: the handler encodes the
  trimmed URL, passes the data URL to the canvas routine in the payload, the routine
  loads it and draws it (at 200 by 200, or at \<open>qrSize\<close> by \<open>qrSize\<close> on each of the three
  posters) before the export, which is the last call. The logo page encodes no QR code and
  draws no image.
\<close>

theorem qr_embedded:
  "(trim (bs_url bs) \<noteq> [] \<and> bs_bannerUrl (snd (handleSubmit_banner e bs)) = Some png \<longrightarrow>
      (\<exists>q pre canvas.
          qr_toDataURL e (trim (bs_url bs)) banner_qrOptions = Inr q
        \<and> bp_qrDataUrl (banner_payload bs q) = q
        \<and> fst (handleSubmit_banner e bs) = pre @ canvas @ [ToDataURL ''image/png'']
        \<and> DrawImage (Img q) 1220 180 200 200 \<in> set canvas
        \<and> canvas_toDataURL e canvas = Inr png))
   \<and> (trim (cs_website cs) \<noteq> [] \<and> cs_cardUrl (snd (handleSubmit_card e cs)) = Some png \<longrightarrow>
      (\<exists>q pre canvas.
          qr_toDataURL e (trim (cs_website cs)) card_qrOptions = Inr q
        \<and> cp_qrDataUrl (card_payload cs q) = q
        \<and> fst (handleSubmit_card e cs) = pre @ canvas @ [ToDataURL ''image/png'']
        \<and> DrawImage (Img q) 730 160 200 200 \<in> set canvas
        \<and> canvas_toDataURL e canvas = Inr png))
   \<and> (trim (ps_url ps) \<noteq> [] \<and> k < length (ps_posters (snd (handleSubmit_poster e ps))) \<longrightarrow>
      length (ps_posters (snd (handleSubmit_poster e ps))) = length (poster_templates e ps)
      \<and> (\<exists>q canvas.
            qr_toDataURL e (trim (ps_url ps))
              (poster_qrOptions (clampQrSize (js_Number e (ps_size ps))) (poster_templates e ps ! k))
              = Inr q
          \<and> DrawImage (Img q) ((POSTER_WIDTH - (clampQrSize (js_Number e (ps_size ps)) + 90)) / 2 + 45) 305
               (clampQrSize (js_Number e (ps_size ps))) (clampQrSize (js_Number e (ps_size ps)))
               \<in> set canvas
          \<and> canvas_toDataURL e canvas = Inr (r_posterUrl (ps_posters (snd (handleSubmit_poster e ps)) ! k))))
   \<and> filter is_DrawImage (fst (handleSubmit_logo e ls)) = []
   \<and> filter is_QrToDataURL (fst (handleSubmit_logo e ls)) = []"
proof -
  have b: "trim (bs_url bs) \<noteq> [] \<and> bs_bannerUrl (snd (handleSubmit_banner e bs)) = Some png \<longrightarrow>
      (\<exists>q pre canvas.
          qr_toDataURL e (trim (bs_url bs)) banner_qrOptions = Inr q
        \<and> bp_qrDataUrl (banner_payload bs q) = q
        \<and> fst (handleSubmit_banner e bs) = pre @ canvas @ [ToDataURL ''image/png'']
        \<and> DrawImage (Img q) 1220 180 200 200 \<in> set canvas
        \<and> canvas_toDataURL e canvas = Inr png)"
  proof
    assume a: "trim (bs_url bs) \<noteq> [] \<and> bs_bannerUrl (snd (handleSubmit_banner e bs)) = Some png"
    then have a1: "trim (bs_url bs) \<noteq> []"
      and a2: "bs_bannerUrl (snd (handleSubmit_banner e bs)) = Some png" by simp_all
    from a2 a1 have "snd (banner_generate e bs) = Inr png"
      by (cases "snd (banner_generate e bs)") (simp_all add: handleSubmit_state)
    from banner_generate_success [OF this] obtain q canvas where c:
      "qr_toDataURL e (trim (bs_url bs)) banner_qrOptions = Inr q"
      "fst (banner_generate e bs) =
         fst (loadFonts e (Font 700 60 DISPLAY_FONT) (Font 500 24 BODY_FONT))
         @ [QrToDataURL (trim (bs_url bs)) banner_qrOptions] @ canvas @ [ToDataURL ''image/png'']"
      "canvas_toDataURL e canvas = Inr png"
      "DrawImage (Img q) 1220 180 200 200 \<in> set canvas"
      by blast
    have "fst (handleSubmit_banner e bs) =
        (fst (loadFonts e (Font 700 60 DISPLAY_FONT) (Font 500 24 BODY_FONT))
         @ [QrToDataURL (trim (bs_url bs)) banner_qrOptions]) @ canvas @ [ToDataURL ''image/png'']"
      using a1 c(2) by (simp add: handleSubmit_trace)
    moreover have "bp_qrDataUrl (banner_payload bs q) = q" by (simp add: banner_payload_def)
    ultimately show "\<exists>q pre canvas.
          qr_toDataURL e (trim (bs_url bs)) banner_qrOptions = Inr q
        \<and> bp_qrDataUrl (banner_payload bs q) = q
        \<and> fst (handleSubmit_banner e bs) = pre @ canvas @ [ToDataURL ''image/png'']
        \<and> DrawImage (Img q) 1220 180 200 200 \<in> set canvas
        \<and> canvas_toDataURL e canvas = Inr png"
      using c(1,3,4) by blast
  qed
  have c: "trim (cs_website cs) \<noteq> [] \<and> cs_cardUrl (snd (handleSubmit_card e cs)) = Some png \<longrightarrow>
      (\<exists>q pre canvas.
          qr_toDataURL e (trim (cs_website cs)) card_qrOptions = Inr q
        \<and> cp_qrDataUrl (card_payload cs q) = q
        \<and> fst (handleSubmit_card e cs) = pre @ canvas @ [ToDataURL ''image/png'']
        \<and> DrawImage (Img q) 730 160 200 200 \<in> set canvas
        \<and> canvas_toDataURL e canvas = Inr png)"
  proof
    assume a: "trim (cs_website cs) \<noteq> [] \<and> cs_cardUrl (snd (handleSubmit_card e cs)) = Some png"
    then have a1: "trim (cs_website cs) \<noteq> []"
      and a2: "cs_cardUrl (snd (handleSubmit_card e cs)) = Some png" by simp_all
    from a2 a1 have "snd (card_generate e cs) = Inr png"
      by (cases "snd (card_generate e cs)") (simp_all add: handleSubmit_state)
    from card_generate_success [OF this] obtain q canvas where c:
      "qr_toDataURL e (trim (cs_website cs)) card_qrOptions = Inr q"
      "fst (card_generate e cs) =
         fst (loadFonts e (Font 700 44 DISPLAY_FONT) (Font 600 18 BODY_FONT))
         @ [QrToDataURL (trim (cs_website cs)) card_qrOptions] @ canvas @ [ToDataURL ''image/png'']"
      "canvas_toDataURL e canvas = Inr png"
      "DrawImage (Img q) 730 160 200 200 \<in> set canvas"
      by blast
    have "fst (handleSubmit_card e cs) =
        (fst (loadFonts e (Font 700 44 DISPLAY_FONT) (Font 600 18 BODY_FONT))
         @ [QrToDataURL (trim (cs_website cs)) card_qrOptions]) @ canvas @ [ToDataURL ''image/png'']"
      using a1 c(2) by (simp add: handleSubmit_trace)
    moreover have "cp_qrDataUrl (card_payload cs q) = q" by (simp add: card_payload_def)
    ultimately show "\<exists>q pre canvas.
          qr_toDataURL e (trim (cs_website cs)) card_qrOptions = Inr q
        \<and> cp_qrDataUrl (card_payload cs q) = q
        \<and> fst (handleSubmit_card e cs) = pre @ canvas @ [ToDataURL ''image/png'']
        \<and> DrawImage (Img q) 730 160 200 200 \<in> set canvas
        \<and> canvas_toDataURL e canvas = Inr png"
      using c(1,3,4) by blast
  qed
  have p: "trim (ps_url ps) \<noteq> [] \<and> k < length (ps_posters (snd (handleSubmit_poster e ps))) \<longrightarrow>
      length (ps_posters (snd (handleSubmit_poster e ps))) = length (poster_templates e ps)
      \<and> (\<exists>q canvas.
            qr_toDataURL e (trim (ps_url ps))
              (poster_qrOptions (clampQrSize (js_Number e (ps_size ps))) (poster_templates e ps ! k))
              = Inr q
          \<and> DrawImage (Img q) ((POSTER_WIDTH - (clampQrSize (js_Number e (ps_size ps)) + 90)) / 2 + 45) 305
               (clampQrSize (js_Number e (ps_size ps))) (clampQrSize (js_Number e (ps_size ps)))
               \<in> set canvas
          \<and> canvas_toDataURL e canvas = Inr (r_posterUrl (ps_posters (snd (handleSubmit_poster e ps)) ! k)))"
  proof
    assume a: "trim (ps_url ps) \<noteq> [] \<and> k < length (ps_posters (snd (handleSubmit_poster e ps)))"
    then have a1: "trim (ps_url ps) \<noteq> []"
      and a2: "k < length (ps_posters (snd (handleSubmit_poster e ps)))" by simp_all
    from a2 a1 obtain rs where rs: "snd (poster_generate e ps) = Inr rs"
      "ps_posters (snd (handleSubmit_poster e ps)) = rs"
      by (cases "snd (poster_generate e ps)") (simp_all add: handleSubmit_state)
    with a have k: "k < length rs" by simp
    from poster_generate_success [OF rs(1) k] have
      len: "length rs = length (poster_templates e ps)" and
      run: "snd (poster_for e (trim (ps_url ps)) (clampQrSize (js_Number e (ps_size ps)))
              (or_default (trim (ps_brandName ps)) ''Your Brand'')
              (or_default (trim (ps_tagline ps)) ''Scan to connect'')
              (map_option Img (truthy (ps_logoUrl ps))) (poster_templates e ps ! k)) = Inr (rs ! k)"
      by simp_all
    from poster_for_success [OF run] obtain q canvas where
      "qr_toDataURL e (trim (ps_url ps))
         (poster_qrOptions (clampQrSize (js_Number e (ps_size ps))) (poster_templates e ps ! k)) = Inr q"
      "canvas_toDataURL e canvas = Inr (r_posterUrl (rs ! k))"
      "DrawImage (Img q) ((POSTER_WIDTH - (clampQrSize (js_Number e (ps_size ps)) + 90)) / 2 + 45) 305
          (clampQrSize (js_Number e (ps_size ps))) (clampQrSize (js_Number e (ps_size ps)))
        \<in> set canvas"
      by blast
    with len show "length (ps_posters (snd (handleSubmit_poster e ps))) = length (poster_templates e ps)
      \<and> (\<exists>q canvas.
            qr_toDataURL e (trim (ps_url ps))
              (poster_qrOptions (clampQrSize (js_Number e (ps_size ps))) (poster_templates e ps ! k))
              = Inr q
          \<and> DrawImage (Img q) ((POSTER_WIDTH - (clampQrSize (js_Number e (ps_size ps)) + 90)) / 2 + 45) 305
               (clampQrSize (js_Number e (ps_size ps))) (clampQrSize (js_Number e (ps_size ps)))
               \<in> set canvas
          \<and> canvas_toDataURL e canvas = Inr (r_posterUrl (ps_posters (snd (handleSubmit_poster e ps)) ! k)))"
      unfolding rs(2) by blast
  qed
  have l: "filter is_DrawImage (fst (handleSubmit_logo e ls)) = []"
    "filter is_QrToDataURL (fst (handleSubmit_logo e ls)) = []"
    by (simp_all add: handleSubmit_trace logo_generate_images generate_qr_calls)
  from b c p l show ?thesis by (intro conjI)
qed

text \<open>
  The logo page produces its PNG without a single \<open>drawImage\<close> call.
\<close>

theorem qr_embedded_counterexample:
  "ls_logoUrl (snd (handleSubmit_logo sample_env initial_logo)) = Some ''data:image/png''
   \<and> filter is_DrawImage (fst (handleSubmit_logo sample_env initial_logo)) = []"
  by code_simp

lemma sample_results:
  "trim (bs_url initial_banner) \<noteq> []"
  "bs_bannerUrl (snd (handleSubmit_banner sample_env initial_banner)) = Some ''data:image/png''"
  "trim (cs_website initial_card) \<noteq> []"
  "cs_cardUrl (snd (handleSubmit_card sample_env initial_card)) = Some ''data:image/png''"
  by code_simp+

theorem qr_embedded_witness:
  "(\<exists>q pre canvas.
          qr_toDataURL sample_env (trim (bs_url initial_banner)) banner_qrOptions = Inr q
        \<and> bp_qrDataUrl (banner_payload initial_banner q) = q
        \<and> fst (handleSubmit_banner sample_env initial_banner) = pre @ canvas @ [ToDataURL ''image/png'']
        \<and> DrawImage (Img q) 1220 180 200 200 \<in> set canvas
        \<and> canvas_toDataURL sample_env canvas = Inr ''data:image/png'')
   \<and> (\<exists>q pre canvas.
          qr_toDataURL sample_env (trim (cs_website initial_card)) card_qrOptions = Inr q
        \<and> cp_qrDataUrl (card_payload initial_card q) = q
        \<and> fst (handleSubmit_card sample_env initial_card) = pre @ canvas @ [ToDataURL ''image/png'']
        \<and> DrawImage (Img q) 730 160 200 200 \<in> set canvas
        \<and> canvas_toDataURL sample_env canvas = Inr ''data:image/png'')
   \<and> filter is_DrawImage (fst (handleSubmit_logo sample_env initial_logo)) = []"
proof -
  note t = qr_embedded [where e = sample_env and bs = initial_banner and cs = initial_card
      and ps = initial_poster and ls = initial_logo and png = "''data:image/png''" and k = 0]
  have b: "\<exists>q pre canvas.
          qr_toDataURL sample_env (trim (bs_url initial_banner)) banner_qrOptions = Inr q
        \<and> bp_qrDataUrl (banner_payload initial_banner q) = q
        \<and> fst (handleSubmit_banner sample_env initial_banner) = pre @ canvas @ [ToDataURL ''image/png'']
        \<and> DrawImage (Img q) 1220 180 200 200 \<in> set canvas
        \<and> canvas_toDataURL sample_env canvas = Inr ''data:image/png''"
    by (rule t [THEN conjunct1, THEN mp, OF conjI [OF sample_results(1) sample_results(2)]])
  have c: "\<exists>q pre canvas.
          qr_toDataURL sample_env (trim (cs_website initial_card)) card_qrOptions = Inr q
        \<and> cp_qrDataUrl (card_payload initial_card q) = q
        \<and> fst (handleSubmit_card sample_env initial_card) = pre @ canvas @ [ToDataURL ''image/png'']
        \<and> DrawImage (Img q) 730 160 200 200 \<in> set canvas
        \<and> canvas_toDataURL sample_env canvas = Inr ''data:image/png''"
    by (rule t [THEN conjunct2, THEN conjunct1, THEN mp,
          OF conjI [OF sample_results(3) sample_results(4)]])
  have l: "filter is_DrawImage (fst (handleSubmit_logo sample_env initial_logo)) = []"
    by (rule t [THEN conjunct2, THEN conjunct2, THEN conjunct2, THEN conjunct1])
  from b c l show ?thesis by (intro conjI)
qed

lemma drawing_no_click: "list_all drawing cs \<Longrightarrow> filter is_LinkClick cs = []"
  by (induction cs) (auto elim: drawing.elims)

lemma create_no_click:
  "filter is_LinkClick (fst (createBanner e bp)) = []"
  "filter is_LinkClick (fst (createBusinessCard e cp)) = []"
  "filter is_LinkClick (fst (createLogo e lp)) = []"
  "filter is_LinkClick (fst (createPoster e pp)) = []"
  by (simp_all add: createBanner_def createBusinessCard_def createLogo_def createPoster_def
        Let_def loadImage_def drawing_no_click plain_drawing createBanner_upto_qr_plain
        createBusinessCard_upto_qr_plain createLogo_drawing_plain createPoster_upto_qr_drawing
        from_qr_drawing)

lemma loadFonts_calls:
  "filter on_canvas (fst (loadFonts e a b)) = []"
  "filter is_ToDataURL (fst (loadFonts e a b)) = []"
  "filter is_LinkClick (fst (loadFonts e a b)) = []"
  by (simp_all add: loadFonts_def)

lemma generate_no_click:
  "filter is_LinkClick (fst (banner_generate e bs)) = []"
  "filter is_LinkClick (fst (card_generate e cs)) = []"
  "filter is_LinkClick (fst (logo_generate e ls)) = []"
  by (simp_all add: banner_generate_unfold card_generate_unfold logo_generate_unfold
        loadFonts_calls create_no_click split: option.splits sum.splits)

lemma poster_for_no_click: "filter is_LinkClick (fst (poster_for e u qs b t l tpl)) = []"
  by (simp add: poster_for_unfold create_no_click split: sum.splits)

lemma poster_logo_no_click: "filter is_LinkClick (fst (poster_logo e s)) = []"
  by (simp add: poster_logo_def split: option.splits)

lemma poster_generate_no_click: "filter is_LinkClick (fst (poster_generate e ps)) = []"
proof -
  have "\<not> is_LinkClick c" if "c \<in> set (fst (poster_generate e ps))" for c
    using poster_generate_members [OF that]
      not_filtered [of is_LinkClick "fst (loadFonts e (Font 700 48 DISPLAY_FONT) (Font 500 20 BODY_FONT))" c]
      not_filtered [of is_LinkClick "fst (poster_logo e ps)" c]
      not_filtered [OF poster_for_no_click, of c]
    by (auto simp: loadFonts_calls poster_logo_no_click)
  then show ?thesis by (simp add: filter_empty_conv)
qed

subsection \<open>What is drawn, and where\<close>

lemma shuffles_append_left:
  "ys \<in> shuffles xs zs \<Longrightarrow> seg @ ys \<in> shuffles (seg @ xs) zs"
  by (induction seg) (auto intro: Cons_in_shuffles_leftI)

lemma interleavings_prepend:
  assumes "i < length xss" and "ys \<in> interleavings (xss[i := r])"
  shows "seg @ ys \<in> interleavings (xss[i := seg @ r])"
  using assms
proof (induction xss arbitrary: i ys)
  case Nil
  then show ?case by simp
next
  case (Cons xs xss)
  show ?case
  proof (cases i)
    case 0
    with Cons.prems(2) obtain zs where zs: "zs \<in> interleavings xss" "ys \<in> shuffles r zs" by auto
    from zs(2) have "seg @ ys \<in> shuffles (seg @ r) zs" by (rule shuffles_append_left)
    with zs(1) 0 show ?thesis by auto
  next
    case (Suc j)
    with Cons.prems obtain zs where zs: "zs \<in> interleavings (xss[j := r])" "ys \<in> shuffles xs zs"
      by auto
    from Suc Cons.prems(1) have j: "j < length xss" by simp
    from Cons.IH [OF j zs(1)] have a: "seg @ zs \<in> interleavings (xss[j := seg @ r])" .
    have "seg @ ys \<in> shuffles xs (seg @ zs)"
      using zs(2) by (induction seg) (auto intro: Cons_in_shuffles_rightI)
    with a Suc show ?thesis by auto
  qed
qed

lemma interleavings_concat: "concat xss \<in> interleavings xss"
proof (induction xss)
  case Nil
  then show ?case by simp
next
  case (Cons xs xss)
  have "xs @ concat xss \<in> shuffles xs (concat xss)"
    by (induction xs) (auto intro: Cons_in_shuffles_leftI)
  with Cons show ?case by auto
qed

lemma resume_interleaving: "resume order pending \<in> interleavings (map concat pending)"
proof (induction order arbitrary: pending)
  case Nil
  then show ?case by (simp add: interleavings_concat)
next
  case (Cons i order)
  show ?case
  proof (cases "i < length pending")
    case False
    then show ?thesis using Cons.IH by simp
  next
    case True
    show ?thesis
    proof (cases "pending ! i")
      case Nil
      with True show ?thesis using Cons.IH by simp
    next
      case (Cons seg rest)
      have "resume order (pending[i := rest]) \<in> interleavings (map concat (pending[i := rest]))"
        by (rule Cons.IH)
      then have "resume order (pending[i := rest])
                   \<in> interleavings ((map concat pending)[i := concat rest])"
        by (simp add: map_update)
      from interleavings_prepend [OF _ this, of seg] True
      have "seg @ resume order (pending[i := rest])
              \<in> interleavings ((map concat pending)[i := seg @ concat rest])"
        by simp
      moreover have "(map concat pending)[i := seg @ concat rest] = map concat pending"
      proof -
        have "seg @ concat rest = map concat pending ! i" using True Cons by simp
        then show ?thesis by (simp only: list_update_id)
      qed
      ultimately show ?thesis using True Cons by simp
    qed
  qed
qed

lemma fillTexts_append: "fillTexts (xs @ ys) = fillTexts xs @ fillTexts ys"
  by (induction xs rule: fillTexts.induct) simp_all

lemma geometry_append: "geometry (xs @ ys) = geometry xs @ geometry ys"
  by (simp add: geometry_def)

lemma geometry_Nil: "geometry [] = []"
  by (simp add: geometry_def)

lemma geometry_Cons:
  "geometry (c # cs) = (if position c = [] then geometry cs else position c # geometry cs)"
  by (simp add: geometry_def)

lemma shrink_quiet:
  "fillTexts (fst (shrink m t mw fam w sz)) = []"
  "geometry (fst (shrink m t mw fam w sz)) = []"
proof (induction m t mw fam w sz rule: shrink.induct)
  case (1 m t mw fam w sz)
  {
    case 1
    show ?case
    proof (cases "14 < sz")
      case False
      then show ?thesis by (simp add: shrink_stop)
    next
      case big: True
      show ?thesis
      proof (cases "js_le (m (Font w sz fam) t) mw")
        case True
        with big show ?thesis by (simp add: shrink_fit)
      next
        case False
        with big "1.IH"(1) show ?thesis by (simp add: shrink_step)
      qed
    qed
  next
    case 2
    show ?case
    proof (cases "14 < sz")
      case False
      then show ?thesis by (simp add: shrink_stop geometry_def)
    next
      case big: True
      show ?thesis
      proof (cases "js_le (m (Font w sz fam) t) mw")
        case True
        with big show ?thesis by (simp add: shrink_fit geometry_def)
      next
        case False
        with big "1.IH"(2) show ?thesis by (simp add: shrink_step geometry_def)
      qed
    qed
  }
qed


lemma drawFittedText_quiet:
  assumes "double sz = sz" and "sz \<le> 2 ^ 54"
  shows "fillTexts (returned (drawFittedText e t mw (Num sz) fam w x y c a)) = [t]"
    and "fillTexts (returned (drawFittedText_poster e t mw (Num sz) fam w x y c)) = [t]"
    and "geometry (returned (drawFittedText e t mw (Num sz) fam w x y c a)) = [[x, y]]"
    and "geometry (returned (drawFittedText_poster e t mw (Num sz) fam w x y c)) = [[x, y]]"
  using assms
  by (simp_all add: drawFittedText_returns fillTexts_append geometry_append geometry_Cons geometry_Nil
        shrink_quiet)

lemma drawRoundedRect_texts: "fillTexts (drawRoundedRect x y w h r) = []"
  by (simp add: drawRoundedRect_def Let_def)

lemma texts_drawn:
  "fillTexts (createBanner_upto_qr e bp) =
     [bp_brandName bp, bp_headline bp, bp_subheadline bp, bp_cta bp, bp_url bp]"
  "fillTexts (createBanner_from_qr i) = [''Scan to visit'']"
  "fillTexts (createBusinessCard_upto_qr e cp) =
     [getInitials (cp_brandName cp), cp_brandName cp, cp_fullName cp, cp_role cp, cp_email cp,
      cp_phone cp, cp_website cp]"
  "fillTexts (createBusinessCard_from_qr i) = [''Scan for contact'']"
  "fillTexts (createPoster_upto_qr e pp) = [pp_brandName pp, pp_tagline pp, t_cta (pp_template pp)]"
  "fillTexts (createPoster_from_qr pp i) = [truncateText (pp_url pp) 52, t_name (pp_template pp)]"
  "fillTexts (createLogo_drawing e lp) =
     [getInitials (lp_brandName lp), lp_brandName lp]
     @ (if lp_tagline lp \<noteq> [] then [lp_tagline lp] else [])"
  by (simp_all add: createBanner_upto_qr_def createBanner_from_qr_def createBusinessCard_upto_qr_def
        createBusinessCard_from_qr_def createPoster_upto_qr_def createPoster_from_qr_def
        createLogo_drawing_def Let_def fillTexts_append drawFittedText_quiet literal_sizes
        drawRoundedRect_texts split: option.splits)

lemma shapes_drawn:
  "list_ex is_gradient (createBanner_upto_qr e bp)"
  "list_ex is_rectangle (createBanner_upto_qr e bp)"
  "list_ex is_Ellipse (createBanner_upto_qr e bp)"
  "list_ex is_gradient (createBusinessCard_upto_qr e cp)"
  "list_ex is_rectangle (createBusinessCard_upto_qr e cp)"
  "list_ex is_Ellipse (createBusinessCard_upto_qr e cp)"
  "list_ex is_gradient (createPoster_upto_qr e pp)"
  "list_ex is_rectangle (createPoster_upto_qr e pp)"
  "list_ex is_Ellipse (createPoster_upto_qr e pp)"
  "list_ex is_gradient (createLogo_drawing e lp)"
  "list_ex is_rectangle (createLogo_drawing e lp)"
  "list_ex is_Ellipse (createLogo_drawing e lp)"
  by (simp_all add: createBanner_upto_qr_def createBusinessCard_upto_qr_def createPoster_upto_qr_def
        createLogo_drawing_def Let_def)


lemma card_geometry:
  "geometry (createBusinessCard_upto_qr e cp @ createBusinessCard_from_qr i) =
   geometry (createBusinessCard_upto_qr e' cp' @ createBusinessCard_from_qr i')"
  by (simp add: createBusinessCard_upto_qr_def createBusinessCard_from_qr_def Let_def
        geometry_append geometry_Cons geometry_Nil drawFittedText_quiet literal_sizes
        drawRoundedRect_def)

lemma banner_geometry:
  assumes "measureText e (Font 600 18 BODY_FONT) (bp_cta bp) =
           measureText e' (Font 600 18 BODY_FONT) (bp_cta bp')"
  shows "geometry (createBanner_upto_qr e bp @ createBanner_from_qr i) =
         geometry (createBanner_upto_qr e' bp' @ createBanner_from_qr i')"
  using assms
  by (simp add: createBanner_upto_qr_def createBanner_from_qr_def Let_def
        geometry_append geometry_Cons geometry_Nil drawFittedText_quiet literal_sizes
        drawRoundedRect_def)

lemma logo_geometry:
  assumes "lp_layout lp = lp_layout lp'" and "lp_tagline lp = [] \<longleftrightarrow> lp_tagline lp' = []"
  shows "geometry (createLogo_drawing e lp) = geometry (createLogo_drawing e' lp')"
  using assms
  by (simp add: createLogo_drawing_def Let_def
        geometry_append geometry_Cons geometry_Nil drawFittedText_quiet literal_sizes)

lemma poster_geometry:
  assumes "pp_qrSize pp = pp_qrSize pp'" and "pp_logoImage pp = None \<longleftrightarrow> pp_logoImage pp' = None"
  shows "geometry (createPoster_upto_qr e pp @ createPoster_from_qr pp i) =
         geometry (createPoster_upto_qr e' pp' @ createPoster_from_qr pp' i')"
proof (cases "pp_logoImage pp")
  case None
  with assms(2) have "pp_logoImage pp' = None" by simp
  with None assms(1) show ?thesis
    by (simp add: createPoster_upto_qr_def createPoster_from_qr_def Let_def
        geometry_append geometry_Cons geometry_Nil drawFittedText_quiet literal_sizes
        drawRoundedRect_def poster_cardX_def poster_cardWidth_def poster_cardHeight_def)
next
  case (Some l)
  with assms(2) obtain l' where "pp_logoImage pp' = Some l'" by auto
  with Some assms(1) show ?thesis
    by (simp add: createPoster_upto_qr_def createPoster_from_qr_def Let_def
        geometry_append geometry_Cons geometry_Nil drawFittedText_quiet literal_sizes
        drawRoundedRect_def poster_cardX_def poster_cardWidth_def poster_cardHeight_def)
qed

lemma qr_geometry:
  "geometry (createBanner_from_qr i) = [[1220, 180, 200, 200], [1320, 430]]"
  "geometry (createBusinessCard_from_qr i) = [[730, 160, 200, 200], [830, 400]]"
  "geometry (createPoster_from_qr pp i) =
     [[(POSTER_WIDTH - (pp_qrSize pp + 90)) / 2 + 45, 305, pp_qrSize pp, pp_qrSize pp],
      [600, pp_qrSize pp + 400], [600, 738]]"
  by (simp_all add: createBanner_from_qr_def createBusinessCard_from_qr_def createPoster_from_qr_def
        Let_def geometry_Cons geometry_Nil BANNER_WIDTH_def CARD_WIDTH_def POSTER_WIDTH_def
        POSTER_HEIGHT_def poster_cardX_def poster_cardY_def poster_cardWidth_def poster_cardHeight_def)

subsection \<open>The order of the calls\<close>

lemma createBanner_explicit:
  assumes "snd (createBanner e p) = Inr png"
  shows "fst (createBanner e p) =
           [SetWidth BANNER_WIDTH, SetHeight BANNER_HEIGHT, GetContext ''2d'']
           @ createBanner_upto_qr e p @ [LoadImage (bp_qrDataUrl p)]
           @ createBanner_from_qr (Img (bp_qrDataUrl p)) @ [ToDataURL ''image/png'']"
    and "canvas_toDataURL e
           ([SetWidth BANNER_WIDTH, SetHeight BANNER_HEIGHT, GetContext ''2d'']
            @ createBanner_upto_qr e p @ [LoadImage (bp_qrDataUrl p)]
            @ createBanner_from_qr (Img (bp_qrDataUrl p))) = Inr png"
proof -
  from assms have ok: "getContext2d e" "loadImage_ok e (bp_qrDataUrl p)"
    by (auto simp: createBanner_def Let_def loadImage_def split: if_splits)
  show "fst (createBanner e p) =
           [SetWidth BANNER_WIDTH, SetHeight BANNER_HEIGHT, GetContext ''2d'']
           @ createBanner_upto_qr e p @ [LoadImage (bp_qrDataUrl p)]
           @ createBanner_from_qr (Img (bp_qrDataUrl p)) @ [ToDataURL ''image/png'']"
    using ok by (simp add: createBanner_def Let_def loadImage_def)
  show "canvas_toDataURL e
           ([SetWidth BANNER_WIDTH, SetHeight BANNER_HEIGHT, GetContext ''2d'']
            @ createBanner_upto_qr e p @ [LoadImage (bp_qrDataUrl p)]
            @ createBanner_from_qr (Img (bp_qrDataUrl p))) = Inr png"
    using ok assms by (simp add: createBanner_def Let_def loadImage_def)
qed

lemma createBusinessCard_explicit:
  assumes "snd (createBusinessCard e p) = Inr png"
  shows "fst (createBusinessCard e p) =
           [SetWidth CARD_WIDTH, SetHeight CARD_HEIGHT, GetContext ''2d'']
           @ createBusinessCard_upto_qr e p @ [LoadImage (cp_qrDataUrl p)]
           @ createBusinessCard_from_qr (Img (cp_qrDataUrl p)) @ [ToDataURL ''image/png'']"
    and "canvas_toDataURL e
           ([SetWidth CARD_WIDTH, SetHeight CARD_HEIGHT, GetContext ''2d'']
            @ createBusinessCard_upto_qr e p @ [LoadImage (cp_qrDataUrl p)]
            @ createBusinessCard_from_qr (Img (cp_qrDataUrl p))) = Inr png"
proof -
  from assms have ok: "getContext2d e" "loadImage_ok e (cp_qrDataUrl p)"
    by (auto simp: createBusinessCard_def Let_def loadImage_def split: if_splits)
  show "fst (createBusinessCard e p) =
           [SetWidth CARD_WIDTH, SetHeight CARD_HEIGHT, GetContext ''2d'']
           @ createBusinessCard_upto_qr e p @ [LoadImage (cp_qrDataUrl p)]
           @ createBusinessCard_from_qr (Img (cp_qrDataUrl p)) @ [ToDataURL ''image/png'']"
    using ok by (simp add: createBusinessCard_def Let_def loadImage_def)
  show "canvas_toDataURL e
           ([SetWidth CARD_WIDTH, SetHeight CARD_HEIGHT, GetContext ''2d'']
            @ createBusinessCard_upto_qr e p @ [LoadImage (cp_qrDataUrl p)]
            @ createBusinessCard_from_qr (Img (cp_qrDataUrl p))) = Inr png"
    using ok assms by (simp add: createBusinessCard_def Let_def loadImage_def)
qed

lemma createLogo_explicit:
  assumes "snd (createLogo e p) = Inr png"
  shows "fst (createLogo e p) =
           [SetWidth LOGO_WIDTH, SetHeight LOGO_HEIGHT, GetContext ''2d'']
           @ createLogo_drawing e p @ [ToDataURL ''image/png'']"
    and "canvas_toDataURL e
           ([SetWidth LOGO_WIDTH, SetHeight LOGO_HEIGHT, GetContext ''2d'']
            @ createLogo_drawing e p) = Inr png"
proof -
  from assms have ok: "getContext2d e"
    by (auto simp: createLogo_def Let_def split: if_splits)
  show "fst (createLogo e p) =
           [SetWidth LOGO_WIDTH, SetHeight LOGO_HEIGHT, GetContext ''2d'']
           @ createLogo_drawing e p @ [ToDataURL ''image/png'']"
    using ok by (simp add: createLogo_def Let_def)
  show "canvas_toDataURL e
           ([SetWidth LOGO_WIDTH, SetHeight LOGO_HEIGHT, GetContext ''2d'']
            @ createLogo_drawing e p) = Inr png"
    using ok assms by (simp add: createLogo_def Let_def)
qed

lemma createPoster_segments_success:
  assumes "snd (createPoster e p) = Inr png"
  shows "createPoster_segments e p =
           [[SetWidth POSTER_WIDTH, SetHeight POSTER_HEIGHT, GetContext ''2d'']
            @ createPoster_upto_qr e p @ [LoadImage (pp_qrDataUrl p)],
            createPoster_from_qr p (Img (pp_qrDataUrl p)) @ [ToDataURL ''image/png'']]"
    and "canvas_toDataURL e
           ([SetWidth POSTER_WIDTH, SetHeight POSTER_HEIGHT, GetContext ''2d'']
            @ createPoster_upto_qr e p @ [LoadImage (pp_qrDataUrl p)]
            @ createPoster_from_qr p (Img (pp_qrDataUrl p))) = Inr png"
proof -
  from assms have ok: "getContext2d e" "loadImage_ok e (pp_qrDataUrl p)"
    by (auto simp: createPoster_def Let_def loadImage_def split: if_splits)
  show "createPoster_segments e p =
           [[SetWidth POSTER_WIDTH, SetHeight POSTER_HEIGHT, GetContext ''2d'']
            @ createPoster_upto_qr e p @ [LoadImage (pp_qrDataUrl p)],
            createPoster_from_qr p (Img (pp_qrDataUrl p)) @ [ToDataURL ''image/png'']]"
    using ok by (simp add: createPoster_segments_def Let_def loadImage_def)
  show "canvas_toDataURL e
           ([SetWidth POSTER_WIDTH, SetHeight POSTER_HEIGHT, GetContext ''2d'']
            @ createPoster_upto_qr e p @ [LoadImage (pp_qrDataUrl p)]
            @ createPoster_from_qr p (Img (pp_qrDataUrl p))) = Inr png"
    using ok assms by (simp add: createPoster_def Let_def loadImage_def)
qed

lemma banner_generate_explicit:
  assumes "snd (banner_generate e s) = Inr png"
  shows "\<exists>q. qr_toDataURL e (trim (bs_url s)) banner_qrOptions = Inr q
     \<and> fst (banner_generate e s) =
         fst (loadFonts e (Font 700 60 DISPLAY_FONT) (Font 500 24 BODY_FONT))
         @ [QrToDataURL (trim (bs_url s)) banner_qrOptions]
         @ [SetWidth BANNER_WIDTH, SetHeight BANNER_HEIGHT, GetContext ''2d'']
         @ createBanner_upto_qr e (banner_payload s q) @ [LoadImage q]
         @ createBanner_from_qr (Img q) @ [ToDataURL ''image/png'']
     \<and> canvas_toDataURL e
           ([SetWidth BANNER_WIDTH, SetHeight BANNER_HEIGHT, GetContext ''2d'']
            @ createBanner_upto_qr e (banner_payload s q) @ [LoadImage q]
            @ createBanner_from_qr (Img q)) = Inr png"
proof -
  from assms have f: "snd (loadFonts e (Font 700 60 DISPLAY_FONT) (Font 500 24 BODY_FONT)) = None"
    by (auto simp: banner_generate_unfold split: option.splits)
  from assms f obtain q where q: "qr_toDataURL e (trim (bs_url s)) banner_qrOptions = Inr q"
    by (cases "qr_toDataURL e (trim (bs_url s)) banner_qrOptions")
       (auto simp: banner_generate_unfold)
  from assms f q have c: "snd (createBanner e (banner_payload s q)) = Inr png"
    by (simp add: banner_generate_unfold)
  have u: "bp_qrDataUrl (banner_payload s q) = q" by (simp add: banner_payload_def)
  have "fst (banner_generate e s) =
         fst (loadFonts e (Font 700 60 DISPLAY_FONT) (Font 500 24 BODY_FONT))
         @ [QrToDataURL (trim (bs_url s)) banner_qrOptions]
         @ [SetWidth BANNER_WIDTH, SetHeight BANNER_HEIGHT, GetContext ''2d'']
         @ createBanner_upto_qr e (banner_payload s q) @ [LoadImage q]
         @ createBanner_from_qr (Img q) @ [ToDataURL ''image/png'']"
    using f q createBanner_explicit(1) [OF c] by (simp add: banner_generate_unfold u)
  with q createBanner_explicit(2) [OF c] show ?thesis unfolding u by blast
qed

lemma card_generate_explicit:
  assumes "snd (card_generate e s) = Inr png"
  shows "\<exists>q. qr_toDataURL e (trim (cs_website s)) card_qrOptions = Inr q
     \<and> fst (card_generate e s) =
         fst (loadFonts e (Font 700 44 DISPLAY_FONT) (Font 600 18 BODY_FONT))
         @ [QrToDataURL (trim (cs_website s)) card_qrOptions]
         @ [SetWidth CARD_WIDTH, SetHeight CARD_HEIGHT, GetContext ''2d'']
         @ createBusinessCard_upto_qr e (card_payload s q) @ [LoadImage q]
         @ createBusinessCard_from_qr (Img q) @ [ToDataURL ''image/png'']
     \<and> canvas_toDataURL e
           ([SetWidth CARD_WIDTH, SetHeight CARD_HEIGHT, GetContext ''2d'']
            @ createBusinessCard_upto_qr e (card_payload s q) @ [LoadImage q]
            @ createBusinessCard_from_qr (Img q)) = Inr png"
proof -
  from assms have f: "snd (loadFonts e (Font 700 44 DISPLAY_FONT) (Font 600 18 BODY_FONT)) = None"
    by (auto simp: card_generate_unfold split: option.splits)
  from assms f obtain q where q: "qr_toDataURL e (trim (cs_website s)) card_qrOptions = Inr q"
    by (cases "qr_toDataURL e (trim (cs_website s)) card_qrOptions")
       (auto simp: card_generate_unfold)
  from assms f q have c: "snd (createBusinessCard e (card_payload s q)) = Inr png"
    by (simp add: card_generate_unfold)
  have u: "cp_qrDataUrl (card_payload s q) = q" by (simp add: card_payload_def)
  have "fst (card_generate e s) =
         fst (loadFonts e (Font 700 44 DISPLAY_FONT) (Font 600 18 BODY_FONT))
         @ [QrToDataURL (trim (cs_website s)) card_qrOptions]
         @ [SetWidth CARD_WIDTH, SetHeight CARD_HEIGHT, GetContext ''2d'']
         @ createBusinessCard_upto_qr e (card_payload s q) @ [LoadImage q]
         @ createBusinessCard_from_qr (Img q) @ [ToDataURL ''image/png'']"
    using f q createBusinessCard_explicit(1) [OF c] by (simp add: card_generate_unfold u)
  with q createBusinessCard_explicit(2) [OF c] show ?thesis unfolding u by blast
qed

lemma logo_generate_explicit:
  assumes "snd (logo_generate e s) = Inr png"
  shows "fst (logo_generate e s) =
         fst (loadFonts e (Font 700 58 DISPLAY_FONT) (Font 500 20 BODY_FONT))
         @ [SetWidth LOGO_WIDTH, SetHeight LOGO_HEIGHT, GetContext ''2d'']
         @ createLogo_drawing e (logo_payload s) @ [ToDataURL ''image/png'']
     \<and> canvas_toDataURL e
           ([SetWidth LOGO_WIDTH, SetHeight LOGO_HEIGHT, GetContext ''2d'']
            @ createLogo_drawing e (logo_payload s)) = Inr png"
proof -
  from assms have f: "snd (loadFonts e (Font 700 58 DISPLAY_FONT) (Font 500 20 BODY_FONT)) = None"
    by (auto simp: logo_generate_unfold split: option.splits)
  from assms f have c: "snd (createLogo e (logo_payload s)) = Inr png"
    by (simp add: logo_generate_unfold)
  show ?thesis
    using f createLogo_explicit [OF c] by (simp add: logo_generate_unfold)
qed


lemma poster_for_segments_success:
  assumes "snd (poster_for e u qs b t l tpl) = Inr r"
  shows "\<exists>q. qr_toDataURL e u (poster_qrOptions qs tpl) = Inr q
     \<and> poster_for_segments e u qs b t l tpl =
         [[SetWidth POSTER_WIDTH, SetHeight POSTER_HEIGHT, GetContext ''2d'']
          @ createPoster_upto_qr e
              \<lparr>pp_template = tpl, pp_brandName = b, pp_tagline = t, pp_url = u, pp_qrSize = qs,
               pp_qrDataUrl = q, pp_logoImage = l\<rparr>
          @ [LoadImage q],
          createPoster_from_qr
              \<lparr>pp_template = tpl, pp_brandName = b, pp_tagline = t, pp_url = u, pp_qrSize = qs,
               pp_qrDataUrl = q, pp_logoImage = l\<rparr> (Img q)
          @ [ToDataURL ''image/png'']]
     \<and> canvas_toDataURL e
         ([SetWidth POSTER_WIDTH, SetHeight POSTER_HEIGHT, GetContext ''2d'']
          @ createPoster_upto_qr e
              \<lparr>pp_template = tpl, pp_brandName = b, pp_tagline = t, pp_url = u, pp_qrSize = qs,
               pp_qrDataUrl = q, pp_logoImage = l\<rparr>
          @ [LoadImage q]
          @ createPoster_from_qr
              \<lparr>pp_template = tpl, pp_brandName = b, pp_tagline = t, pp_url = u, pp_qrSize = qs,
               pp_qrDataUrl = q, pp_logoImage = l\<rparr> (Img q)) = Inr (r_posterUrl r)"
proof -
  from assms obtain q where q: "qr_toDataURL e u (poster_qrOptions qs tpl) = Inr q"
    by (cases "qr_toDataURL e u (poster_qrOptions qs tpl)") (auto simp: poster_for_unfold)
  from assms q obtain png where png:
    "snd (createPoster e (poster_payload tpl b t u qs q l)) = Inr png"
    "r = \<lparr>r_id = t_id tpl, r_name = t_name tpl, r_description = t_description tpl,
          r_posterUrl = png\<rparr>"
    by (cases "snd (createPoster e (poster_payload tpl b t u qs q l))")
       (auto simp: poster_for_unfold)
  have p: "poster_payload tpl b t u qs q l =
      \<lparr>pp_template = tpl, pp_brandName = b, pp_tagline = t, pp_url = u, pp_qrSize = qs,
       pp_qrDataUrl = q, pp_logoImage = l\<rparr>"
    by (simp add: poster_payload_def)
  have s: "poster_for_segments e u qs b t l tpl =
      createPoster_segments e (poster_payload tpl b t u qs q l)"
    using q by (simp add: poster_for_segments_def)
  from createPoster_segments_success [OF png(1)] q png(2) show ?thesis
    unfolding s p by simp
qed

lemma poster_generate_explicit:
  assumes "snd (poster_generate e s) = Inr rs"
  shows "fst (poster_generate e s) =
     fst (loadFonts e (Font 700 48 DISPLAY_FONT) (Font 500 20 BODY_FONT))
     @ fst (poster_logo e s)
     @ map (\<lambda>tpl. QrToDataURL (trim (ps_url s))
                     (poster_qrOptions (clampQrSize (js_Number e (ps_size s))) tpl))
           (poster_templates e s)
     @ resume (resume_order e)
         (map (poster_for_segments e (trim (ps_url s)) (clampQrSize (js_Number e (ps_size s)))
                 (or_default (trim (ps_brandName s)) ''Your Brand'')
                 (or_default (trim (ps_tagline s)) ''Scan to connect'')
                 (map_option Img (truthy (ps_logoUrl s))))
              (poster_templates e s))"
proof -
  from assms have f: "snd (loadFonts e (Font 700 48 DISPLAY_FONT) (Font 500 20 BODY_FONT)) = None"
    by (auto simp: poster_generate_unfold split: option.splits)
  from assms f obtain l where l: "snd (poster_logo e s) = Inr l"
    by (cases "snd (poster_logo e s)") (auto simp: poster_generate_unfold)
  then have l': "l = map_option Img (truthy (ps_logoUrl s))" by (rule poster_logo_cases(1))
  from f l show ?thesis unfolding l' by (simp add: poster_generate_unfold)
qed

lemma poster_for_segments_no_qr:
  "filter is_QrToDataURL (concat (poster_for_segments e u qs b t l tpl)) = []"
  using create_no_qr(4) [of e "poster_payload tpl b t u qs q l" for q]
  by (simp add: poster_for_segments_def createPoster_segments_concat split: sum.splits)

lemma resume_no_qr:
  "filter is_QrToDataURL (resume order (map (poster_for_segments e u qs b t l) tpls)) = []"
proof -
  have "\<not> is_QrToDataURL c"
    if "c \<in> set (resume order (map (poster_for_segments e u qs b t l) tpls))" for c
  proof -
    from that obtain tpl where "c \<in> set (concat (poster_for_segments e u qs b t l tpl))"
      by (auto simp: resume_set)
    with poster_for_segments_no_qr [of e u qs b t l tpl] show ?thesis
      by (rule not_filtered)
  qed
  then show ?thesis by (simp add: filter_empty_conv)
qed

text \<open>
  Claim C2 (as amended). A successful generation on the banner and business-card pages
  is, in this order: the font calls, the QR encoding of the trimmed URL, the creation of
  the canvas, the drawing calls up to the QR card, the loading of the QR image, the drawing
  of the QR image and of the text under it, and \<open>canvas.toDataURL("image/png")\<close> as the
  last call, whose result is the output. The logo page does the same without the QR
  encoding and without an image. On the poster page the font calls and the loading of the
  logo are followed by the three QR encodings of the trimmed URL, one for each template,
  before any canvas call; then each of the three callbacks does, on a canvas of its own,
  what the banner does after the encoding, its export coming last, and the calls of
  the three callbacks are interleaved in the order in which the browser resumes them.

  What is drawn: a gradient, rectangles, an ellipse and the listed texts on every page,
  and the QR image on the banner, the card and the poster. Where: the coordinates of the
  business card do not depend on the payload; those of the banner depend on it only
  through the measured width of the call-to-action text, those of the logo only through
  the layout chosen and through whether there is a tagline, and those of the poster only
  through the QR size chosen and through whether there is a logo.

  No submit handler triggers a download; the download handlers do, with the stored data URL.
\<close>

theorem generation_sequence:
  "(snd (banner_generate e bs) = Inr png \<longrightarrow>
      (\<exists>q. qr_toDataURL e (trim (bs_url bs)) banner_qrOptions = Inr q
         \<and> fst (banner_generate e bs) =
             fst (loadFonts e (Font 700 60 DISPLAY_FONT) (Font 500 24 BODY_FONT))
             @ [QrToDataURL (trim (bs_url bs)) banner_qrOptions]
             @ [SetWidth BANNER_WIDTH, SetHeight BANNER_HEIGHT, GetContext ''2d'']
             @ createBanner_upto_qr e (banner_payload bs q) @ [LoadImage q]
             @ createBanner_from_qr (Img q) @ [ToDataURL ''image/png'']
         \<and> canvas_toDataURL e
              ([SetWidth BANNER_WIDTH, SetHeight BANNER_HEIGHT, GetContext ''2d'']
             @ createBanner_upto_qr e (banner_payload bs q) @ [LoadImage q]
             @ createBanner_from_qr (Img q)) = Inr png))
   \<and> (snd (card_generate e cs) = Inr png \<longrightarrow>
      (\<exists>q. qr_toDataURL e (trim (cs_website cs)) card_qrOptions = Inr q
         \<and> fst (card_generate e cs) =
             fst (loadFonts e (Font 700 44 DISPLAY_FONT) (Font 600 18 BODY_FONT))
             @ [QrToDataURL (trim (cs_website cs)) card_qrOptions]
             @ [SetWidth CARD_WIDTH, SetHeight CARD_HEIGHT, GetContext ''2d'']
             @ createBusinessCard_upto_qr e (card_payload cs q) @ [LoadImage q]
             @ createBusinessCard_from_qr (Img q) @ [ToDataURL ''image/png'']
         \<and> canvas_toDataURL e
              ([SetWidth CARD_WIDTH, SetHeight CARD_HEIGHT, GetContext ''2d'']
             @ createBusinessCard_upto_qr e (card_payload cs q) @ [LoadImage q]
             @ createBusinessCard_from_qr (Img q)) = Inr png))
   \<and> (snd (poster_generate e ps) = Inr rs \<longrightarrow>
      fst (poster_generate e ps) =
          fst (loadFonts e (Font 700 48 DISPLAY_FONT) (Font 500 20 BODY_FONT))
          @ fst (poster_logo e ps)
          @ map (\<lambda>tpl. QrToDataURL (trim (ps_url ps)) (poster_qrOptions (clampQrSize (js_Number e (ps_size ps))) tpl))
                (poster_templates e ps)
          @ resume (resume_order e)
            (map (poster_for_segments e (trim (ps_url ps)) (clampQrSize (js_Number e (ps_size ps)))
                 (or_default (trim (ps_brandName ps)) ''Your Brand'')
                 (or_default (trim (ps_tagline ps)) ''Scan to connect'')
                 (map_option Img (truthy (ps_logoUrl ps))))
                 (poster_templates e ps))
      \<and> resume (resume_order e)
            (map (poster_for_segments e (trim (ps_url ps)) (clampQrSize (js_Number e (ps_size ps)))
                 (or_default (trim (ps_brandName ps)) ''Your Brand'')
                 (or_default (trim (ps_tagline ps)) ''Scan to connect'')
                 (map_option Img (truthy (ps_logoUrl ps))))
                 (poster_templates e ps))
          \<in> interleavings
              (map (\<lambda>tpl. concat (poster_for_segments e (trim (ps_url ps)) (clampQrSize (js_Number e (ps_size ps)))
                 (or_default (trim (ps_brandName ps)) ''Your Brand'')
                 (or_default (trim (ps_tagline ps)) ''Scan to connect'')
                 (map_option Img (truthy (ps_logoUrl ps))) tpl))
                   (poster_templates e ps))
      \<and> filter is_QrToDataURL
           (resume (resume_order e)
            (map (poster_for_segments e (trim (ps_url ps)) (clampQrSize (js_Number e (ps_size ps)))
                 (or_default (trim (ps_brandName ps)) ''Your Brand'')
                 (or_default (trim (ps_tagline ps)) ''Scan to connect'')
                 (map_option Img (truthy (ps_logoUrl ps))))
                 (poster_templates e ps))) = []
      \<and> length rs = length (poster_templates e ps)
      \<and> (k < length rs \<longrightarrow>
           (\<exists>q. qr_toDataURL e (trim (ps_url ps)) (poster_qrOptions (clampQrSize (js_Number e (ps_size ps))) (poster_templates e ps ! k)) = Inr q
              \<and> poster_for_segments e (trim (ps_url ps)) (clampQrSize (js_Number e (ps_size ps)))
                 (or_default (trim (ps_brandName ps)) ''Your Brand'')
                 (or_default (trim (ps_tagline ps)) ''Scan to connect'')
                 (map_option Img (truthy (ps_logoUrl ps))) (poster_templates e ps ! k) =
                  [[SetWidth POSTER_WIDTH, SetHeight POSTER_HEIGHT, GetContext ''2d'']
                @ createPoster_upto_qr e
                    \<lparr>pp_template = (poster_templates e ps ! k), pp_brandName = or_default (trim (ps_brandName ps)) ''Your Brand'',
                  pp_tagline = or_default (trim (ps_tagline ps)) ''Scan to connect'', pp_url = trim (ps_url ps),
                  pp_qrSize = clampQrSize (js_Number e (ps_size ps)), pp_qrDataUrl = q,
                  pp_logoImage = map_option Img (truthy (ps_logoUrl ps))\<rparr>
                @ [LoadImage q],
                   createPoster_from_qr
                    \<lparr>pp_template = (poster_templates e ps ! k), pp_brandName = or_default (trim (ps_brandName ps)) ''Your Brand'',
                  pp_tagline = or_default (trim (ps_tagline ps)) ''Scan to connect'', pp_url = trim (ps_url ps),
                  pp_qrSize = clampQrSize (js_Number e (ps_size ps)), pp_qrDataUrl = q,
                  pp_logoImage = map_option Img (truthy (ps_logoUrl ps))\<rparr> (Img q)
                   @ [ToDataURL ''image/png'']]
              \<and> canvas_toDataURL e
                   ([SetWidth POSTER_WIDTH, SetHeight POSTER_HEIGHT, GetContext ''2d'']
                @ createPoster_upto_qr e
                    \<lparr>pp_template = (poster_templates e ps ! k), pp_brandName = or_default (trim (ps_brandName ps)) ''Your Brand'',
                  pp_tagline = or_default (trim (ps_tagline ps)) ''Scan to connect'', pp_url = trim (ps_url ps),
                  pp_qrSize = clampQrSize (js_Number e (ps_size ps)), pp_qrDataUrl = q,
                  pp_logoImage = map_option Img (truthy (ps_logoUrl ps))\<rparr>
                @ [LoadImage q]
                    @ createPoster_from_qr
                    \<lparr>pp_template = (poster_templates e ps ! k), pp_brandName = or_default (trim (ps_brandName ps)) ''Your Brand'',
                  pp_tagline = or_default (trim (ps_tagline ps)) ''Scan to connect'', pp_url = trim (ps_url ps),
                  pp_qrSize = clampQrSize (js_Number e (ps_size ps)), pp_qrDataUrl = q,
                  pp_logoImage = map_option Img (truthy (ps_logoUrl ps))\<rparr> (Img q))
                  = Inr (r_posterUrl (rs ! k)))))
   \<and> (snd (logo_generate e ls) = Inr png \<longrightarrow>
      fst (logo_generate e ls) =
             fst (loadFonts e (Font 700 58 DISPLAY_FONT) (Font 500 20 BODY_FONT))
             @ [SetWidth LOGO_WIDTH, SetHeight LOGO_HEIGHT, GetContext ''2d'']
             @ createLogo_drawing e (logo_payload ls) @ [ToDataURL ''image/png'']
      \<and> canvas_toDataURL e
              ([SetWidth LOGO_WIDTH, SetHeight LOGO_HEIGHT, GetContext ''2d'']
             @ createLogo_drawing e (logo_payload ls)) = Inr png)
   \<and> (measureText e (Font 600 18 BODY_FONT) (bp_cta bp) =
        measureText e' (Font 600 18 BODY_FONT) (bp_cta bp') \<longrightarrow>
      geometry (createBanner_upto_qr e bp @ createBanner_from_qr i) =
      geometry (createBanner_upto_qr e' bp' @ createBanner_from_qr i'))
   \<and> (lp_layout lp = lp_layout lp' \<and> (lp_tagline lp = [] \<longleftrightarrow> lp_tagline lp' = []) \<longrightarrow>
      geometry (createLogo_drawing e lp) = geometry (createLogo_drawing e' lp'))
   \<and> (pp_qrSize pp = pp_qrSize pp' \<and> (pp_logoImage pp = None \<longleftrightarrow> pp_logoImage pp' = None) \<longrightarrow>
      geometry (createPoster_upto_qr e pp @ createPoster_from_qr pp i) =
      geometry (createPoster_upto_qr e' pp' @ createPoster_from_qr pp' i'))
   \<and> (truthy (bs_bannerUrl bs) = Some href \<longrightarrow> handleDownload_banner bs = [LinkClick href ''banner.png''])
   \<and> (truthy (cs_cardUrl cs) = Some href \<longrightarrow> handleDownload_card cs = [LinkClick href ''business-card.png''])
   \<and> (truthy (ls_logoUrl ls) = Some href \<longrightarrow> handleDownload_logo ls = [LinkClick href ''logo.png''])
   \<and> (handleDownload_poster r =
        [LinkClick (r_posterUrl r) (toLowerCase (replace_ws ''-'' (r_name r)) @ ''.png'')])
   \<and> (geometry (createBusinessCard_upto_qr e cp @ createBusinessCard_from_qr i) =
      geometry (createBusinessCard_upto_qr e' cp' @ createBusinessCard_from_qr i'))
   \<and> (geometry (createBanner_from_qr i) = [[1220, 180, 200, 200], [1320, 430]])
   \<and> (geometry (createBusinessCard_from_qr i) = [[730, 160, 200, 200], [830, 400]])
   \<and> (geometry (createPoster_from_qr pp i) =
       [[(POSTER_WIDTH - (pp_qrSize pp + 90)) / 2 + 45, 305, pp_qrSize pp, pp_qrSize pp],
        [600, pp_qrSize pp + 400], [600, 738]])
   \<and> (list_ex is_gradient (createBanner_upto_qr e bp))
   \<and> (list_ex is_rectangle (createBanner_upto_qr e bp))
   \<and> (list_ex is_Ellipse (createBanner_upto_qr e bp))
   \<and> (list_ex is_gradient (createBusinessCard_upto_qr e cp))
   \<and> (list_ex is_rectangle (createBusinessCard_upto_qr e cp))
   \<and> (list_ex is_Ellipse (createBusinessCard_upto_qr e cp))
   \<and> (list_ex is_gradient (createPoster_upto_qr e pp))
   \<and> (list_ex is_rectangle (createPoster_upto_qr e pp))
   \<and> (list_ex is_Ellipse (createPoster_upto_qr e pp))
   \<and> (list_ex is_gradient (createLogo_drawing e lp))
   \<and> (list_ex is_rectangle (createLogo_drawing e lp))
   \<and> (list_ex is_Ellipse (createLogo_drawing e lp))
   \<and> (fillTexts (createBanner_upto_qr e bp) =
       [bp_brandName bp, bp_headline bp, bp_subheadline bp, bp_cta bp, bp_url bp])
   \<and> (fillTexts (createBanner_from_qr i) = [''Scan to visit''])
   \<and> (fillTexts (createBusinessCard_upto_qr e cp) =
       [getInitials (cp_brandName cp), cp_brandName cp, cp_fullName cp, cp_role cp, cp_email cp,
        cp_phone cp, cp_website cp])
   \<and> (fillTexts (createBusinessCard_from_qr i) = [''Scan for contact''])
   \<and> (fillTexts (createPoster_upto_qr e pp) = [pp_brandName pp, pp_tagline pp, t_cta (pp_template pp)])
   \<and> (fillTexts (createPoster_from_qr pp i) = [truncateText (pp_url pp) 52, t_name (pp_template pp)])
   \<and> (fillTexts (createLogo_drawing e lp) =
       [getInitials (lp_brandName lp), lp_brandName lp]
       @ (if lp_tagline lp \<noteq> [] then [lp_tagline lp] else []))
   \<and> (filter is_DrawImage (createBanner_from_qr i) = [DrawImage i 1220 180 200 200])
   \<and> (filter is_DrawImage (createBusinessCard_from_qr i) = [DrawImage i 730 160 200 200])
   \<and> (filter is_DrawImage (createPoster_from_qr pp i) =
       [DrawImage i (poster_cardX pp + 45) (poster_cardY + 45) (pp_qrSize pp) (pp_qrSize pp)])
   \<and> (list_all drawing (createBanner_upto_qr e bp))
   \<and> (list_all drawing (createBanner_from_qr i))
   \<and> (list_all drawing (createBusinessCard_upto_qr e cp))
   \<and> (list_all drawing (createBusinessCard_from_qr i))
   \<and> (list_all drawing (createPoster_upto_qr e pp))
   \<and> (list_all drawing (createPoster_from_qr pp i))
   \<and> (list_all drawing (createLogo_drawing e lp))
   \<and> (filter on_canvas (fst (loadFonts e fa fb)) = [])
   \<and> (filter is_ToDataURL (fst (loadFonts e fa fb)) = [])
   \<and> (fst (handleSubmit_banner e bs) = (if trim (bs_url bs) = [] then [] else fst (banner_generate e bs)))
   \<and> (fst (handleSubmit_card e cs) = (if trim (cs_website cs) = [] then [] else fst (card_generate e cs)))
   \<and> (fst (handleSubmit_poster e ps) = (if trim (ps_url ps) = [] then [] else fst (poster_generate e ps)))
   \<and> (fst (handleSubmit_logo e ls) = fst (logo_generate e ls))
   \<and> (filter is_LinkClick (fst (handleSubmit_banner e bs)) = [])
   \<and> (filter is_LinkClick (fst (handleSubmit_card e cs)) = [])
   \<and> (filter is_LinkClick (fst (handleSubmit_poster e ps)) = [])
   \<and> (filter is_LinkClick (fst (handleSubmit_logo e ls)) = [])"
proof -
  have banner: "snd (banner_generate e bs) = Inr png \<longrightarrow>
      (\<exists>q. qr_toDataURL e (trim (bs_url bs)) banner_qrOptions = Inr q
         \<and> fst (banner_generate e bs) =
             fst (loadFonts e (Font 700 60 DISPLAY_FONT) (Font 500 24 BODY_FONT))
             @ [QrToDataURL (trim (bs_url bs)) banner_qrOptions]
             @ [SetWidth BANNER_WIDTH, SetHeight BANNER_HEIGHT, GetContext ''2d'']
             @ createBanner_upto_qr e (banner_payload bs q) @ [LoadImage q]
             @ createBanner_from_qr (Img q) @ [ToDataURL ''image/png'']
         \<and> canvas_toDataURL e
              ([SetWidth BANNER_WIDTH, SetHeight BANNER_HEIGHT, GetContext ''2d'']
             @ createBanner_upto_qr e (banner_payload bs q) @ [LoadImage q]
             @ createBanner_from_qr (Img q)) = Inr png)"
    using banner_generate_explicit [of e bs png] by blast
  have card: "snd (card_generate e cs) = Inr png \<longrightarrow>
      (\<exists>q. qr_toDataURL e (trim (cs_website cs)) card_qrOptions = Inr q
         \<and> fst (card_generate e cs) =
             fst (loadFonts e (Font 700 44 DISPLAY_FONT) (Font 600 18 BODY_FONT))
             @ [QrToDataURL (trim (cs_website cs)) card_qrOptions]
             @ [SetWidth CARD_WIDTH, SetHeight CARD_HEIGHT, GetContext ''2d'']
             @ createBusinessCard_upto_qr e (card_payload cs q) @ [LoadImage q]
             @ createBusinessCard_from_qr (Img q) @ [ToDataURL ''image/png'']
         \<and> canvas_toDataURL e
              ([SetWidth CARD_WIDTH, SetHeight CARD_HEIGHT, GetContext ''2d'']
             @ createBusinessCard_upto_qr e (card_payload cs q) @ [LoadImage q]
             @ createBusinessCard_from_qr (Img q)) = Inr png)"
    using card_generate_explicit [of e cs png] by blast
  have poster: "snd (poster_generate e ps) = Inr rs \<longrightarrow>
      fst (poster_generate e ps) =
          fst (loadFonts e (Font 700 48 DISPLAY_FONT) (Font 500 20 BODY_FONT))
          @ fst (poster_logo e ps)
          @ map (\<lambda>tpl. QrToDataURL (trim (ps_url ps)) (poster_qrOptions (clampQrSize (js_Number e (ps_size ps))) tpl))
                (poster_templates e ps)
          @ resume (resume_order e)
            (map (poster_for_segments e (trim (ps_url ps)) (clampQrSize (js_Number e (ps_size ps)))
                 (or_default (trim (ps_brandName ps)) ''Your Brand'')
                 (or_default (trim (ps_tagline ps)) ''Scan to connect'')
                 (map_option Img (truthy (ps_logoUrl ps))))
                 (poster_templates e ps))
      \<and> resume (resume_order e)
            (map (poster_for_segments e (trim (ps_url ps)) (clampQrSize (js_Number e (ps_size ps)))
                 (or_default (trim (ps_brandName ps)) ''Your Brand'')
                 (or_default (trim (ps_tagline ps)) ''Scan to connect'')
                 (map_option Img (truthy (ps_logoUrl ps))))
                 (poster_templates e ps))
          \<in> interleavings
              (map (\<lambda>tpl. concat (poster_for_segments e (trim (ps_url ps)) (clampQrSize (js_Number e (ps_size ps)))
                 (or_default (trim (ps_brandName ps)) ''Your Brand'')
                 (or_default (trim (ps_tagline ps)) ''Scan to connect'')
                 (map_option Img (truthy (ps_logoUrl ps))) tpl))
                   (poster_templates e ps))
      \<and> filter is_QrToDataURL
           (resume (resume_order e)
            (map (poster_for_segments e (trim (ps_url ps)) (clampQrSize (js_Number e (ps_size ps)))
                 (or_default (trim (ps_brandName ps)) ''Your Brand'')
                 (or_default (trim (ps_tagline ps)) ''Scan to connect'')
                 (map_option Img (truthy (ps_logoUrl ps))))
                 (poster_templates e ps))) = []
      \<and> length rs = length (poster_templates e ps)
      \<and> (k < length rs \<longrightarrow>
           (\<exists>q. qr_toDataURL e (trim (ps_url ps)) (poster_qrOptions (clampQrSize (js_Number e (ps_size ps))) (poster_templates e ps ! k)) = Inr q
              \<and> poster_for_segments e (trim (ps_url ps)) (clampQrSize (js_Number e (ps_size ps)))
                 (or_default (trim (ps_brandName ps)) ''Your Brand'')
                 (or_default (trim (ps_tagline ps)) ''Scan to connect'')
                 (map_option Img (truthy (ps_logoUrl ps))) (poster_templates e ps ! k) =
                  [[SetWidth POSTER_WIDTH, SetHeight POSTER_HEIGHT, GetContext ''2d'']
                @ createPoster_upto_qr e
                    \<lparr>pp_template = (poster_templates e ps ! k), pp_brandName = or_default (trim (ps_brandName ps)) ''Your Brand'',
                  pp_tagline = or_default (trim (ps_tagline ps)) ''Scan to connect'', pp_url = trim (ps_url ps),
                  pp_qrSize = clampQrSize (js_Number e (ps_size ps)), pp_qrDataUrl = q,
                  pp_logoImage = map_option Img (truthy (ps_logoUrl ps))\<rparr>
                @ [LoadImage q],
                   createPoster_from_qr
                    \<lparr>pp_template = (poster_templates e ps ! k), pp_brandName = or_default (trim (ps_brandName ps)) ''Your Brand'',
                  pp_tagline = or_default (trim (ps_tagline ps)) ''Scan to connect'', pp_url = trim (ps_url ps),
                  pp_qrSize = clampQrSize (js_Number e (ps_size ps)), pp_qrDataUrl = q,
                  pp_logoImage = map_option Img (truthy (ps_logoUrl ps))\<rparr> (Img q)
                   @ [ToDataURL ''image/png'']]
              \<and> canvas_toDataURL e
                   ([SetWidth POSTER_WIDTH, SetHeight POSTER_HEIGHT, GetContext ''2d'']
                @ createPoster_upto_qr e
                    \<lparr>pp_template = (poster_templates e ps ! k), pp_brandName = or_default (trim (ps_brandName ps)) ''Your Brand'',
                  pp_tagline = or_default (trim (ps_tagline ps)) ''Scan to connect'', pp_url = trim (ps_url ps),
                  pp_qrSize = clampQrSize (js_Number e (ps_size ps)), pp_qrDataUrl = q,
                  pp_logoImage = map_option Img (truthy (ps_logoUrl ps))\<rparr>
                @ [LoadImage q]
                    @ createPoster_from_qr
                    \<lparr>pp_template = (poster_templates e ps ! k), pp_brandName = or_default (trim (ps_brandName ps)) ''Your Brand'',
                  pp_tagline = or_default (trim (ps_tagline ps)) ''Scan to connect'', pp_url = trim (ps_url ps),
                  pp_qrSize = clampQrSize (js_Number e (ps_size ps)), pp_qrDataUrl = q,
                  pp_logoImage = map_option Img (truthy (ps_logoUrl ps))\<rparr> (Img q))
                  = Inr (r_posterUrl (rs ! k))))"
  proof
    assume a: "snd (poster_generate e ps) = Inr rs"
    have 1: "fst (poster_generate e ps) =
          fst (loadFonts e (Font 700 48 DISPLAY_FONT) (Font 500 20 BODY_FONT))
          @ fst (poster_logo e ps)
          @ map (\<lambda>tpl. QrToDataURL (trim (ps_url ps)) (poster_qrOptions (clampQrSize (js_Number e (ps_size ps))) tpl))
                (poster_templates e ps)
          @ resume (resume_order e)
            (map (poster_for_segments e (trim (ps_url ps)) (clampQrSize (js_Number e (ps_size ps)))
                 (or_default (trim (ps_brandName ps)) ''Your Brand'')
                 (or_default (trim (ps_tagline ps)) ''Scan to connect'')
                 (map_option Img (truthy (ps_logoUrl ps))))
                 (poster_templates e ps))"
      by (rule poster_generate_explicit [OF a])
    have 2: "resume (resume_order e)
            (map (poster_for_segments e (trim (ps_url ps)) (clampQrSize (js_Number e (ps_size ps)))
                 (or_default (trim (ps_brandName ps)) ''Your Brand'')
                 (or_default (trim (ps_tagline ps)) ''Scan to connect'')
                 (map_option Img (truthy (ps_logoUrl ps))))
                 (poster_templates e ps))
          \<in> interleavings
              (map (\<lambda>tpl. concat (poster_for_segments e (trim (ps_url ps)) (clampQrSize (js_Number e (ps_size ps)))
                 (or_default (trim (ps_brandName ps)) ''Your Brand'')
                 (or_default (trim (ps_tagline ps)) ''Scan to connect'')
                 (map_option Img (truthy (ps_logoUrl ps))) tpl))
                   (poster_templates e ps))"
      using resume_interleaving [of "resume_order e"
          "map (poster_for_segments e (trim (ps_url ps)) (clampQrSize (js_Number e (ps_size ps)))
                 (or_default (trim (ps_brandName ps)) ''Your Brand'')
                 (or_default (trim (ps_tagline ps)) ''Scan to connect'')
                 (map_option Img (truthy (ps_logoUrl ps))))
               (poster_templates e ps)"]
      by (simp add: comp_def)
    have 3: "filter is_QrToDataURL
           (resume (resume_order e)
            (map (poster_for_segments e (trim (ps_url ps)) (clampQrSize (js_Number e (ps_size ps)))
                 (or_default (trim (ps_brandName ps)) ''Your Brand'')
                 (or_default (trim (ps_tagline ps)) ''Scan to connect'')
                 (map_option Img (truthy (ps_logoUrl ps))))
                 (poster_templates e ps))) = []"
      by (rule resume_no_qr)
    have 4: "length rs = length (poster_templates e ps)"
    proof (cases rs)
      case Nil
      with a templates_length [of e ps] show ?thesis
        by (auto simp: poster_generate_unfold split: option.splits sum.splits dest!: promise_all_Inr)
    next
      case (Cons r rs')
      then have "0 < length rs" by simp
      from poster_generate_success [OF a this] show ?thesis by simp
    qed
    have 5: "k < length rs \<longrightarrow>
           (\<exists>q. qr_toDataURL e (trim (ps_url ps)) (poster_qrOptions (clampQrSize (js_Number e (ps_size ps))) (poster_templates e ps ! k)) = Inr q
              \<and> poster_for_segments e (trim (ps_url ps)) (clampQrSize (js_Number e (ps_size ps)))
                 (or_default (trim (ps_brandName ps)) ''Your Brand'')
                 (or_default (trim (ps_tagline ps)) ''Scan to connect'')
                 (map_option Img (truthy (ps_logoUrl ps))) (poster_templates e ps ! k) =
                  [[SetWidth POSTER_WIDTH, SetHeight POSTER_HEIGHT, GetContext ''2d'']
                @ createPoster_upto_qr e
                    \<lparr>pp_template = (poster_templates e ps ! k), pp_brandName = or_default (trim (ps_brandName ps)) ''Your Brand'',
                  pp_tagline = or_default (trim (ps_tagline ps)) ''Scan to connect'', pp_url = trim (ps_url ps),
                  pp_qrSize = clampQrSize (js_Number e (ps_size ps)), pp_qrDataUrl = q,
                  pp_logoImage = map_option Img (truthy (ps_logoUrl ps))\<rparr>
                @ [LoadImage q],
                   createPoster_from_qr
                    \<lparr>pp_template = (poster_templates e ps ! k), pp_brandName = or_default (trim (ps_brandName ps)) ''Your Brand'',
                  pp_tagline = or_default (trim (ps_tagline ps)) ''Scan to connect'', pp_url = trim (ps_url ps),
                  pp_qrSize = clampQrSize (js_Number e (ps_size ps)), pp_qrDataUrl = q,
                  pp_logoImage = map_option Img (truthy (ps_logoUrl ps))\<rparr> (Img q)
                   @ [ToDataURL ''image/png'']]
              \<and> canvas_toDataURL e
                   ([SetWidth POSTER_WIDTH, SetHeight POSTER_HEIGHT, GetContext ''2d'']
                @ createPoster_upto_qr e
                    \<lparr>pp_template = (poster_templates e ps ! k), pp_brandName = or_default (trim (ps_brandName ps)) ''Your Brand'',
                  pp_tagline = or_default (trim (ps_tagline ps)) ''Scan to connect'', pp_url = trim (ps_url ps),
                  pp_qrSize = clampQrSize (js_Number e (ps_size ps)), pp_qrDataUrl = q,
                  pp_logoImage = map_option Img (truthy (ps_logoUrl ps))\<rparr>
                @ [LoadImage q]
                    @ createPoster_from_qr
                    \<lparr>pp_template = (poster_templates e ps ! k), pp_brandName = or_default (trim (ps_brandName ps)) ''Your Brand'',
                  pp_tagline = or_default (trim (ps_tagline ps)) ''Scan to connect'', pp_url = trim (ps_url ps),
                  pp_qrSize = clampQrSize (js_Number e (ps_size ps)), pp_qrDataUrl = q,
                  pp_logoImage = map_option Img (truthy (ps_logoUrl ps))\<rparr> (Img q))
                  = Inr (r_posterUrl (rs ! k)))"
    proof
      assume "k < length rs"
      from poster_generate_success [OF a this] have
        "snd (poster_for e (trim (ps_url ps)) (clampQrSize (js_Number e (ps_size ps)))
                 (or_default (trim (ps_brandName ps)) ''Your Brand'')
                 (or_default (trim (ps_tagline ps)) ''Scan to connect'')
                 (map_option Img (truthy (ps_logoUrl ps))) (poster_templates e ps ! k)) = Inr (rs ! k)"
        by simp
      from poster_for_segments_success [OF this] show
        "\<exists>q. qr_toDataURL e (trim (ps_url ps)) (poster_qrOptions (clampQrSize (js_Number e (ps_size ps))) (poster_templates e ps ! k)) = Inr q
              \<and> poster_for_segments e (trim (ps_url ps)) (clampQrSize (js_Number e (ps_size ps)))
                 (or_default (trim (ps_brandName ps)) ''Your Brand'')
                 (or_default (trim (ps_tagline ps)) ''Scan to connect'')
                 (map_option Img (truthy (ps_logoUrl ps))) (poster_templates e ps ! k) =
                  [[SetWidth POSTER_WIDTH, SetHeight POSTER_HEIGHT, GetContext ''2d'']
                @ createPoster_upto_qr e
                    \<lparr>pp_template = (poster_templates e ps ! k), pp_brandName = or_default (trim (ps_brandName ps)) ''Your Brand'',
                  pp_tagline = or_default (trim (ps_tagline ps)) ''Scan to connect'', pp_url = trim (ps_url ps),
                  pp_qrSize = clampQrSize (js_Number e (ps_size ps)), pp_qrDataUrl = q,
                  pp_logoImage = map_option Img (truthy (ps_logoUrl ps))\<rparr>
                @ [LoadImage q],
                   createPoster_from_qr
                    \<lparr>pp_template = (poster_templates e ps ! k), pp_brandName = or_default (trim (ps_brandName ps)) ''Your Brand'',
                  pp_tagline = or_default (trim (ps_tagline ps)) ''Scan to connect'', pp_url = trim (ps_url ps),
                  pp_qrSize = clampQrSize (js_Number e (ps_size ps)), pp_qrDataUrl = q,
                  pp_logoImage = map_option Img (truthy (ps_logoUrl ps))\<rparr> (Img q)
                   @ [ToDataURL ''image/png'']]
              \<and> canvas_toDataURL e
                   ([SetWidth POSTER_WIDTH, SetHeight POSTER_HEIGHT, GetContext ''2d'']
                @ createPoster_upto_qr e
                    \<lparr>pp_template = (poster_templates e ps ! k), pp_brandName = or_default (trim (ps_brandName ps)) ''Your Brand'',
                  pp_tagline = or_default (trim (ps_tagline ps)) ''Scan to connect'', pp_url = trim (ps_url ps),
                  pp_qrSize = clampQrSize (js_Number e (ps_size ps)), pp_qrDataUrl = q,
                  pp_logoImage = map_option Img (truthy (ps_logoUrl ps))\<rparr>
                @ [LoadImage q]
                    @ createPoster_from_qr
                    \<lparr>pp_template = (poster_templates e ps ! k), pp_brandName = or_default (trim (ps_brandName ps)) ''Your Brand'',
                  pp_tagline = or_default (trim (ps_tagline ps)) ''Scan to connect'', pp_url = trim (ps_url ps),
                  pp_qrSize = clampQrSize (js_Number e (ps_size ps)), pp_qrDataUrl = q,
                  pp_logoImage = map_option Img (truthy (ps_logoUrl ps))\<rparr> (Img q))
                  = Inr (r_posterUrl (rs ! k))" .
    qed
    from 1 2 3 4 5 show "fst (poster_generate e ps) =
          fst (loadFonts e (Font 700 48 DISPLAY_FONT) (Font 500 20 BODY_FONT))
          @ fst (poster_logo e ps)
          @ map (\<lambda>tpl. QrToDataURL (trim (ps_url ps)) (poster_qrOptions (clampQrSize (js_Number e (ps_size ps))) tpl))
                (poster_templates e ps)
          @ resume (resume_order e)
            (map (poster_for_segments e (trim (ps_url ps)) (clampQrSize (js_Number e (ps_size ps)))
                 (or_default (trim (ps_brandName ps)) ''Your Brand'')
                 (or_default (trim (ps_tagline ps)) ''Scan to connect'')
                 (map_option Img (truthy (ps_logoUrl ps))))
                 (poster_templates e ps))
      \<and> resume (resume_order e)
            (map (poster_for_segments e (trim (ps_url ps)) (clampQrSize (js_Number e (ps_size ps)))
                 (or_default (trim (ps_brandName ps)) ''Your Brand'')
                 (or_default (trim (ps_tagline ps)) ''Scan to connect'')
                 (map_option Img (truthy (ps_logoUrl ps))))
                 (poster_templates e ps))
          \<in> interleavings
              (map (\<lambda>tpl. concat (poster_for_segments e (trim (ps_url ps)) (clampQrSize (js_Number e (ps_size ps)))
                 (or_default (trim (ps_brandName ps)) ''Your Brand'')
                 (or_default (trim (ps_tagline ps)) ''Scan to connect'')
                 (map_option Img (truthy (ps_logoUrl ps))) tpl))
                   (poster_templates e ps))
      \<and> filter is_QrToDataURL
           (resume (resume_order e)
            (map (poster_for_segments e (trim (ps_url ps)) (clampQrSize (js_Number e (ps_size ps)))
                 (or_default (trim (ps_brandName ps)) ''Your Brand'')
                 (or_default (trim (ps_tagline ps)) ''Scan to connect'')
                 (map_option Img (truthy (ps_logoUrl ps))))
                 (poster_templates e ps))) = []
      \<and> length rs = length (poster_templates e ps)
      \<and> (k < length rs \<longrightarrow>
           (\<exists>q. qr_toDataURL e (trim (ps_url ps)) (poster_qrOptions (clampQrSize (js_Number e (ps_size ps))) (poster_templates e ps ! k)) = Inr q
              \<and> poster_for_segments e (trim (ps_url ps)) (clampQrSize (js_Number e (ps_size ps)))
                 (or_default (trim (ps_brandName ps)) ''Your Brand'')
                 (or_default (trim (ps_tagline ps)) ''Scan to connect'')
                 (map_option Img (truthy (ps_logoUrl ps))) (poster_templates e ps ! k) =
                  [[SetWidth POSTER_WIDTH, SetHeight POSTER_HEIGHT, GetContext ''2d'']
                @ createPoster_upto_qr e
                    \<lparr>pp_template = (poster_templates e ps ! k), pp_brandName = or_default (trim (ps_brandName ps)) ''Your Brand'',
                  pp_tagline = or_default (trim (ps_tagline ps)) ''Scan to connect'', pp_url = trim (ps_url ps),
                  pp_qrSize = clampQrSize (js_Number e (ps_size ps)), pp_qrDataUrl = q,
                  pp_logoImage = map_option Img (truthy (ps_logoUrl ps))\<rparr>
                @ [LoadImage q],
                   createPoster_from_qr
                    \<lparr>pp_template = (poster_templates e ps ! k), pp_brandName = or_default (trim (ps_brandName ps)) ''Your Brand'',
                  pp_tagline = or_default (trim (ps_tagline ps)) ''Scan to connect'', pp_url = trim (ps_url ps),
                  pp_qrSize = clampQrSize (js_Number e (ps_size ps)), pp_qrDataUrl = q,
                  pp_logoImage = map_option Img (truthy (ps_logoUrl ps))\<rparr> (Img q)
                   @ [ToDataURL ''image/png'']]
              \<and> canvas_toDataURL e
                   ([SetWidth POSTER_WIDTH, SetHeight POSTER_HEIGHT, GetContext ''2d'']
                @ createPoster_upto_qr e
                    \<lparr>pp_template = (poster_templates e ps ! k), pp_brandName = or_default (trim (ps_brandName ps)) ''Your Brand'',
                  pp_tagline = or_default (trim (ps_tagline ps)) ''Scan to connect'', pp_url = trim (ps_url ps),
                  pp_qrSize = clampQrSize (js_Number e (ps_size ps)), pp_qrDataUrl = q,
                  pp_logoImage = map_option Img (truthy (ps_logoUrl ps))\<rparr>
                @ [LoadImage q]
                    @ createPoster_from_qr
                    \<lparr>pp_template = (poster_templates e ps ! k), pp_brandName = or_default (trim (ps_brandName ps)) ''Your Brand'',
                  pp_tagline = or_default (trim (ps_tagline ps)) ''Scan to connect'', pp_url = trim (ps_url ps),
                  pp_qrSize = clampQrSize (js_Number e (ps_size ps)), pp_qrDataUrl = q,
                  pp_logoImage = map_option Img (truthy (ps_logoUrl ps))\<rparr> (Img q))
                  = Inr (r_posterUrl (rs ! k))))"
      by (intro conjI)
  qed
  have logo: "snd (logo_generate e ls) = Inr png \<longrightarrow>
      fst (logo_generate e ls) =
             fst (loadFonts e (Font 700 58 DISPLAY_FONT) (Font 500 20 BODY_FONT))
             @ [SetWidth LOGO_WIDTH, SetHeight LOGO_HEIGHT, GetContext ''2d'']
             @ createLogo_drawing e (logo_payload ls) @ [ToDataURL ''image/png'']
      \<and> canvas_toDataURL e
              ([SetWidth LOGO_WIDTH, SetHeight LOGO_HEIGHT, GetContext ''2d'']
             @ createLogo_drawing e (logo_payload ls)) = Inr png"
    using logo_generate_explicit [of e ls png] by blast
  have gb: "measureText e (Font 600 18 BODY_FONT) (bp_cta bp) =
        measureText e' (Font 600 18 BODY_FONT) (bp_cta bp') \<longrightarrow>
      geometry (createBanner_upto_qr e bp @ createBanner_from_qr i) =
      geometry (createBanner_upto_qr e' bp' @ createBanner_from_qr i')"
    by (intro impI, rule banner_geometry)
  have gl: "lp_layout lp = lp_layout lp' \<and> (lp_tagline lp = [] \<longleftrightarrow> lp_tagline lp' = []) \<longrightarrow>
      geometry (createLogo_drawing e lp) = geometry (createLogo_drawing e' lp')"
    by (intro impI, elim conjE, rule logo_geometry)
  have gp: "pp_qrSize pp = pp_qrSize pp' \<and> (pp_logoImage pp = None \<longleftrightarrow> pp_logoImage pp' = None) \<longrightarrow>
      geometry (createPoster_upto_qr e pp @ createPoster_from_qr pp i) =
      geometry (createPoster_upto_qr e' pp' @ createPoster_from_qr pp' i')"
    by (intro impI, elim conjE, rule poster_geometry)
  have db: "truthy (bs_bannerUrl bs) = Some href \<longrightarrow> handleDownload_banner bs = [LinkClick href ''banner.png'']"
    by (simp add: handleDownload_banner_def)
  have dc: "truthy (cs_cardUrl cs) = Some href \<longrightarrow> handleDownload_card cs = [LinkClick href ''business-card.png'']"
    by (simp add: handleDownload_card_def)
  have dl: "truthy (ls_logoUrl ls) = Some href \<longrightarrow> handleDownload_logo ls = [LinkClick href ''logo.png'']"
    by (simp add: handleDownload_logo_def)
  have dp: "handleDownload_poster r =
        [LinkClick (r_posterUrl r) (toLowerCase (replace_ws ''-'' (r_name r)) @ ''.png'')]"
    by (simp add: handleDownload_poster_def Let_def)
  have gc: "geometry (createBusinessCard_upto_qr e cp @ createBusinessCard_from_qr i) =
      geometry (createBusinessCard_upto_qr e' cp' @ createBusinessCard_from_qr i')"
    by (rule card_geometry)
  have q1: "geometry (createBanner_from_qr i) = [[1220, 180, 200, 200], [1320, 430]]"
    by (rule qr_geometry(1))
  have q2: "geometry (createBusinessCard_from_qr i) = [[730, 160, 200, 200], [830, 400]]"
    by (rule qr_geometry(2))
  have q3: "geometry (createPoster_from_qr pp i) =
       [[(POSTER_WIDTH - (pp_qrSize pp + 90)) / 2 + 45, 305, pp_qrSize pp, pp_qrSize pp],
        [600, pp_qrSize pp + 400], [600, 738]]"
    by (rule qr_geometry(3))
  have s1: "list_ex is_gradient (createBanner_upto_qr e bp)"
    by (rule shapes_drawn(1))
  have s2: "list_ex is_rectangle (createBanner_upto_qr e bp)"
    by (rule shapes_drawn(2))
  have s3: "list_ex is_Ellipse (createBanner_upto_qr e bp)"
    by (rule shapes_drawn(3))
  have s4: "list_ex is_gradient (createBusinessCard_upto_qr e cp)"
    by (rule shapes_drawn(4))
  have s5: "list_ex is_rectangle (createBusinessCard_upto_qr e cp)"
    by (rule shapes_drawn(5))
  have s6: "list_ex is_Ellipse (createBusinessCard_upto_qr e cp)"
    by (rule shapes_drawn(6))
  have s7: "list_ex is_gradient (createPoster_upto_qr e pp)"
    by (rule shapes_drawn(7))
  have s8: "list_ex is_rectangle (createPoster_upto_qr e pp)"
    by (rule shapes_drawn(8))
  have s9: "list_ex is_Ellipse (createPoster_upto_qr e pp)"
    by (rule shapes_drawn(9))
  have s10: "list_ex is_gradient (createLogo_drawing e lp)"
    by (rule shapes_drawn(10))
  have s11: "list_ex is_rectangle (createLogo_drawing e lp)"
    by (rule shapes_drawn(11))
  have s12: "list_ex is_Ellipse (createLogo_drawing e lp)"
    by (rule shapes_drawn(12))
  have t1: "fillTexts (createBanner_upto_qr e bp) =
       [bp_brandName bp, bp_headline bp, bp_subheadline bp, bp_cta bp, bp_url bp]"
    by (rule texts_drawn(1))
  have t2: "fillTexts (createBanner_from_qr i) = [''Scan to visit'']"
    by (rule texts_drawn(2))
  have t3: "fillTexts (createBusinessCard_upto_qr e cp) =
       [getInitials (cp_brandName cp), cp_brandName cp, cp_fullName cp, cp_role cp, cp_email cp,
        cp_phone cp, cp_website cp]"
    by (rule texts_drawn(3))
  have t4: "fillTexts (createBusinessCard_from_qr i) = [''Scan for contact'']"
    by (rule texts_drawn(4))
  have t5: "fillTexts (createPoster_upto_qr e pp) = [pp_brandName pp, pp_tagline pp, t_cta (pp_template pp)]"
    by (rule texts_drawn(5))
  have t6: "fillTexts (createPoster_from_qr pp i) = [truncateText (pp_url pp) 52, t_name (pp_template pp)]"
    by (rule texts_drawn(6))
  have t7: "fillTexts (createLogo_drawing e lp) =
       [getInitials (lp_brandName lp), lp_brandName lp]
       @ (if lp_tagline lp \<noteq> [] then [lp_tagline lp] else [])"
    by (rule texts_drawn(7))
  have i1: "filter is_DrawImage (createBanner_from_qr i) = [DrawImage i 1220 180 200 200]"
    by (simp add: createBanner_from_qr_def Let_def BANNER_WIDTH_def)
  have i2: "filter is_DrawImage (createBusinessCard_from_qr i) = [DrawImage i 730 160 200 200]"
    by (simp add: createBusinessCard_from_qr_def Let_def CARD_WIDTH_def)
  have i3: "filter is_DrawImage (createPoster_from_qr pp i) =
       [DrawImage i (poster_cardX pp + 45) (poster_cardY + 45) (pp_qrSize pp) (pp_qrSize pp)]"
    by (simp add: createPoster_from_qr_def Let_def)
  have w1: "list_all drawing (createBanner_upto_qr e bp)"
    by (simp add: plain_drawing createBanner_upto_qr_plain)
  have w1b: "list_all drawing (createBanner_from_qr i)"
    by (rule from_qr_drawing(2))
  have w2: "list_all drawing (createBusinessCard_upto_qr e cp)"
    by (simp add: plain_drawing createBusinessCard_upto_qr_plain)
  have w2b: "list_all drawing (createBusinessCard_from_qr i)"
    by (rule from_qr_drawing(3))
  have w3: "list_all drawing (createPoster_upto_qr e pp)"
    by (rule createPoster_upto_qr_drawing)
  have w3b: "list_all drawing (createPoster_from_qr pp i)"
    by (rule from_qr_drawing(1))
  have w4: "list_all drawing (createLogo_drawing e lp)"
    by (simp add: plain_drawing createLogo_drawing_plain)
  have f1: "filter on_canvas (fst (loadFonts e fa fb)) = []"
    by (rule loadFonts_calls(1))
  have f2: "filter is_ToDataURL (fst (loadFonts e fa fb)) = []"
    by (rule loadFonts_calls(2))
  have h1: "fst (handleSubmit_banner e bs) = (if trim (bs_url bs) = [] then [] else fst (banner_generate e bs))"
    by (rule handleSubmit_trace(1))
  have h2: "fst (handleSubmit_card e cs) = (if trim (cs_website cs) = [] then [] else fst (card_generate e cs))"
    by (rule handleSubmit_trace(2))
  have h3: "fst (handleSubmit_poster e ps) = (if trim (ps_url ps) = [] then [] else fst (poster_generate e ps))"
    by (rule handleSubmit_trace(4))
  have h4: "fst (handleSubmit_logo e ls) = fst (logo_generate e ls)"
    by (rule handleSubmit_trace(3))
  have n1: "filter is_LinkClick (fst (handleSubmit_banner e bs)) = []"
    by (simp add: handleSubmit_trace generate_no_click)
  have n2: "filter is_LinkClick (fst (handleSubmit_card e cs)) = []"
    by (simp add: handleSubmit_trace generate_no_click)
  have n3: "filter is_LinkClick (fst (handleSubmit_poster e ps)) = []"
    by (simp add: handleSubmit_trace poster_generate_no_click)
  have n4: "filter is_LinkClick (fst (handleSubmit_logo e ls)) = []"
    by (simp add: handleSubmit_trace generate_no_click)
  from banner card poster logo gb gl gp db dc dl dp gc q1 q2 q3 s1 s2 s3 s4 s5 s6 s7 s8 s9 s10 s11 s12 t1 t2 t3 t4 t5 t6 t7 i1 i2 i3 w1 w1b w2 w2b w3 w3b w4 f1 f2 h1 h2 h3 h4 n1 n2 n3 n4
  show ?thesis by (intro conjI)
qed

text \<open>
  The claim as stated fails twice. The logo page produces its PNG without any QR
  encoding. And on the poster page the QR image is not at a hard-coded place (its left
  edge is at 490 for the size 220 and at 470 for the size 260), the three encodings come
  before any canvas call, and the first export is followed by the drawing of the other
  two QR images.
\<close>

theorem generation_sequence_counterexample:
  "ls_logoUrl (snd (handleSubmit_logo sample_env initial_logo)) = Some ''data:image/png''
   \<and> filter is_QrToDataURL (fst (handleSubmit_logo sample_env initial_logo)) = []
   \<and> take 4 (fst (handleSubmit_logo sample_env initial_logo)) =
       [FontsReady, FontsLoad (Font 700 58 ''Cinzel''), FontsLoad (Font 500 20 ''Manrope''),
        SetWidth 1000]
   \<and> filter is_DrawImage (fst (handleSubmit_poster sample_env
         (initial_poster\<lparr>ps_url := '' https://site2qr.com '', ps_size := ''220''\<rparr>))) =
       [DrawImage (Img ''data:qr,https://site2qr.com'') 490 305 220 220,
        DrawImage (Img ''data:qr,https://site2qr.com'') 490 305 220 220,
        DrawImage (Img ''data:qr,https://site2qr.com'') 490 305 220 220]
   \<and> filter is_DrawImage (fst (handleSubmit_poster sample_env
         (initial_poster\<lparr>ps_url := '' https://site2qr.com ''\<rparr>))) =
       [DrawImage (Img ''data:qr,https://site2qr.com'') 470 305 260 260,
        DrawImage (Img ''data:qr,https://site2qr.com'') 470 305 260 260,
        DrawImage (Img ''data:qr,https://site2qr.com'') 470 305 260 260]
   \<and> map is_QrToDataURL (take 7 (fst (handleSubmit_poster sample_env
         (initial_poster\<lparr>ps_url := '' https://site2qr.com ''\<rparr>)))) =
       [False, False, False, True, True, True, False]
   \<and> length (filter is_DrawImage (dropWhile (\<lambda>c. \<not> is_ToDataURL c)
         (fst (handleSubmit_poster sample_env
            (initial_poster\<lparr>ps_url := '' https://site2qr.com ''\<rparr>))))) = 2"
  by code_simp

lemma sample_generations:
  "snd (banner_generate sample_env initial_banner) = Inr ''data:image/png''"
  "snd (logo_generate sample_env initial_logo) = Inr ''data:image/png''"
  "truthy (bs_bannerUrl (initial_banner\<lparr>bs_bannerUrl := Some ''data:image/png''\<rparr>)) = Some ''data:image/png''"
  "snd (poster_generate sample_env (initial_poster\<lparr>ps_url := '' https://site2qr.com ''\<rparr>)) =
     Inr [\<lparr>r_id = ''gilt'', r_name = ''Gilt Plaque'',
            r_description = ''Classic dark board with gold framing.'',
            r_posterUrl = ''data:image/png''\<rparr>,
          \<lparr>r_id = ''noir'', r_name = ''Noir Accent'',
            r_description = ''Deep tones with bold accent energy.'',
            r_posterUrl = ''data:image/png''\<rparr>,
          \<lparr>r_id = ''ivory'', r_name = ''Ivory Studio'',
            r_description = ''Light premium layout with soft framing.'',
            r_posterUrl = ''data:image/png''\<rparr>]"
  "measureText sample_env (Font 600 18 BODY_FONT) (bp_cta (banner_payload initial_banner ''q'')) =
   measureText sample_env (Font 600 18 BODY_FONT)
     (bp_cta (banner_payload (initial_banner\<lparr>bs_headline := ''Another headline'',
                                             bs_url := ''https://example.org''\<rparr>) ''r''))"
  by code_simp+

theorem generation_sequence_witness:
  "snd (banner_generate sample_env initial_banner) = Inr ''data:image/png''
   \<and> (\<exists>q. qr_toDataURL sample_env (trim (bs_url initial_banner)) banner_qrOptions = Inr q
         \<and> fst (banner_generate sample_env initial_banner) =
             fst (loadFonts sample_env (Font 700 60 DISPLAY_FONT) (Font 500 24 BODY_FONT))
             @ [QrToDataURL (trim (bs_url initial_banner)) banner_qrOptions]
             @ [SetWidth BANNER_WIDTH, SetHeight BANNER_HEIGHT, GetContext ''2d'']
             @ createBanner_upto_qr sample_env (banner_payload initial_banner q) @ [LoadImage q]
             @ createBanner_from_qr (Img q) @ [ToDataURL ''image/png'']
         \<and> canvas_toDataURL sample_env
              ([SetWidth BANNER_WIDTH, SetHeight BANNER_HEIGHT, GetContext ''2d'']
               @ createBanner_upto_qr sample_env (banner_payload initial_banner q) @ [LoadImage q]
               @ createBanner_from_qr (Img q)) = Inr ''data:image/png'')
   \<and> snd (logo_generate sample_env initial_logo) = Inr ''data:image/png''
   \<and> fst (logo_generate sample_env initial_logo) =
         fst (loadFonts sample_env (Font 700 58 DISPLAY_FONT) (Font 500 20 BODY_FONT))
         @ [SetWidth LOGO_WIDTH, SetHeight LOGO_HEIGHT, GetContext ''2d'']
         @ createLogo_drawing sample_env (logo_payload initial_logo) @ [ToDataURL ''image/png'']
   \<and> length (poster_templates sample_env (initial_poster\<lparr>ps_url := '' https://site2qr.com ''\<rparr>)) = 3
   \<and> geometry (createBanner_upto_qr sample_env (banner_payload initial_banner ''q'')
                 @ createBanner_from_qr (Img ''q'')) =
       geometry (createBanner_upto_qr sample_env
                   (banner_payload (initial_banner\<lparr>bs_headline := ''Another headline'',
                                                   bs_url := ''https://example.org''\<rparr>) ''r'')
                 @ createBanner_from_qr (Img ''r''))
   \<and> handleDownload_banner (initial_banner\<lparr>bs_bannerUrl := Some ''data:image/png''\<rparr>)
       = [LinkClick ''data:image/png'' ''banner.png'']"
proof -
  note t = generation_sequence [where e = sample_env and bs = initial_banner and cs = initial_card
      and ps = "initial_poster\<lparr>ps_url := '' https://site2qr.com ''\<rparr>" and ls = initial_logo
      and png = "''data:image/png''"
      and rs = "[\<lparr>r_id = ''gilt'', r_name = ''Gilt Plaque'',
            r_description = ''Classic dark board with gold framing.'',
            r_posterUrl = ''data:image/png''\<rparr>,
          \<lparr>r_id = ''noir'', r_name = ''Noir Accent'',
            r_description = ''Deep tones with bold accent energy.'',
            r_posterUrl = ''data:image/png''\<rparr>,
          \<lparr>r_id = ''ivory'', r_name = ''Ivory Studio'',
            r_description = ''Light premium layout with soft framing.'',
            r_posterUrl = ''data:image/png''\<rparr>]"
      and e' = sample_env and bp = "banner_payload initial_banner ''q''"
      and bp' = "banner_payload (initial_banner\<lparr>bs_headline := ''Another headline'',
                                                   bs_url := ''https://example.org''\<rparr>) ''r''"
      and i = "Img ''q''" and i' = "Img ''r''"]
  note t' = generation_sequence [where e = sample_env
      and bs = "initial_banner\<lparr>bs_bannerUrl := Some ''data:image/png''\<rparr>"
      and href = "''data:image/png''"]
  have b: "\<exists>q. qr_toDataURL sample_env (trim (bs_url initial_banner)) banner_qrOptions = Inr q
         \<and> fst (banner_generate sample_env initial_banner) =
             fst (loadFonts sample_env (Font 700 60 DISPLAY_FONT) (Font 500 24 BODY_FONT))
             @ [QrToDataURL (trim (bs_url initial_banner)) banner_qrOptions]
             @ [SetWidth BANNER_WIDTH, SetHeight BANNER_HEIGHT, GetContext ''2d'']
             @ createBanner_upto_qr sample_env (banner_payload initial_banner q) @ [LoadImage q]
             @ createBanner_from_qr (Img q) @ [ToDataURL ''image/png'']
         \<and> canvas_toDataURL sample_env
              ([SetWidth BANNER_WIDTH, SetHeight BANNER_HEIGHT, GetContext ''2d'']
               @ createBanner_upto_qr sample_env (banner_payload initial_banner q) @ [LoadImage q]
               @ createBanner_from_qr (Img q)) = Inr ''data:image/png''"
    by (rule t [THEN conjunct1, THEN mp, OF sample_generations(1)])
  have l: "fst (logo_generate sample_env initial_logo) =
         fst (loadFonts sample_env (Font 700 58 DISPLAY_FONT) (Font 500 20 BODY_FONT))
         @ [SetWidth LOGO_WIDTH, SetHeight LOGO_HEIGHT, GetContext ''2d'']
         @ createLogo_drawing sample_env (logo_payload initial_logo) @ [ToDataURL ''image/png'']"
    by (rule t [THEN conjunct2, THEN conjunct2, THEN conjunct2, THEN conjunct1,
          THEN mp, OF sample_generations(2), THEN conjunct1])
  have p: "length [\<lparr>r_id = ''gilt'', r_name = ''Gilt Plaque'',
            r_description = ''Classic dark board with gold framing.'',
            r_posterUrl = ''data:image/png''\<rparr>,
          \<lparr>r_id = ''noir'', r_name = ''Noir Accent'',
            r_description = ''Deep tones with bold accent energy.'',
            r_posterUrl = ''data:image/png''\<rparr>,
          \<lparr>r_id = ''ivory'', r_name = ''Ivory Studio'',
            r_description = ''Light premium layout with soft framing.'',
            r_posterUrl = ''data:image/png''\<rparr>] =
       length (poster_templates sample_env (initial_poster\<lparr>ps_url := '' https://site2qr.com ''\<rparr>))"
    by (rule t [THEN conjunct2, THEN conjunct2, THEN conjunct1,
          THEN mp, OF sample_generations(4), THEN conjunct2, THEN conjunct2, THEN conjunct2,
          THEN conjunct1])
  then have p': "length (poster_templates sample_env
      (initial_poster\<lparr>ps_url := '' https://site2qr.com ''\<rparr>)) = 3" by simp
  have g: "geometry (createBanner_upto_qr sample_env (banner_payload initial_banner ''q'')
                 @ createBanner_from_qr (Img ''q'')) =
       geometry (createBanner_upto_qr sample_env
                   (banner_payload (initial_banner\<lparr>bs_headline := ''Another headline'',
                                                   bs_url := ''https://example.org''\<rparr>) ''r'')
                 @ createBanner_from_qr (Img ''r''))"
    by (rule t [THEN conjunct2, THEN conjunct2, THEN conjunct2, THEN conjunct2, THEN conjunct1,
          THEN mp, OF sample_generations(5)])
  have d: "handleDownload_banner (initial_banner\<lparr>bs_bannerUrl := Some ''data:image/png''\<rparr>)
       = [LinkClick ''data:image/png'' ''banner.png'']"
    by (rule t' [THEN conjunct2, THEN conjunct2, THEN conjunct2, THEN conjunct2, THEN conjunct2,
          THEN conjunct2, THEN conjunct2, THEN conjunct1, THEN mp, OF sample_generations(3)])
  from sample_generations(1) b sample_generations(2) l p' g d show ?thesis by (intro conjI)
qed

subsection \<open>The URL that is validated, encoded and drawn\<close>

lemma poster_qr_members:
  assumes "snd (loadFonts e (Font 700 48 DISPLAY_FONT) (Font 500 20 BODY_FONT)) = None
           \<and> \<not> isl (snd (poster_logo e s))"
    and "tpl \<in> set (poster_templates e s)"
  shows "QrToDataURL (trim (ps_url s)) (poster_qrOptions (clampQrSize (js_Number e (ps_size s))) tpl)
           \<in> set (fst (poster_generate e s))"
proof -
  from assms(1) obtain l where "snd (poster_logo e s) = Inr l"
    by (cases "snd (poster_logo e s)") auto
  with assms show ?thesis by (auto simp: poster_generate_unfold)
qed

lemma poster_caption:
  assumes "snd (poster_generate e s) = Inr rs \<and> k < length rs"
  shows "FillText (truncateText (trim (ps_url s)) 52) (POSTER_WIDTH / 2)
           (clampQrSize (js_Number e (ps_size s)) + 400)
           \<in> set (fst (poster_generate e s))"
proof -
  from assms have a: "snd (poster_generate e s) = Inr rs" and k: "k < length rs" by simp_all
  let ?segs = "poster_for_segments e (trim (ps_url s)) (clampQrSize (js_Number e (ps_size s)))
                 (or_default (trim (ps_brandName s)) ''Your Brand'')
                 (or_default (trim (ps_tagline s)) ''Scan to connect'')
                 (map_option Img (truthy (ps_logoUrl s)))"
  let ?c = "FillText (truncateText (trim (ps_url s)) 52) (POSTER_WIDTH / 2)
           (clampQrSize (js_Number e (ps_size s)) + 400)"
  from poster_generate_success [OF a k] have len: "length rs = length (poster_templates e s)"
    and r: "snd (poster_for e (trim (ps_url s)) (clampQrSize (js_Number e (ps_size s)))
              (or_default (trim (ps_brandName s)) ''Your Brand'')
              (or_default (trim (ps_tagline s)) ''Scan to connect'')
              (map_option Img (truthy (ps_logoUrl s))) (poster_templates e s ! k)) = Inr (rs ! k)"
    by simp_all
  from poster_for_segments_success [OF r] obtain q where
    q: "?segs (poster_templates e s ! k) =
         [[SetWidth POSTER_WIDTH, SetHeight POSTER_HEIGHT, GetContext ''2d'']
          @ createPoster_upto_qr e
              \<lparr>pp_template = poster_templates e s ! k,
               pp_brandName = or_default (trim (ps_brandName s)) ''Your Brand'',
               pp_tagline = or_default (trim (ps_tagline s)) ''Scan to connect'',
               pp_url = trim (ps_url s), pp_qrSize = clampQrSize (js_Number e (ps_size s)),
               pp_qrDataUrl = q, pp_logoImage = map_option Img (truthy (ps_logoUrl s))\<rparr>
          @ [LoadImage q],
          createPoster_from_qr
              \<lparr>pp_template = poster_templates e s ! k,
               pp_brandName = or_default (trim (ps_brandName s)) ''Your Brand'',
               pp_tagline = or_default (trim (ps_tagline s)) ''Scan to connect'',
               pp_url = trim (ps_url s), pp_qrSize = clampQrSize (js_Number e (ps_size s)),
               pp_qrDataUrl = q, pp_logoImage = map_option Img (truthy (ps_logoUrl s))\<rparr> (Img q)
          @ [ToDataURL ''image/png'']]"
    by blast
  have "?c \<in> set (concat (?segs (poster_templates e s ! k)))"
    unfolding q
    by (simp add: createPoster_from_qr_def Let_def poster_cardY_def poster_cardHeight_def)
  moreover have "poster_templates e s ! k \<in> set (poster_templates e s)"
    using k len by simp
  ultimately have "?c \<in> set (resume (resume_order e) (map ?segs (poster_templates e s)))"
    unfolding resume_set by auto
  then show ?thesis unfolding poster_generate_explicit [OF a] by simp
qed

text \<open>
  Claim C7, for the validation that \<open>handleSubmit\<close> itself does (the browser's own check
  of the \<^verbatim>\<open>type="url"\<close> and \<^verbatim>\<open>type="email"\<close> inputs happens before the handler is
  called and is not part of it). On the poster, banner and business-card pages a URL that
  trims to the empty string makes \<open>handleSubmit\<close> set the validation message and return
  with no call made (no QR encoding, no canvas work) and the earlier result untouched.
  With any other URL, whatever the other fields hold, the handler runs the generation,
  its outcome is the outcome of the generation, the QR encoder is called on the trimmed
  URL (once on the banner and the card, once for each template on the poster), and the
  payload of the canvas routine holds the trimmed URL: on the poster it is the caption
  drawn under the QR code.
\<close>

theorem url_validation:
  "(trim (ps_url ps) = [] \<longrightarrow>
      handleSubmit_poster e ps = ([], ps\<lparr>ps_error := ''Please enter a URL to generate posters.''\<rparr>)
      \<and> ps_posters (snd (handleSubmit_poster e ps)) = ps_posters ps)
   \<and> (trim (ps_url ps) \<noteq> [] \<longrightarrow>
      fst (handleSubmit_poster e ps) = fst (poster_generate e ps)
      \<and> snd (handleSubmit_poster e ps) =
          (case snd (poster_generate e ps) of
             Inl err \<Rightarrow> ps\<lparr>ps_posters := [], ps_loading := False,
                            ps_error := ''Could not generate branded posters. Please try again.''\<rparr>
           | Inr rs \<Rightarrow> ps\<lparr>ps_posters := rs, ps_loading := False, ps_error := ''''\<rparr>)
      \<and> (QrToDataURL t opts \<in> set (fst (handleSubmit_poster e ps)) \<longrightarrow> t = trim (ps_url ps))
      \<and> (snd (loadFonts e (Font 700 48 DISPLAY_FONT) (Font 500 20 BODY_FONT)) = None
           \<and> \<not> isl (snd (poster_logo e ps)) \<longrightarrow>
            (\<forall>tpl \<in> set (poster_templates e ps).
               QrToDataURL (trim (ps_url ps)) (poster_qrOptions (clampQrSize (js_Number e (ps_size ps))) tpl)
                 \<in> set (fst (handleSubmit_poster e ps))))
      \<and> (qr_toDataURL e (trim (ps_url ps)) (poster_qrOptions (clampQrSize (js_Number e (ps_size ps))) tpl) = Inr q \<longrightarrow>
            fst (poster_for e (trim (ps_url ps)) (clampQrSize (js_Number e (ps_size ps)))
                   (or_default (trim (ps_brandName ps)) ''Your Brand'')
                   (or_default (trim (ps_tagline ps)) ''Scan to connect'')
                   (map_option Img (truthy (ps_logoUrl ps))) tpl) =
              QrToDataURL (trim (ps_url ps)) (poster_qrOptions (clampQrSize (js_Number e (ps_size ps))) tpl)
              # fst (createPoster e
                \<lparr>pp_template = tpl, pp_brandName = or_default (trim (ps_brandName ps)) ''Your Brand'',
                 pp_tagline = or_default (trim (ps_tagline ps)) ''Scan to connect'',
                 pp_url = trim (ps_url ps), pp_qrSize = clampQrSize (js_Number e (ps_size ps)),
                 pp_qrDataUrl = q, pp_logoImage = map_option Img (truthy (ps_logoUrl ps))\<rparr>)
          \<and> poster_for_segments e (trim (ps_url ps)) (clampQrSize (js_Number e (ps_size ps)))
                   (or_default (trim (ps_brandName ps)) ''Your Brand'')
                   (or_default (trim (ps_tagline ps)) ''Scan to connect'')
                   (map_option Img (truthy (ps_logoUrl ps))) tpl =
              createPoster_segments e
                \<lparr>pp_template = tpl, pp_brandName = or_default (trim (ps_brandName ps)) ''Your Brand'',
                 pp_tagline = or_default (trim (ps_tagline ps)) ''Scan to connect'',
                 pp_url = trim (ps_url ps), pp_qrSize = clampQrSize (js_Number e (ps_size ps)),
                 pp_qrDataUrl = q, pp_logoImage = map_option Img (truthy (ps_logoUrl ps))\<rparr>)
      \<and> (snd (poster_generate e ps) = Inr rs \<and> 0 < length rs \<longrightarrow>
            FillText (truncateText (trim (ps_url ps)) 52) (POSTER_WIDTH / 2) (clampQrSize (js_Number e (ps_size ps)) + 400)
              \<in> set (fst (handleSubmit_poster e ps))))
   \<and> (trim (bs_url bs) = [] \<longrightarrow>
      handleSubmit_banner e bs =
        ([], bs\<lparr>bs_error := ''Please enter a URL to embed in the banner QR code.''\<rparr>)
      \<and> bs_bannerUrl (snd (handleSubmit_banner e bs)) = bs_bannerUrl bs)
   \<and> (trim (bs_url bs) \<noteq> [] \<longrightarrow>
      fst (handleSubmit_banner e bs) = fst (banner_generate e bs)
      \<and> snd (handleSubmit_banner e bs) =
          (case snd (banner_generate e bs) of
             Inl err \<Rightarrow> bs\<lparr>bs_bannerUrl := None, bs_loading := False,
                            bs_error := ''Could not generate the banner. Please try again.''\<rparr>
           | Inr png \<Rightarrow> bs\<lparr>bs_bannerUrl := Some png, bs_loading := False, bs_error := ''''\<rparr>)
      \<and> (QrToDataURL t opts \<in> set (fst (handleSubmit_banner e bs)) \<longrightarrow> t = trim (bs_url bs))
      \<and> (snd (loadFonts e (Font 700 60 DISPLAY_FONT) (Font 500 24 BODY_FONT)) = None \<longrightarrow>
            QrToDataURL (trim (bs_url bs)) banner_qrOptions \<in> set (fst (handleSubmit_banner e bs)))
      \<and> bp_url (banner_payload bs q) = trim (bs_url bs)
      \<and> (snd (loadFonts e (Font 700 60 DISPLAY_FONT) (Font 500 24 BODY_FONT)) = None
           \<and> qr_toDataURL e (trim (bs_url bs)) banner_qrOptions = Inr q \<longrightarrow>
            fst (handleSubmit_banner e bs) =
              fst (loadFonts e (Font 700 60 DISPLAY_FONT) (Font 500 24 BODY_FONT))
              @ [QrToDataURL (trim (bs_url bs)) banner_qrOptions]
              @ fst (createBanner e (banner_payload bs q))))
   \<and> (trim (cs_website cs) = [] \<longrightarrow>
      handleSubmit_card e cs =
        ([], cs\<lparr>cs_error := ''Please enter a website URL to generate a QR code.''\<rparr>)
      \<and> cs_cardUrl (snd (handleSubmit_card e cs)) = cs_cardUrl cs)
   \<and> (trim (cs_website cs) \<noteq> [] \<longrightarrow>
      fst (handleSubmit_card e cs) = fst (card_generate e cs)
      \<and> snd (handleSubmit_card e cs) =
          (case snd (card_generate e cs) of
             Inl err \<Rightarrow> cs\<lparr>cs_cardUrl := None, cs_loading := False,
                            cs_error := ''Could not generate the business card. Please try again.''\<rparr>
           | Inr png \<Rightarrow> cs\<lparr>cs_cardUrl := Some png, cs_loading := False, cs_error := ''''\<rparr>)
      \<and> (QrToDataURL t opts \<in> set (fst (handleSubmit_card e cs)) \<longrightarrow> t = trim (cs_website cs))
      \<and> (snd (loadFonts e (Font 700 44 DISPLAY_FONT) (Font 600 18 BODY_FONT)) = None \<longrightarrow>
            QrToDataURL (trim (cs_website cs)) card_qrOptions \<in> set (fst (handleSubmit_card e cs)))
      \<and> cp_website (card_payload cs q) = trim (cs_website cs)
      \<and> (snd (loadFonts e (Font 700 44 DISPLAY_FONT) (Font 600 18 BODY_FONT)) = None
           \<and> qr_toDataURL e (trim (cs_website cs)) card_qrOptions = Inr q \<longrightarrow>
            fst (handleSubmit_card e cs) =
              fst (loadFonts e (Font 700 44 DISPLAY_FONT) (Font 600 18 BODY_FONT))
              @ [QrToDataURL (trim (cs_website cs)) card_qrOptions]
              @ fst (createBusinessCard e (card_payload cs q))))"
proof -
  have p0: "trim (ps_url ps) = [] \<longrightarrow>
      handleSubmit_poster e ps = ([], ps\<lparr>ps_error := ''Please enter a URL to generate posters.''\<rparr>)
      \<and> ps_posters (snd (handleSubmit_poster e ps)) = ps_posters ps"
    by (simp add: handleSubmit_poster_def Let_def)
  have b0: "trim (bs_url bs) = [] \<longrightarrow>
      handleSubmit_banner e bs =
        ([], bs\<lparr>bs_error := ''Please enter a URL to embed in the banner QR code.''\<rparr>)
      \<and> bs_bannerUrl (snd (handleSubmit_banner e bs)) = bs_bannerUrl bs"
    by (simp add: handleSubmit_banner_def Let_def)
  have c0: "trim (cs_website cs) = [] \<longrightarrow>
      handleSubmit_card e cs =
        ([], cs\<lparr>cs_error := ''Please enter a website URL to generate a QR code.''\<rparr>)
      \<and> cs_cardUrl (snd (handleSubmit_card e cs)) = cs_cardUrl cs"
    by (simp add: handleSubmit_card_def Let_def)
  have pq: "QrToDataURL t opts \<in> set (fst (poster_generate e ps)) \<longrightarrow> t = trim (ps_url ps)"
    using poster_generate_qr_source [of "QrToDataURL t opts" e ps] by auto
  have bq: "QrToDataURL t opts \<in> set (fst (banner_generate e bs)) \<longrightarrow> t = trim (bs_url bs)"
  proof
    assume "QrToDataURL t opts \<in> set (fst (banner_generate e bs))"
    then have "QrToDataURL t opts \<in> set (filter is_QrToDataURL (fst (banner_generate e bs)))"
      by simp
    then show "t = trim (bs_url bs)" by (auto simp: generate_qr_calls split: option.splits)
  qed
  have cq: "QrToDataURL t opts \<in> set (fst (card_generate e cs)) \<longrightarrow> t = trim (cs_website cs)"
  proof
    assume "QrToDataURL t opts \<in> set (fst (card_generate e cs))"
    then have "QrToDataURL t opts \<in> set (filter is_QrToDataURL (fst (card_generate e cs)))"
      by simp
    then show "t = trim (cs_website cs)" by (auto simp: generate_qr_calls split: option.splits)
  qed
  have bm: "snd (loadFonts e (Font 700 60 DISPLAY_FONT) (Font 500 24 BODY_FONT)) = None \<longrightarrow>
            QrToDataURL (trim (bs_url bs)) banner_qrOptions \<in> set (fst (banner_generate e bs))"
  proof
    assume "snd (loadFonts e (Font 700 60 DISPLAY_FONT) (Font 500 24 BODY_FONT)) = None"
    then have "filter is_QrToDataURL (fst (banner_generate e bs)) =
        [QrToDataURL (trim (bs_url bs)) banner_qrOptions]"
      by (simp add: generate_qr_calls)
    then show "QrToDataURL (trim (bs_url bs)) banner_qrOptions \<in> set (fst (banner_generate e bs))"
      by (rule filter_mem)
  qed
  have cm: "snd (loadFonts e (Font 700 44 DISPLAY_FONT) (Font 600 18 BODY_FONT)) = None \<longrightarrow>
            QrToDataURL (trim (cs_website cs)) card_qrOptions \<in> set (fst (card_generate e cs))"
  proof
    assume "snd (loadFonts e (Font 700 44 DISPLAY_FONT) (Font 600 18 BODY_FONT)) = None"
    then have "filter is_QrToDataURL (fst (card_generate e cs)) =
        [QrToDataURL (trim (cs_website cs)) card_qrOptions]"
      by (simp add: generate_qr_calls)
    then show "QrToDataURL (trim (cs_website cs)) card_qrOptions \<in> set (fst (card_generate e cs))"
      by (rule filter_mem)
  qed
  have pay: "bp_url (banner_payload bs q) = trim (bs_url bs)"
    "cp_website (card_payload cs q) = trim (cs_website cs)"
    by (simp_all add: banner_payload_def card_payload_def)
  have p1: "trim (ps_url ps) \<noteq> [] \<longrightarrow>
      fst (handleSubmit_poster e ps) = fst (poster_generate e ps)
      \<and> snd (handleSubmit_poster e ps) =
          (case snd (poster_generate e ps) of
             Inl err \<Rightarrow> ps\<lparr>ps_posters := [], ps_loading := False,
                            ps_error := ''Could not generate branded posters. Please try again.''\<rparr>
           | Inr rs \<Rightarrow> ps\<lparr>ps_posters := rs, ps_loading := False, ps_error := ''''\<rparr>)
      \<and> (QrToDataURL t opts \<in> set (fst (handleSubmit_poster e ps)) \<longrightarrow> t = trim (ps_url ps))
      \<and> (snd (loadFonts e (Font 700 48 DISPLAY_FONT) (Font 500 20 BODY_FONT)) = None
           \<and> \<not> isl (snd (poster_logo e ps)) \<longrightarrow>
            (\<forall>tpl \<in> set (poster_templates e ps).
               QrToDataURL (trim (ps_url ps)) (poster_qrOptions (clampQrSize (js_Number e (ps_size ps))) tpl)
                 \<in> set (fst (handleSubmit_poster e ps))))
      \<and> (qr_toDataURL e (trim (ps_url ps)) (poster_qrOptions (clampQrSize (js_Number e (ps_size ps))) tpl) = Inr q \<longrightarrow>
            fst (poster_for e (trim (ps_url ps)) (clampQrSize (js_Number e (ps_size ps)))
                   (or_default (trim (ps_brandName ps)) ''Your Brand'')
                   (or_default (trim (ps_tagline ps)) ''Scan to connect'')
                   (map_option Img (truthy (ps_logoUrl ps))) tpl) =
              QrToDataURL (trim (ps_url ps)) (poster_qrOptions (clampQrSize (js_Number e (ps_size ps))) tpl)
              # fst (createPoster e
                \<lparr>pp_template = tpl, pp_brandName = or_default (trim (ps_brandName ps)) ''Your Brand'',
                 pp_tagline = or_default (trim (ps_tagline ps)) ''Scan to connect'',
                 pp_url = trim (ps_url ps), pp_qrSize = clampQrSize (js_Number e (ps_size ps)),
                 pp_qrDataUrl = q, pp_logoImage = map_option Img (truthy (ps_logoUrl ps))\<rparr>)
          \<and> poster_for_segments e (trim (ps_url ps)) (clampQrSize (js_Number e (ps_size ps)))
                   (or_default (trim (ps_brandName ps)) ''Your Brand'')
                   (or_default (trim (ps_tagline ps)) ''Scan to connect'')
                   (map_option Img (truthy (ps_logoUrl ps))) tpl =
              createPoster_segments e
                \<lparr>pp_template = tpl, pp_brandName = or_default (trim (ps_brandName ps)) ''Your Brand'',
                 pp_tagline = or_default (trim (ps_tagline ps)) ''Scan to connect'',
                 pp_url = trim (ps_url ps), pp_qrSize = clampQrSize (js_Number e (ps_size ps)),
                 pp_qrDataUrl = q, pp_logoImage = map_option Img (truthy (ps_logoUrl ps))\<rparr>)
      \<and> (snd (poster_generate e ps) = Inr rs \<and> 0 < length rs \<longrightarrow>
            FillText (truncateText (trim (ps_url ps)) 52) (POSTER_WIDTH / 2) (clampQrSize (js_Number e (ps_size ps)) + 400)
              \<in> set (fst (handleSubmit_poster e ps)))"
  proof
    assume n: "trim (ps_url ps) \<noteq> []"
    have 1: "fst (handleSubmit_poster e ps) = fst (poster_generate e ps)"
      using n by (simp add: handleSubmit_trace(4))
    have 2: "snd (handleSubmit_poster e ps) =
          (case snd (poster_generate e ps) of
             Inl err \<Rightarrow> ps\<lparr>ps_posters := [], ps_loading := False,
                            ps_error := ''Could not generate branded posters. Please try again.''\<rparr>
           | Inr rs \<Rightarrow> ps\<lparr>ps_posters := rs, ps_loading := False, ps_error := ''''\<rparr>)"
      using n by (simp add: handleSubmit_state(4))
    have 3: "QrToDataURL t opts \<in> set (fst (handleSubmit_poster e ps)) \<longrightarrow> t = trim (ps_url ps)"
      using pq unfolding 1 .
    have 4: "snd (loadFonts e (Font 700 48 DISPLAY_FONT) (Font 500 20 BODY_FONT)) = None
           \<and> \<not> isl (snd (poster_logo e ps)) \<longrightarrow>
            (\<forall>tpl \<in> set (poster_templates e ps).
               QrToDataURL (trim (ps_url ps)) (poster_qrOptions (clampQrSize (js_Number e (ps_size ps))) tpl)
                 \<in> set (fst (handleSubmit_poster e ps)))"
      unfolding 1 using poster_qr_members [of e ps] by blast
    have 5: "qr_toDataURL e (trim (ps_url ps)) (poster_qrOptions (clampQrSize (js_Number e (ps_size ps))) tpl) = Inr q \<longrightarrow>
            fst (poster_for e (trim (ps_url ps)) (clampQrSize (js_Number e (ps_size ps)))
                   (or_default (trim (ps_brandName ps)) ''Your Brand'')
                   (or_default (trim (ps_tagline ps)) ''Scan to connect'')
                   (map_option Img (truthy (ps_logoUrl ps))) tpl) =
              QrToDataURL (trim (ps_url ps)) (poster_qrOptions (clampQrSize (js_Number e (ps_size ps))) tpl)
              # fst (createPoster e
                \<lparr>pp_template = tpl, pp_brandName = or_default (trim (ps_brandName ps)) ''Your Brand'',
                 pp_tagline = or_default (trim (ps_tagline ps)) ''Scan to connect'',
                 pp_url = trim (ps_url ps), pp_qrSize = clampQrSize (js_Number e (ps_size ps)),
                 pp_qrDataUrl = q, pp_logoImage = map_option Img (truthy (ps_logoUrl ps))\<rparr>)
          \<and> poster_for_segments e (trim (ps_url ps)) (clampQrSize (js_Number e (ps_size ps)))
                   (or_default (trim (ps_brandName ps)) ''Your Brand'')
                   (or_default (trim (ps_tagline ps)) ''Scan to connect'')
                   (map_option Img (truthy (ps_logoUrl ps))) tpl =
              createPoster_segments e
                \<lparr>pp_template = tpl, pp_brandName = or_default (trim (ps_brandName ps)) ''Your Brand'',
                 pp_tagline = or_default (trim (ps_tagline ps)) ''Scan to connect'',
                 pp_url = trim (ps_url ps), pp_qrSize = clampQrSize (js_Number e (ps_size ps)),
                 pp_qrDataUrl = q, pp_logoImage = map_option Img (truthy (ps_logoUrl ps))\<rparr>"
      by (simp add: poster_for_unfold poster_for_segments_def poster_payload_def)
    have 6: "snd (poster_generate e ps) = Inr rs \<and> 0 < length rs \<longrightarrow>
            FillText (truncateText (trim (ps_url ps)) 52) (POSTER_WIDTH / 2) (clampQrSize (js_Number e (ps_size ps)) + 400)
              \<in> set (fst (handleSubmit_poster e ps))"
      unfolding 1 using poster_caption [of e ps rs 0] by blast
    from 1 2 3 4 5 6 show "fst (handleSubmit_poster e ps) = fst (poster_generate e ps)
      \<and> snd (handleSubmit_poster e ps) =
          (case snd (poster_generate e ps) of
             Inl err \<Rightarrow> ps\<lparr>ps_posters := [], ps_loading := False,
                            ps_error := ''Could not generate branded posters. Please try again.''\<rparr>
           | Inr rs \<Rightarrow> ps\<lparr>ps_posters := rs, ps_loading := False, ps_error := ''''\<rparr>)
      \<and> (QrToDataURL t opts \<in> set (fst (handleSubmit_poster e ps)) \<longrightarrow> t = trim (ps_url ps))
      \<and> (snd (loadFonts e (Font 700 48 DISPLAY_FONT) (Font 500 20 BODY_FONT)) = None
           \<and> \<not> isl (snd (poster_logo e ps)) \<longrightarrow>
            (\<forall>tpl \<in> set (poster_templates e ps).
               QrToDataURL (trim (ps_url ps)) (poster_qrOptions (clampQrSize (js_Number e (ps_size ps))) tpl)
                 \<in> set (fst (handleSubmit_poster e ps))))
      \<and> (qr_toDataURL e (trim (ps_url ps)) (poster_qrOptions (clampQrSize (js_Number e (ps_size ps))) tpl) = Inr q \<longrightarrow>
            fst (poster_for e (trim (ps_url ps)) (clampQrSize (js_Number e (ps_size ps)))
                   (or_default (trim (ps_brandName ps)) ''Your Brand'')
                   (or_default (trim (ps_tagline ps)) ''Scan to connect'')
                   (map_option Img (truthy (ps_logoUrl ps))) tpl) =
              QrToDataURL (trim (ps_url ps)) (poster_qrOptions (clampQrSize (js_Number e (ps_size ps))) tpl)
              # fst (createPoster e
                \<lparr>pp_template = tpl, pp_brandName = or_default (trim (ps_brandName ps)) ''Your Brand'',
                 pp_tagline = or_default (trim (ps_tagline ps)) ''Scan to connect'',
                 pp_url = trim (ps_url ps), pp_qrSize = clampQrSize (js_Number e (ps_size ps)),
                 pp_qrDataUrl = q, pp_logoImage = map_option Img (truthy (ps_logoUrl ps))\<rparr>)
          \<and> poster_for_segments e (trim (ps_url ps)) (clampQrSize (js_Number e (ps_size ps)))
                   (or_default (trim (ps_brandName ps)) ''Your Brand'')
                   (or_default (trim (ps_tagline ps)) ''Scan to connect'')
                   (map_option Img (truthy (ps_logoUrl ps))) tpl =
              createPoster_segments e
                \<lparr>pp_template = tpl, pp_brandName = or_default (trim (ps_brandName ps)) ''Your Brand'',
                 pp_tagline = or_default (trim (ps_tagline ps)) ''Scan to connect'',
                 pp_url = trim (ps_url ps), pp_qrSize = clampQrSize (js_Number e (ps_size ps)),
                 pp_qrDataUrl = q, pp_logoImage = map_option Img (truthy (ps_logoUrl ps))\<rparr>)
      \<and> (snd (poster_generate e ps) = Inr rs \<and> 0 < length rs \<longrightarrow>
            FillText (truncateText (trim (ps_url ps)) 52) (POSTER_WIDTH / 2) (clampQrSize (js_Number e (ps_size ps)) + 400)
              \<in> set (fst (handleSubmit_poster e ps)))"
      by (intro conjI)
  qed
  have b1: "trim (bs_url bs) \<noteq> [] \<longrightarrow>
      fst (handleSubmit_banner e bs) = fst (banner_generate e bs)
      \<and> snd (handleSubmit_banner e bs) =
          (case snd (banner_generate e bs) of
             Inl err \<Rightarrow> bs\<lparr>bs_bannerUrl := None, bs_loading := False,
                            bs_error := ''Could not generate the banner. Please try again.''\<rparr>
           | Inr png \<Rightarrow> bs\<lparr>bs_bannerUrl := Some png, bs_loading := False, bs_error := ''''\<rparr>)
      \<and> (QrToDataURL t opts \<in> set (fst (handleSubmit_banner e bs)) \<longrightarrow> t = trim (bs_url bs))
      \<and> (snd (loadFonts e (Font 700 60 DISPLAY_FONT) (Font 500 24 BODY_FONT)) = None \<longrightarrow>
            QrToDataURL (trim (bs_url bs)) banner_qrOptions \<in> set (fst (handleSubmit_banner e bs)))
      \<and> bp_url (banner_payload bs q) = trim (bs_url bs)
      \<and> (snd (loadFonts e (Font 700 60 DISPLAY_FONT) (Font 500 24 BODY_FONT)) = None
           \<and> qr_toDataURL e (trim (bs_url bs)) banner_qrOptions = Inr q \<longrightarrow>
            fst (handleSubmit_banner e bs) =
              fst (loadFonts e (Font 700 60 DISPLAY_FONT) (Font 500 24 BODY_FONT))
              @ [QrToDataURL (trim (bs_url bs)) banner_qrOptions]
              @ fst (createBanner e (banner_payload bs q)))"
    using bq bm pay(1) by (simp add: banner_generate_unfold handleSubmit_trace(1) handleSubmit_state(1))
  have c1: "trim (cs_website cs) \<noteq> [] \<longrightarrow>
      fst (handleSubmit_card e cs) = fst (card_generate e cs)
      \<and> snd (handleSubmit_card e cs) =
          (case snd (card_generate e cs) of
             Inl err \<Rightarrow> cs\<lparr>cs_cardUrl := None, cs_loading := False,
                            cs_error := ''Could not generate the business card. Please try again.''\<rparr>
           | Inr png \<Rightarrow> cs\<lparr>cs_cardUrl := Some png, cs_loading := False, cs_error := ''''\<rparr>)
      \<and> (QrToDataURL t opts \<in> set (fst (handleSubmit_card e cs)) \<longrightarrow> t = trim (cs_website cs))
      \<and> (snd (loadFonts e (Font 700 44 DISPLAY_FONT) (Font 600 18 BODY_FONT)) = None \<longrightarrow>
            QrToDataURL (trim (cs_website cs)) card_qrOptions \<in> set (fst (handleSubmit_card e cs)))
      \<and> cp_website (card_payload cs q) = trim (cs_website cs)
      \<and> (snd (loadFonts e (Font 700 44 DISPLAY_FONT) (Font 600 18 BODY_FONT)) = None
           \<and> qr_toDataURL e (trim (cs_website cs)) card_qrOptions = Inr q \<longrightarrow>
            fst (handleSubmit_card e cs) =
              fst (loadFonts e (Font 700 44 DISPLAY_FONT) (Font 600 18 BODY_FONT))
              @ [QrToDataURL (trim (cs_website cs)) card_qrOptions]
              @ fst (createBusinessCard e (card_payload cs q)))"
    using cq cm pay(2) by (simp add: card_generate_unfold handleSubmit_trace(2) handleSubmit_state(2))
  from p0 p1 b0 b1 c0 c1 show ?thesis by (intro conjI)
qed

lemma blank_urls:
  "trim ''  '' = []"
  "trim (bs_url initial_banner) = ''https://site2qr.com''"
  "trim (cs_website initial_card) = ''https://site2qr.com''"
  "snd (loadFonts sample_env (Font 700 60 DISPLAY_FONT) (Font 500 24 BODY_FONT)) = None"
  "snd (loadFonts sample_env (Font 700 44 DISPLAY_FONT) (Font 600 18 BODY_FONT)) = None"
  by code_simp+

lemma blank_states:
  "trim (ps_url initial_poster) = []"
  "trim (bs_url (initial_banner\<lparr>bs_url := ''  '', bs_bannerUrl := Some ''data:old''\<rparr>)) = []"
  "trim (cs_website (initial_card\<lparr>cs_website := ''  '', cs_cardUrl := Some ''data:old''\<rparr>)) = []"
  "trim (bs_url initial_banner) \<noteq> []"
  "trim (cs_website initial_card) \<noteq> []"
  "trim (ps_url (initial_poster\<lparr>ps_url := '' https://site2qr.com ''\<rparr>)) \<noteq> []"
  by code_simp+

lemma poster_sample:
  "snd (loadFonts sample_env (Font 700 48 DISPLAY_FONT) (Font 500 20 BODY_FONT)) = None
   \<and> \<not> isl (snd (poster_logo sample_env (initial_poster\<lparr>ps_url := '' https://site2qr.com ''\<rparr>)))"
  "snd (poster_generate sample_env (initial_poster\<lparr>ps_url := '' https://site2qr.com ''\<rparr>)) =
     Inr [\<lparr>r_id = ''gilt'', r_name = ''Gilt Plaque'',
            r_description = ''Classic dark board with gold framing.'',
            r_posterUrl = ''data:image/png''\<rparr>,
          \<lparr>r_id = ''noir'', r_name = ''Noir Accent'',
            r_description = ''Deep tones with bold accent energy.'',
            r_posterUrl = ''data:image/png''\<rparr>,
          \<lparr>r_id = ''ivory'', r_name = ''Ivory Studio'',
            r_description = ''Light premium layout with soft framing.'',
            r_posterUrl = ''data:image/png''\<rparr>]
   \<and> 0 < length [\<lparr>r_id = ''gilt'', r_name = ''Gilt Plaque'',
            r_description = ''Classic dark board with gold framing.'',
            r_posterUrl = ''data:image/png''\<rparr>,
          \<lparr>r_id = ''noir'', r_name = ''Noir Accent'',
            r_description = ''Deep tones with bold accent energy.'',
            r_posterUrl = ''data:image/png''\<rparr>,
          \<lparr>r_id = ''ivory'', r_name = ''Ivory Studio'',
            r_description = ''Light premium layout with soft framing.'',
            r_posterUrl = ''data:image/png''\<rparr>]"
  "truncateText (trim (ps_url (initial_poster\<lparr>ps_url := '' https://site2qr.com ''\<rparr>))) 52 =
     ''https://site2qr.com''"
  "length (poster_templates sample_env (initial_poster\<lparr>ps_url := '' https://site2qr.com ''\<rparr>)) = 3"
  by code_simp+

theorem url_validation_witness:
  "handleSubmit_poster sample_env initial_poster =
     ([], initial_poster\<lparr>ps_error := ''Please enter a URL to generate posters.''\<rparr>)
   \<and> handleSubmit_banner sample_env (initial_banner\<lparr>bs_url := ''  '', bs_bannerUrl := Some ''data:old''\<rparr>) =
     ([], initial_banner\<lparr>bs_url := ''  '', bs_bannerUrl := Some ''data:old'',
            bs_error := ''Please enter a URL to embed in the banner QR code.''\<rparr>)
   \<and> handleSubmit_card sample_env (initial_card\<lparr>cs_website := ''  '', cs_cardUrl := Some ''data:old''\<rparr>) =
     ([], initial_card\<lparr>cs_website := ''  '', cs_cardUrl := Some ''data:old'',
            cs_error := ''Please enter a website URL to generate a QR code.''\<rparr>)
   \<and> QrToDataURL (trim (bs_url initial_banner)) banner_qrOptions
        \<in> set (fst (handleSubmit_banner sample_env initial_banner))
   \<and> QrToDataURL (trim (cs_website initial_card)) card_qrOptions
        \<in> set (fst (handleSubmit_card sample_env initial_card))
   \<and> trim (ps_url (initial_poster\<lparr>ps_url := '' https://site2qr.com ''\<rparr>)) \<noteq> []
   \<and> list_all (\<lambda>tpl. QrToDataURL (trim (ps_url (initial_poster\<lparr>ps_url := '' https://site2qr.com ''\<rparr>)))
                       (poster_qrOptions
                          (clampQrSize (js_Number sample_env
                             (ps_size (initial_poster\<lparr>ps_url := '' https://site2qr.com ''\<rparr>)))) tpl)
                     \<in> set (fst (handleSubmit_poster sample_env
                                 (initial_poster\<lparr>ps_url := '' https://site2qr.com ''\<rparr>))))
        (poster_templates sample_env (initial_poster\<lparr>ps_url := '' https://site2qr.com ''\<rparr>))
   \<and> length (poster_templates sample_env (initial_poster\<lparr>ps_url := '' https://site2qr.com ''\<rparr>)) = 3
   \<and> FillText (truncateText (trim (ps_url (initial_poster\<lparr>ps_url := '' https://site2qr.com ''\<rparr>))) 52)
        (POSTER_WIDTH / 2)
        (clampQrSize (js_Number sample_env
           (ps_size (initial_poster\<lparr>ps_url := '' https://site2qr.com ''\<rparr>))) + 400)
        \<in> set (fst (handleSubmit_poster sample_env (initial_poster\<lparr>ps_url := '' https://site2qr.com ''\<rparr>)))
   \<and> truncateText (trim (ps_url (initial_poster\<lparr>ps_url := '' https://site2qr.com ''\<rparr>))) 52 =
       ''https://site2qr.com''"
proof -
  let ?B = "initial_banner\<lparr>bs_url := ''  '', bs_bannerUrl := Some ''data:old''\<rparr>"
  let ?C = "initial_card\<lparr>cs_website := ''  '', cs_cardUrl := Some ''data:old''\<rparr>"
  let ?P = "initial_poster\<lparr>ps_url := '' https://site2qr.com ''\<rparr>"
  note blank = url_validation [where e = sample_env and ps = initial_poster and bs = ?B and cs = ?C
      and t = "[]" and opts = banner_qrOptions and q = "[]"]
  note filled = url_validation [where e = sample_env and ps = ?P and bs = initial_banner
      and cs = initial_card and t = "[]" and opts = banner_qrOptions and q = "[]"
      and rs = "[\<lparr>r_id = ''gilt'', r_name = ''Gilt Plaque'',
            r_description = ''Classic dark board with gold framing.'',
            r_posterUrl = ''data:image/png''\<rparr>,
          \<lparr>r_id = ''noir'', r_name = ''Noir Accent'',
            r_description = ''Deep tones with bold accent energy.'',
            r_posterUrl = ''data:image/png''\<rparr>,
          \<lparr>r_id = ''ivory'', r_name = ''Ivory Studio'',
            r_description = ''Light premium layout with soft framing.'',
            r_posterUrl = ''data:image/png''\<rparr>]"]
  have w1: "handleSubmit_poster sample_env initial_poster =
     ([], initial_poster\<lparr>ps_error := ''Please enter a URL to generate posters.''\<rparr>)"
    by (rule blank [THEN conjunct1, THEN mp, OF blank_states(1), THEN conjunct1])
  have w2: "handleSubmit_banner sample_env ?B =
     ([], ?B\<lparr>bs_error := ''Please enter a URL to embed in the banner QR code.''\<rparr>)"
    by (rule blank [THEN conjunct2, THEN conjunct2, THEN conjunct1, THEN mp, OF blank_states(2),
          THEN conjunct1])
  have w3: "handleSubmit_card sample_env ?C =
     ([], ?C\<lparr>cs_error := ''Please enter a website URL to generate a QR code.''\<rparr>)"
    by (rule blank [THEN conjunct2, THEN conjunct2, THEN conjunct2, THEN conjunct2, THEN conjunct1,
          THEN mp, OF blank_states(3), THEN conjunct1])
  have w4: "QrToDataURL (trim (bs_url initial_banner)) banner_qrOptions
        \<in> set (fst (handleSubmit_banner sample_env initial_banner))"
    by (rule filled [THEN conjunct2, THEN conjunct2, THEN conjunct2, THEN conjunct1, THEN mp,
          OF blank_states(4), THEN conjunct2, THEN conjunct2, THEN conjunct2, THEN conjunct1,
          THEN mp, OF blank_urls(4)])
  have w5: "QrToDataURL (trim (cs_website initial_card)) card_qrOptions
        \<in> set (fst (handleSubmit_card sample_env initial_card))"
    by (rule filled [THEN conjunct2, THEN conjunct2, THEN conjunct2, THEN conjunct2, THEN conjunct2,
          THEN mp, OF blank_states(5), THEN conjunct2, THEN conjunct2, THEN conjunct2,
          THEN conjunct1, THEN mp, OF blank_urls(5)])
  have "\<forall>tpl \<in> set (poster_templates sample_env ?P).
          QrToDataURL (trim (ps_url ?P))
            (poster_qrOptions (clampQrSize (js_Number sample_env (ps_size ?P))) tpl)
          \<in> set (fst (handleSubmit_poster sample_env ?P))"
    by (rule filled [THEN conjunct2, THEN conjunct1, THEN mp, OF blank_states(6),
          THEN conjunct2, THEN conjunct2, THEN conjunct2, THEN conjunct1, THEN mp,
          OF poster_sample(1)])
  then have w6: "list_all (\<lambda>tpl. QrToDataURL (trim (ps_url ?P))
            (poster_qrOptions (clampQrSize (js_Number sample_env (ps_size ?P))) tpl)
          \<in> set (fst (handleSubmit_poster sample_env ?P))) (poster_templates sample_env ?P)"
    by (simp only: list_all_iff)
  have w7: "FillText (truncateText (trim (ps_url ?P)) 52) (POSTER_WIDTH / 2)
        (clampQrSize (js_Number sample_env (ps_size ?P)) + 400)
        \<in> set (fst (handleSubmit_poster sample_env ?P))"
    by (rule filled [THEN conjunct2, THEN conjunct1, THEN mp, OF blank_states(6),
          THEN conjunct2, THEN conjunct2, THEN conjunct2, THEN conjunct2, THEN conjunct2,
          THEN mp, OF poster_sample(2)])
  from w1 w2 w3 w4 w5 blank_states(6) w6 poster_sample(4) w7 poster_sample(3)
  show ?thesis by (intro conjI)
qed


text \<open>
  Claim C9. For every string and every \<open>maxLength \<ge> 3\<close>, \<open>truncateText\<close> returns the
  string itself exactly when it has at most \<open>maxLength\<close> characters; otherwise the result
  has exactly \<open>maxLength\<close> characters, namely the first \<open>maxLength - 3\<close> characters of the
  string followed by three dots. The caption of the poster is \<open>truncateText url 52\<close>: it is
  the first of the two texts that \<open>createPoster\<close> draws after the QR image, it is in the
  script of every poster that is produced, with the trimmed URL of the form as \<open>url\<close>, and
  it never has more than 52 characters.
\<close>

theorem truncateText_spec:
  assumes "3 \<le> maxLength"
  shows "(truncateText val maxLength = val \<longleftrightarrow> int (length val) \<le> maxLength)
       \<and> (maxLength < int (length val) \<longrightarrow>
            int (length (truncateText val maxLength)) = maxLength
          \<and> truncateText val maxLength = take (nat (maxLength - 3)) val @ ''...''
          \<and> length (take (nat (maxLength - 3)) val) = nat (maxLength - 3))
       \<and> length (truncateText url 52) \<le> 52
       \<and> fillTexts (createPoster_from_qr pp i) = [truncateText (pp_url pp) 52, t_name (pp_template pp)]
       \<and> FillText (truncateText (pp_url pp) 52) (POSTER_WIDTH / 2)
            (poster_cardY + poster_cardHeight pp + 50) \<in> set (createPoster_from_qr pp i)
       \<and> (snd (createPoster e pp) = Inr png \<longrightarrow>
            FillText (truncateText (pp_url pp) 52) (POSTER_WIDTH / 2)
              (poster_cardY + poster_cardHeight pp + 50) \<in> set (fst (createPoster e pp)))
       \<and> (snd (poster_generate e ps) = Inr rs \<and> 0 < length rs \<longrightarrow>
            FillText (truncateText (trim (ps_url ps)) 52) (POSTER_WIDTH / 2)
              (clampQrSize (js_Number e (ps_size ps)) + 400) \<in> set (fst (poster_generate e ps)))"
proof -
  have a: "truncateText val maxLength = val \<longleftrightarrow> int (length val) \<le> maxLength"
  proof (cases "int (length val) \<le> maxLength")
    case True
    then show ?thesis by (simp add: truncateText_def)
  next
    case False
    then have "int (length (truncateText val maxLength)) = maxLength"
      using truncateText_long_length assms by simp
    then have "truncateText val maxLength \<noteq> val" using False by auto
    with False show ?thesis by simp
  qed
  have b: "maxLength < int (length val) \<longrightarrow>
            int (length (truncateText val maxLength)) = maxLength
          \<and> truncateText val maxLength = take (nat (maxLength - 3)) val @ ''...''
          \<and> length (take (nat (maxLength - 3)) val) = nat (maxLength - 3)"
    using truncateText_long [of maxLength val] truncateText_long_length [of maxLength val] assms
    by simp
  have c: "length (truncateText url 52) \<le> 52" for url
  proof (cases "int (length url) \<le> 52")
    case True
    then show ?thesis by (simp add: truncateText_def)
  next
    case False
    then have "int (length (truncateText url 52)) = 52"
      using truncateText_long_length [of 52 url] by simp
    then show ?thesis by simp
  qed
  have d: "fillTexts (createPoster_from_qr pp i) = [truncateText (pp_url pp) 52, t_name (pp_template pp)]"
    by (rule texts_drawn(6))
  have f: "FillText (truncateText (pp_url pp) 52) (POSTER_WIDTH / 2)
            (poster_cardY + poster_cardHeight pp + 50) \<in> set (createPoster_from_qr pp i)" for i
    by (simp add: createPoster_from_qr_def Let_def)
  have g: "snd (createPoster e pp) = Inr png \<longrightarrow>
            FillText (truncateText (pp_url pp) 52) (POSTER_WIDTH / 2)
              (poster_cardY + poster_cardHeight pp + 50) \<in> set (fst (createPoster e pp))"
  proof
    assume s: "snd (createPoster e pp) = Inr png"
    have "fst (createPoster e pp) = concat (createPoster_segments e pp)"
      by (simp add: createPoster_segments_concat)
    then have eq: "fst (createPoster e pp) =
        concat [[SetWidth POSTER_WIDTH, SetHeight POSTER_HEIGHT, GetContext ''2d'']
            @ createPoster_upto_qr e pp @ [LoadImage (pp_qrDataUrl pp)],
            createPoster_from_qr pp (Img (pp_qrDataUrl pp)) @ [ToDataURL ''image/png'']]"
      unfolding createPoster_segments_success(1) [OF s] .
    show "FillText (truncateText (pp_url pp) 52) (POSTER_WIDTH / 2)
              (poster_cardY + poster_cardHeight pp + 50) \<in> set (fst (createPoster e pp))"
      unfolding eq using f [of "Img (pp_qrDataUrl pp)"] by simp
  qed
  have h: "snd (poster_generate e ps) = Inr rs \<and> 0 < length rs \<longrightarrow>
            FillText (truncateText (trim (ps_url ps)) 52) (POSTER_WIDTH / 2)
              (clampQrSize (js_Number e (ps_size ps)) + 400) \<in> set (fst (poster_generate e ps))"
    using poster_caption [of e ps rs 0] by blast
  from a b c [of url] d f [of i] g h show ?thesis by (intro conjI)
qed

lemma caption_example:
  "truncateText long_url 52 = ''https://site2qr.com/campaigns/2024/spring-launch/...''"
  "length ''https://site2qr.com/campaigns/2024/spring-launch/...'' = 52"
  "pp_url (sample_poster_payload\<lparr>pp_url := long_url\<rparr>) = long_url"
  "t_name (pp_template (sample_poster_payload\<lparr>pp_url := long_url\<rparr>)) = ''Gilt Plaque''"
  by code_simp+

theorem truncateText_spec_witness:
  "(3::int) \<le> 8
   \<and> truncateText ''https://site2qr.com'' 8 = ''https...''
   \<and> int (length (truncateText ''https://site2qr.com'' 8)) = 8
   \<and> truncateText ''abc'' 8 = ''abc''
   \<and> fillTexts (createPoster_from_qr (sample_poster_payload\<lparr>pp_url := long_url\<rparr>) (Img ''q'')) =
       [''https://site2qr.com/campaigns/2024/spring-launch/...'', ''Gilt Plaque'']
   \<and> length ''https://site2qr.com/campaigns/2024/spring-launch/...'' = 52"
proof -
  have h: "(3::int) \<le> 8" by simp
  note t1 = truncateText_spec [OF h, of "''https://site2qr.com''" "''x''"
      "sample_poster_payload\<lparr>pp_url := long_url\<rparr>" "Img ''q''"]
  note t2 = truncateText_spec [OF h, of "''abc''" "''x''"]
  have 1: "truncateText ''https://site2qr.com'' 8 = ''https...''
     \<and> int (length (truncateText ''https://site2qr.com'' 8)) = 8"
    using t1 [THEN conjunct2, THEN conjunct1] by simp
  have 2: "truncateText ''abc'' 8 = ''abc''"
    using t2 [THEN conjunct1] by simp
  have 3: "fillTexts (createPoster_from_qr (sample_poster_payload\<lparr>pp_url := long_url\<rparr>) (Img ''q'')) =
       [''https://site2qr.com/campaigns/2024/spring-launch/...'', ''Gilt Plaque'']"
    using t1 [THEN conjunct2, THEN conjunct2, THEN conjunct2, THEN conjunct1]
    unfolding caption_example(1,3,4) .
  from h 1 2 3 caption_example(2) show ?thesis by simp
qed


end
